theory Spec2Isabelle
  imports Main "HOL-Library.Word"
begin

unbundle bit_operations_syntax

section \<open>Adafruit CAP1188 driver: data model\<close>

text \<open>
  The repository holds the driver in two variants with the same public interface:
  \<^item> the variant built on the Adafruit BusIO device classes (the source file whose
    \<^verbatim>\<open>begin\<close> opens an \<^verbatim>\<open>Adafruit_I2CDevice\<close> or \<^verbatim>\<open>Adafruit_SPIDevice\<close>);
    its functions carry the suffix \<open>_busio\<close> here;
  \<^item> the original variant in \<^verbatim>\<open>Adafruit_CAP1188.cpp\<close>, which drives \<^verbatim>\<open>Wire\<close>,
    \<^verbatim>\<open>SPIClass\<close> and the pins itself (including bit-banged SPI); its functions carry
    the suffix \<open>_legacy\<close>.
  Everything outside the driver (the Arduino core, the bus libraries, the chip) is an
  environment: a state of any type \<open>'c\<close> and a function that answers each call.
\<close>

type_synonym u8 = "8 word"

text \<open>A \<^verbatim>\<open>TwoWire *\<close> or \<^verbatim>\<open>SPIClass *\<close>: an opaque bus object.\<close>

type_synonym handle = nat

subsection \<open>Register map (Adafruit\_CAP1188.h)\<close>

abbreviation CAP1188_I2CADDR :: u8 where "CAP1188_I2CADDR \<equiv> 0x29"
abbreviation CAP1188_SENINPUTSTATUS :: u8 where "CAP1188_SENINPUTSTATUS \<equiv> 0x3"
abbreviation CAP1188_MTBLK :: u8 where "CAP1188_MTBLK \<equiv> 0x2A"
abbreviation CAP1188_LEDLINK :: u8 where "CAP1188_LEDLINK \<equiv> 0x72"
abbreviation CAP1188_PRODID :: u8 where "CAP1188_PRODID \<equiv> 0xFD"
abbreviation CAP1188_MANUID :: u8 where "CAP1188_MANUID \<equiv> 0xFE"
abbreviation CAP1188_STANDBYCFG :: u8 where "CAP1188_STANDBYCFG \<equiv> 0x41"
abbreviation CAP1188_REV :: u8 where "CAP1188_REV \<equiv> 0xFF"
abbreviation CAP1188_MAIN :: u8 where "CAP1188_MAIN \<equiv> 0x00"
abbreviation CAP1188_MAIN_INT :: u8 where "CAP1188_MAIN_INT \<equiv> 0x01"
abbreviation CAP1188_LEDPOL :: u8 where "CAP1188_LEDPOL \<equiv> 0x73"

subsection \<open>Calls into the environment\<close>

datatype pin_mode = INPUT | OUTPUT

abbreviation LOW :: u8 where "LOW \<equiv> 0"
abbreviation HIGH :: u8 where "HIGH \<equiv> 1"

datatype bit_order = SPI_BITORDER_MSBFIRST | SPI_BITORDER_LSBFIRST

datatype spi_mode = SPI_MODE0 | SPI_MODE1 | SPI_MODE2 | SPI_MODE3

text \<open>
  The BusIO device objects, as the constructors build them:
  \<^verbatim>\<open>new Adafruit_I2CDevice(i2caddr, theWire)\<close>,
  \<^verbatim>\<open>new Adafruit_SPIDevice(cspin, 2000000, SPI_BITORDER_MSBFIRST, SPI_MODE0, theSPI)\<close> and
  \<^verbatim>\<open>new Adafruit_SPIDevice(cspin, clkpin, misopin, mosipin, 2000000)\<close>.
\<close>

datatype i2c_device = Adafruit_I2CDevice u8 handle

datatype spi_device =
    Adafruit_SPIDevice_hw u8 nat bit_order spi_mode handle
  | Adafruit_SPIDevice_sw u8 u8 u8 u8 nat

text \<open>
  Every call the two variants make outside the driver. Pins are the 8-bit values the
  source passes (\<open>-1\<close> is \<open>0xFF\<close>); \<open>digitalWrite\<close> carries the value
  the source passes, which the pin takes as low when it is 0 and as high otherwise.
\<close>

datatype op =
    pinMode u8 pin_mode
  | digitalWrite u8 u8
  | digitalRead u8
  | delay nat
  | Serial_print string
  | Serial_println_HEX u8
  | Wire_begin handle
  | Wire_beginTransmission handle u8
  | Wire_write handle u8
  | Wire_endTransmission handle
  | Wire_requestFrom handle u8 nat
  | Wire_read handle
  | SPI_begin handle
  | SPI_beginTransaction handle nat bit_order spi_mode
  | SPI_endTransaction handle
  | SPI_transfer handle u8
  | I2CDevice_begin i2c_device
  | I2CDevice_write i2c_device "u8 list"
  | I2CDevice_write_then_read i2c_device "u8 list" nat
  | SPIDevice_begin spi_device
  | SPIDevice_write spi_device "u8 list"
  | SPIDevice_write_then_read spi_device "u8 list" nat

text \<open>
  The trace of an execution: \<open>Cmd\<close> for a call whose result the driver does not
  use, \<open>Ask\<close> for a call together with the value it returned to the driver.
\<close>

datatype event = Cmd op | Ask op u8

text \<open>One entry per call of \<^verbatim>\<open>readRegister\<close> (register, value returned) or
  \<^verbatim>\<open>writeRegister\<close> (register, value written).\<close>

datatype access = RegRead u8 u8 | RegWrite u8 u8

record 'c world =
  outside :: 'c
  trace :: "event list"
  accesses :: "access list"

text \<open>
  The environment answers a call from its state and moves to a new state. A boolean
  result is a byte that is non-zero for true. For a \<open>write_then_read\<close> of one byte the
  answer is the byte found in the read buffer after the call.
\<close>

type_synonym 'c environment = "op \<Rightarrow> 'c \<Rightarrow> u8 \<times> 'c"

definition exec :: "'c environment \<Rightarrow> op \<Rightarrow> 'c world \<Rightarrow> 'c world" where
  "exec E c w = w\<lparr>outside := snd (E c (outside w)), trace := trace w @ [Cmd c]\<rparr>"

definition ask :: "'c environment \<Rightarrow> op \<Rightarrow> 'c world \<Rightarrow> u8 \<times> 'c world" where
  "ask E c w =
     (let (r, s) = E c (outside w)
      in (r, w\<lparr>outside := s, trace := trace w @ [Ask c r]\<rparr>))"

definition execs :: "'c environment \<Rightarrow> op list \<Rightarrow> 'c world \<Rightarrow> 'c world" where
  "execs E cs w = foldl (\<lambda>w c. exec E c w) w cs"

definition log_access :: "access \<Rightarrow> 'c world \<Rightarrow> 'c world" where
  "log_access a w = w\<lparr>accesses := accesses w @ [a]\<rparr>"

text \<open>A call through a null device pointer ends the run.\<close>

datatype fault = NullPointer

definition after ::
  "fault + 'a \<times> 's \<Rightarrow> ('a \<Rightarrow> 's \<Rightarrow> fault + 'b \<times> 's) \<Rightarrow> fault + 'b \<times> 's" where
  "after m f = (case m of Inl e \<Rightarrow> Inl e | Inr (a, s) \<Rightarrow> f a s)"

section \<open>The BusIO variant\<close>

text \<open>The private fields of the class; both device pointers start as \<^verbatim>\<open>NULL\<close>.\<close>

record driver_busio =
  i2c_dev :: "i2c_device option"
  spi_dev :: "spi_device option"
  resetpin :: u8

definition Adafruit_CAP1188_i2c_busio :: "u8 \<Rightarrow> driver_busio" where
  "Adafruit_CAP1188_i2c_busio rst = \<lparr>i2c_dev = None, spi_dev = None, resetpin = rst\<rparr>"

definition Adafruit_CAP1188_hwspi_busio :: "u8 \<Rightarrow> u8 \<Rightarrow> handle \<Rightarrow> driver_busio" where
  "Adafruit_CAP1188_hwspi_busio cspin rst theSPI =
     \<lparr>i2c_dev = None,
      spi_dev = Some (Adafruit_SPIDevice_hw cspin 2000000 SPI_BITORDER_MSBFIRST SPI_MODE0 theSPI),
      resetpin = rst\<rparr>"

definition Adafruit_CAP1188_swspi_busio :: "u8 \<Rightarrow> u8 \<Rightarrow> u8 \<Rightarrow> u8 \<Rightarrow> u8 \<Rightarrow> driver_busio" where
  "Adafruit_CAP1188_swspi_busio clkpin misopin mosipin cspin rst =
     \<lparr>i2c_dev = None,
      spi_dev = Some (Adafruit_SPIDevice_sw cspin clkpin misopin mosipin 2000000),
      resetpin = rst\<rparr>"

definition readRegister_busio ::
  "'c environment \<Rightarrow> driver_busio \<Rightarrow> u8 \<Rightarrow> 'c world \<Rightarrow> fault + u8 \<times> 'c world" where
  "readRegister_busio E d reg w =
     (let buffer = [reg, 0, 0] in
      case i2c_dev d of
        Some dev \<Rightarrow>
          (let (r, w1) = ask E (I2CDevice_write_then_read dev (take 1 buffer) 1) w;
               buffer = buffer[0 := r]
           in Inr (buffer ! 0, log_access (RegRead reg (buffer ! 0)) w1))
      | None \<Rightarrow>
          (case spi_dev d of
             None \<Rightarrow> Inl NullPointer
           | Some dev \<Rightarrow>
               (let buffer = buffer[0 := 0x7D, 1 := reg, 2 := 0x7F];
                    (r, w1) = ask E (SPIDevice_write_then_read dev (take 3 buffer) 1) w;
                    buffer = buffer[0 := r]
                in Inr (buffer ! 0, log_access (RegRead reg (buffer ! 0)) w1))))"

definition writeRegister_busio ::
  "'c environment \<Rightarrow> driver_busio \<Rightarrow> u8 \<Rightarrow> u8 \<Rightarrow> 'c world \<Rightarrow> fault + unit \<times> 'c world" where
  "writeRegister_busio E d reg v w =
     (let buffer = [reg, v, 0, 0] in
      case i2c_dev d of
        Some dev \<Rightarrow>
          Inr ((), log_access (RegWrite reg v) (exec E (I2CDevice_write dev (take 2 buffer)) w))
      | None \<Rightarrow>
          (case spi_dev d of
             None \<Rightarrow> Inl NullPointer
           | Some dev \<Rightarrow>
               (let buffer = buffer[0 := 0x7D, 1 := reg, 2 := 0x7E, 3 := v]
                in Inr ((), log_access (RegWrite reg v)
                              (exec E (SPIDevice_write dev (take 4 buffer)) w)))))"

text \<open>
  In \<^verbatim>\<open>readRegister(CAP1188_MAIN) & ~CAP1188_MAIN_INT\<close> the operands are promoted to
  \<^verbatim>\<open>int\<close> and the result is cut to the \<^verbatim>\<open>uint8_t\<close> parameter: on 8 bits that is
  \<open>AND\<close> with \<open>NOT 1\<close>.
\<close>

definition touched_busio ::
  "'c environment \<Rightarrow> driver_busio \<Rightarrow> 'c world \<Rightarrow> fault + u8 \<times> 'c world" where
  "touched_busio E d w =
     after (readRegister_busio E d CAP1188_SENINPUTSTATUS w) (\<lambda>t w.
       if t \<noteq> 0 then
         after (readRegister_busio E d CAP1188_MAIN w) (\<lambda>m w.
         after (writeRegister_busio E d CAP1188_MAIN (m AND NOT CAP1188_MAIN_INT) w) (\<lambda>_ w.
           Inr (t, w)))
       else Inr (t, w))"

definition LEDpolarity_busio ::
  "'c environment \<Rightarrow> driver_busio \<Rightarrow> u8 \<Rightarrow> 'c world \<Rightarrow> fault + unit \<times> 'c world" where
  "LEDpolarity_busio E d inverted w = writeRegister_busio E d CAP1188_LEDPOL inverted w"

text \<open>
  \<^verbatim>\<open>begin\<close>: lines 96-105 open the bus (an instance built for SPI has its device
  already; otherwise the I2C device is created here), lines 107-115 pulse the reset pin,
  lines 117-139 identify and configure the chip. The \<^verbatim>\<open>||\<close> of the identity check
  evaluates its operands left to right and stops at the first that holds.
\<close>

definition reset_pulse :: "'c environment \<Rightarrow> u8 \<Rightarrow> 'c world \<Rightarrow> 'c world" where
  "reset_pulse E pin w =
     (if pin \<noteq> - 1 then
        execs E [pinMode pin OUTPUT,
                 digitalWrite pin LOW, delay 100,
                 digitalWrite pin HIGH, delay 100,
                 digitalWrite pin LOW, delay 100] w
      else w)"

definition identify_busio ::
  "'c environment \<Rightarrow> driver_busio \<Rightarrow> 'c world \<Rightarrow> fault + bool \<times> 'c world" where
  "identify_busio E d w =
     after (readRegister_busio E d CAP1188_PRODID w) (\<lambda>_ w.
     let w = exec E (Serial_print ''Product ID: 0x'') w in
     after (readRegister_busio E d CAP1188_PRODID w) (\<lambda>p w.
     let w = exec E (Serial_println_HEX p) w;
         w = exec E (Serial_print ''Manuf. ID: 0x'') w in
     after (readRegister_busio E d CAP1188_MANUID w) (\<lambda>m w.
     let w = exec E (Serial_println_HEX m) w;
         w = exec E (Serial_print ''Revision: 0x'') w in
     after (readRegister_busio E d CAP1188_REV w) (\<lambda>r w.
     let w = exec E (Serial_println_HEX r) w in
     after (readRegister_busio E d CAP1188_PRODID w) (\<lambda>p w.
       if p \<noteq> 0x50 then Inr (False, w) else
     after (readRegister_busio E d CAP1188_MANUID w) (\<lambda>m w.
       if m \<noteq> 0x5D then Inr (False, w) else
     after (readRegister_busio E d CAP1188_REV w) (\<lambda>r w.
       if r \<noteq> 0x83 then Inr (False, w) else
     after (writeRegister_busio E d CAP1188_MTBLK 0 w) (\<lambda>_ w.
     after (writeRegister_busio E d CAP1188_LEDLINK 0xFF w) (\<lambda>_ w.
     after (writeRegister_busio E d CAP1188_STANDBYCFG 0x30 w) (\<lambda>_ w.
       Inr (True, w)))))))))))"

definition begin_busio ::
  "'c environment \<Rightarrow> driver_busio \<Rightarrow> u8 \<Rightarrow> handle \<Rightarrow> 'c world
     \<Rightarrow> fault + (bool \<times> driver_busio) \<times> 'c world" where
  "begin_busio E d i2caddr theWire w =
     (case spi_dev d of
        Some dev \<Rightarrow>
          (let (opened, w) = ask E (SPIDevice_begin dev) w in
           if opened = 0 then Inr ((False, d), w)
           else after (identify_busio E d (reset_pulse E (resetpin d) w))
                  (\<lambda>ok w. Inr ((ok, d), w)))
      | None \<Rightarrow>
          (let dev = Adafruit_I2CDevice i2caddr theWire;
               d = d\<lparr>i2c_dev := Some dev\<rparr>;
               (opened, w) = ask E (I2CDevice_begin dev) w in
           if opened = 0 then Inr ((False, d), w)
           else after (identify_busio E d (reset_pulse E (resetpin d) w))
                  (\<lambda>ok w. Inr ((ok, d), w))))"

section \<open>The original variant (Wire, SPIClass and bit-banged SPI)\<close>

text \<open>
  The fields the source assigns and reads. The class declaration of this variant is not
  among the sources, so a constructor starts from the instance's memory \<open>m\<close> as it
  finds it and assigns what the source assigns.
\<close>

record driver_legacy =
  l_i2c :: bool
  l_resetpin :: u8
  l_cs :: u8
  l_clk :: u8
  l_miso :: u8
  l_mosi :: u8
  l_i2caddr :: u8
  l_wire :: "handle option"
  l_spi :: "handle option"

definition Adafruit_CAP1188_i2c_legacy :: "driver_legacy \<Rightarrow> u8 \<Rightarrow> driver_legacy" where
  "Adafruit_CAP1188_i2c_legacy m rst = m\<lparr>l_resetpin := rst, l_i2c := True\<rparr>"

definition Adafruit_CAP1188_hwspi_legacy ::
  "driver_legacy \<Rightarrow> u8 \<Rightarrow> u8 \<Rightarrow> handle \<Rightarrow> driver_legacy" where
  "Adafruit_CAP1188_hwspi_legacy m cspin rst theSPI =
     m\<lparr>l_cs := cspin, l_resetpin := rst, l_clk := - 1, l_i2c := False, l_spi := Some theSPI\<rparr>"

definition Adafruit_CAP1188_swspi_legacy ::
  "driver_legacy \<Rightarrow> u8 \<Rightarrow> u8 \<Rightarrow> u8 \<Rightarrow> u8 \<Rightarrow> u8 \<Rightarrow> driver_legacy" where
  "Adafruit_CAP1188_swspi_legacy m clkpin misopin mosipin cspin rst =
     m\<lparr>l_cs := cspin, l_resetpin := rst, l_clk := clkpin, l_miso := misopin,
       l_mosi := mosipin, l_i2c := False\<rparr>"

text \<open>
  The two bus pointers, \<^verbatim>\<open>_wire\<close> and \<^verbatim>\<open>_spi\<close>, are \<open>None\<close> while they refer
  to no object. \<^verbatim>\<open>_wire\<close> is assigned by \<^verbatim>\<open>begin\<close> on I2C only, \<^verbatim>\<open>_spi\<close> by the
  hardware-SPI constructor only; anywhere else they hold what the memory held. A call
  through a pointer that refers to no object ends the run, as in the BusIO variant.
\<close>

definition call_through ::
  "'c environment \<Rightarrow> handle option \<Rightarrow> (handle \<Rightarrow> op) \<Rightarrow> 'c world \<Rightarrow> fault + unit \<times> 'c world" where
  "call_through E p c w = (case p of None \<Rightarrow> Inl NullPointer | Some h \<Rightarrow> Inr ((), exec E (c h) w))"

definition ask_through ::
  "'c environment \<Rightarrow> handle option \<Rightarrow> (handle \<Rightarrow> op) \<Rightarrow> 'c world \<Rightarrow> fault + u8 \<times> 'c world" where
  "ask_through E p c w = (case p of None \<Rightarrow> Inl NullPointer | Some h \<Rightarrow> Inr (ask E (c h) w))"

definition spi_begin_legacy ::
  "'c environment \<Rightarrow> driver_legacy \<Rightarrow> 'c world \<Rightarrow> fault + unit \<times> 'c world" where
  "spi_begin_legacy E d w =
     call_through E (l_spi d)
       (\<lambda>spi. SPI_beginTransaction spi 2000000 SPI_BITORDER_MSBFIRST SPI_MODE0) w"

definition spi_end_legacy ::
  "'c environment \<Rightarrow> driver_legacy \<Rightarrow> 'c world \<Rightarrow> fault + unit \<times> 'c world" where
  "spi_end_legacy E d w = call_through E (l_spi d) SPI_endTransaction w"

definition i2cwrite_legacy ::
  "'c environment \<Rightarrow> driver_legacy \<Rightarrow> u8 \<Rightarrow> 'c world \<Rightarrow> fault + unit \<times> 'c world" where
  "i2cwrite_legacy E d x w = call_through E (l_wire d) (\<lambda>wire. Wire_write wire x) w"

text \<open>
  The loop of \<^verbatim>\<open>spixfer\<close>, \<^verbatim>\<open>for (int i = 7; i >= 0; i--)\<close>: \<open>spixfer_bit\<close> is
  its body, \<open>spixfer_loop\<close> the loop from a value of \<open>i\<close> on, with the reply built so
  far. \<^verbatim>\<open>data & (1 << i)\<close> is the value handed to \<^verbatim>\<open>digitalWrite\<close>.
\<close>

definition spixfer_bit ::
  "'c environment \<Rightarrow> driver_legacy \<Rightarrow> u8 \<Rightarrow> int \<Rightarrow> u8 \<Rightarrow> 'c world \<Rightarrow> u8 \<times> 'c world" where
  "spixfer_bit E d data i reply w =
     (let reply = push_bit 1 reply;
          w = exec E (digitalWrite (l_clk d) LOW) w;
          w = exec E (digitalWrite (l_mosi d) (data AND push_bit (nat i) 1)) w;
          w = exec E (digitalWrite (l_clk d) HIGH) w;
          (m, w) = ask E (digitalRead (l_miso d)) w;
          reply = (if m \<noteq> 0 then reply OR 1 else reply)
      in (reply, w))"

function spixfer_loop ::
  "'c environment \<Rightarrow> driver_legacy \<Rightarrow> u8 \<Rightarrow> int \<Rightarrow> u8 \<Rightarrow> 'c world \<Rightarrow> u8 \<times> 'c world" where
  "spixfer_loop E d data i reply w =
     (if i \<ge> 0 then
        (let s = spixfer_bit E d data i reply w
         in spixfer_loop E d data (i - 1) (fst s) (snd s))
      else (reply, w))"
  by pat_completeness auto
termination
  by (relation "measure (\<lambda>(E, d, data, i, reply, w). nat (i + 1))") auto

declare spixfer_loop.simps [simp del]

definition spixfer_legacy ::
  "'c environment \<Rightarrow> driver_legacy \<Rightarrow> u8 \<Rightarrow> 'c world \<Rightarrow> fault + u8 \<times> 'c world" where
  "spixfer_legacy E d data w =
     (if l_clk d = - 1 then ask_through E (l_spi d) (\<lambda>spi. SPI_transfer spi data) w
      else Inr (spixfer_loop E d data 7 0 w))"

definition readRegister_legacy ::
  "'c environment \<Rightarrow> driver_legacy \<Rightarrow> u8 \<Rightarrow> 'c world \<Rightarrow> fault + u8 \<times> 'c world" where
  "readRegister_legacy E d reg w =
     (if l_i2c d then
        after (call_through E (l_wire d) (\<lambda>wire. Wire_beginTransmission wire (l_i2caddr d)) w)
          (\<lambda>_ w.
        after (i2cwrite_legacy E d reg w) (\<lambda>_ w.
        after (call_through E (l_wire d) Wire_endTransmission w) (\<lambda>_ w.
        after (call_through E (l_wire d) (\<lambda>wire. Wire_requestFrom wire (l_i2caddr d) 1) w)
          (\<lambda>_ w.
        after (ask_through E (l_wire d) Wire_read w) (\<lambda>r w.
          Inr (r, log_access (RegRead reg r) w))))))
      else
        after (spi_begin_legacy E d w) (\<lambda>_ w.
        let w = exec E (digitalWrite (l_cs d) LOW) w in
        after (spixfer_legacy E d 0x7D w) (\<lambda>_ w.
        after (spixfer_legacy E d reg w) (\<lambda>_ w.
        let w = exec E (digitalWrite (l_cs d) HIGH) w;
            w = exec E (digitalWrite (l_cs d) LOW) w in
        after (spixfer_legacy E d 0x7F w) (\<lambda>_ w.
        after (spixfer_legacy E d 0 w) (\<lambda>reply w.
        let w = exec E (digitalWrite (l_cs d) HIGH) w in
        after (spi_end_legacy E d w) (\<lambda>_ w.
          Inr (reply, log_access (RegRead reg reply) w))))))))"

definition writeRegister_legacy ::
  "'c environment \<Rightarrow> driver_legacy \<Rightarrow> u8 \<Rightarrow> u8 \<Rightarrow> 'c world \<Rightarrow> fault + unit \<times> 'c world" where
  "writeRegister_legacy E d reg v w =
     (if l_i2c d then
        after (call_through E (l_wire d) (\<lambda>wire. Wire_beginTransmission wire (l_i2caddr d)) w)
          (\<lambda>_ w.
        after (i2cwrite_legacy E d reg w) (\<lambda>_ w.
        after (i2cwrite_legacy E d v w) (\<lambda>_ w.
        after (call_through E (l_wire d) Wire_endTransmission w) (\<lambda>_ w.
          Inr ((), log_access (RegWrite reg v) w)))))
      else
        after (spi_begin_legacy E d w) (\<lambda>_ w.
        let w = exec E (digitalWrite (l_cs d) LOW) w in
        after (spixfer_legacy E d 0x7D w) (\<lambda>_ w.
        after (spixfer_legacy E d reg w) (\<lambda>_ w.
        let w = exec E (digitalWrite (l_cs d) HIGH) w;
            w = exec E (digitalWrite (l_cs d) LOW) w in
        after (spixfer_legacy E d 0x7E w) (\<lambda>_ w.
        after (spixfer_legacy E d v w) (\<lambda>_ w.
        let w = exec E (digitalWrite (l_cs d) HIGH) w in
        after (spi_end_legacy E d w) (\<lambda>_ w.
          Inr ((), log_access (RegWrite reg v) w))))))))"

definition touched_legacy ::
  "'c environment \<Rightarrow> driver_legacy \<Rightarrow> 'c world \<Rightarrow> fault + u8 \<times> 'c world" where
  "touched_legacy E d w =
     after (readRegister_legacy E d CAP1188_SENINPUTSTATUS w) (\<lambda>t w.
       if t \<noteq> 0 then
         after (readRegister_legacy E d CAP1188_MAIN w) (\<lambda>m w.
         after (writeRegister_legacy E d CAP1188_MAIN (m AND NOT CAP1188_MAIN_INT) w) (\<lambda>_ w.
           Inr (t, w)))
       else Inr (t, w))"

definition LEDpolarity_legacy ::
  "'c environment \<Rightarrow> driver_legacy \<Rightarrow> u8 \<Rightarrow> 'c world \<Rightarrow> fault + unit \<times> 'c world" where
  "LEDpolarity_legacy E d inverted w = writeRegister_legacy E d CAP1188_LEDPOL inverted w"

text \<open>
  \<^verbatim>\<open>begin\<close>: lines 113-129 prepare the bus (none of these calls returns a result the
  source looks at), lines 131-139 pulse the reset pin, lines 141-163 identify and
  configure the chip.
\<close>

definition open_bus_legacy ::
  "'c environment \<Rightarrow> driver_legacy \<Rightarrow> u8 \<Rightarrow> handle \<Rightarrow> 'c world
     \<Rightarrow> fault + driver_legacy \<times> 'c world" where
  "open_bus_legacy E d i2caddr theWire w =
     (if l_i2c d then
        (let d = d\<lparr>l_wire := Some theWire\<rparr>;
             d = d\<lparr>l_i2caddr := i2caddr\<rparr>
         in after (call_through E (l_wire d) Wire_begin w) (\<lambda>_ w. Inr (d, w)))
      else if l_clk d = - 1 then
        (let w = execs E [pinMode (l_cs d) OUTPUT, digitalWrite (l_cs d) HIGH] w
         in after (call_through E (l_spi d) SPI_begin w) (\<lambda>_ w. Inr (d, w)))
      else
        Inr (d, execs E [pinMode (l_clk d) OUTPUT, pinMode (l_mosi d) OUTPUT,
                         pinMode (l_cs d) OUTPUT,
                         digitalWrite (l_cs d) HIGH, digitalWrite (l_clk d) HIGH] w))"

definition identify_legacy ::
  "'c environment \<Rightarrow> driver_legacy \<Rightarrow> 'c world \<Rightarrow> fault + bool \<times> 'c world" where
  "identify_legacy E d w =
     after (readRegister_legacy E d CAP1188_PRODID w) (\<lambda>_ w.
     let w = exec E (Serial_print ''Product ID: 0x'') w in
     after (readRegister_legacy E d CAP1188_PRODID w) (\<lambda>p w.
     let w = exec E (Serial_println_HEX p) w;
         w = exec E (Serial_print ''Manuf. ID: 0x'') w in
     after (readRegister_legacy E d CAP1188_MANUID w) (\<lambda>m w.
     let w = exec E (Serial_println_HEX m) w;
         w = exec E (Serial_print ''Revision: 0x'') w in
     after (readRegister_legacy E d CAP1188_REV w) (\<lambda>r w.
     let w = exec E (Serial_println_HEX r) w in
     after (readRegister_legacy E d CAP1188_PRODID w) (\<lambda>p w.
       if p \<noteq> 0x50 then Inr (False, w) else
     after (readRegister_legacy E d CAP1188_MANUID w) (\<lambda>m w.
       if m \<noteq> 0x5D then Inr (False, w) else
     after (readRegister_legacy E d CAP1188_REV w) (\<lambda>r w.
       if r \<noteq> 0x83 then Inr (False, w) else
     after (writeRegister_legacy E d CAP1188_MTBLK 0 w) (\<lambda>_ w.
     after (writeRegister_legacy E d CAP1188_LEDLINK 0xFF w) (\<lambda>_ w.
     after (writeRegister_legacy E d CAP1188_STANDBYCFG 0x30 w) (\<lambda>_ w.
       Inr (True, w)))))))))))"

definition begin_legacy ::
  "'c environment \<Rightarrow> driver_legacy \<Rightarrow> u8 \<Rightarrow> handle \<Rightarrow> 'c world
     \<Rightarrow> fault + (bool \<times> driver_legacy) \<times> 'c world" where
  "begin_legacy E d i2caddr theWire w =
     after (open_bus_legacy E d i2caddr theWire w) (\<lambda>d w.
     let w = reset_pulse E (l_resetpin d) w in
     after (identify_legacy E d w) (\<lambda>ok w. Inr ((ok, d), w)))"

text \<open>The pointer the register accesses of an instance go through.\<close>

definition pointer_legacy :: "driver_legacy \<Rightarrow> handle option" where
  "pointer_legacy d = (if l_i2c d then l_wire d else l_spi d)"

section \<open>The original variant with its pointers resolved\<close>

text \<open>
  What the functions of the original variant do when the pointer they call through
  refers to an object: the same statements, with \<open>the\<close> pointer in place of the call
  through it. Each \<open>_run\<close> function is shown below to be the result of the function
  it is named after, wherever that function returns; the properties of the functions are
  derived from those of their runs.
\<close>

definition spi_begin_run :: "'c environment \<Rightarrow> driver_legacy \<Rightarrow> 'c world \<Rightarrow> 'c world" where
  "spi_begin_run E d w =
     exec E (SPI_beginTransaction (the (l_spi d)) 2000000 SPI_BITORDER_MSBFIRST SPI_MODE0) w"

definition spi_end_run :: "'c environment \<Rightarrow> driver_legacy \<Rightarrow> 'c world \<Rightarrow> 'c world" where
  "spi_end_run E d w = exec E (SPI_endTransaction (the (l_spi d))) w"

definition i2cwrite_run :: "'c environment \<Rightarrow> driver_legacy \<Rightarrow> u8 \<Rightarrow> 'c world \<Rightarrow> 'c world" where
  "i2cwrite_run E d x w = exec E (Wire_write (the (l_wire d)) x) w"

definition spixfer_run ::
  "'c environment \<Rightarrow> driver_legacy \<Rightarrow> u8 \<Rightarrow> 'c world \<Rightarrow> u8 \<times> 'c world" where
  "spixfer_run E d data w =
     (if l_clk d = - 1 then ask E (SPI_transfer (the (l_spi d)) data) w
      else spixfer_loop E d data 7 0 w)"

definition readRegister_run ::
  "'c environment \<Rightarrow> driver_legacy \<Rightarrow> u8 \<Rightarrow> 'c world \<Rightarrow> u8 \<times> 'c world" where
  "readRegister_run E d reg w =
     (if l_i2c d then
        (let w = exec E (Wire_beginTransmission (the (l_wire d)) (l_i2caddr d)) w;
             w = i2cwrite_run E d reg w;
             w = exec E (Wire_endTransmission (the (l_wire d))) w;
             w = exec E (Wire_requestFrom (the (l_wire d)) (l_i2caddr d) 1) w;
             (r, w) = ask E (Wire_read (the (l_wire d))) w
         in (r, log_access (RegRead reg r) w))
      else
        (let w = spi_begin_run E d w;
             w = exec E (digitalWrite (l_cs d) LOW) w;
             (_, w) = spixfer_run E d 0x7D w;
             (_, w) = spixfer_run E d reg w;
             w = exec E (digitalWrite (l_cs d) HIGH) w;
             w = exec E (digitalWrite (l_cs d) LOW) w;
             (_, w) = spixfer_run E d 0x7F w;
             (reply, w) = spixfer_run E d 0 w;
             w = exec E (digitalWrite (l_cs d) HIGH) w;
             w = spi_end_run E d w
         in (reply, log_access (RegRead reg reply) w)))"

definition writeRegister_run ::
  "'c environment \<Rightarrow> driver_legacy \<Rightarrow> u8 \<Rightarrow> u8 \<Rightarrow> 'c world \<Rightarrow> 'c world" where
  "writeRegister_run E d reg v w =
     (if l_i2c d then
        (let w = exec E (Wire_beginTransmission (the (l_wire d)) (l_i2caddr d)) w;
             w = i2cwrite_run E d reg w;
             w = i2cwrite_run E d v w;
             w = exec E (Wire_endTransmission (the (l_wire d))) w
         in log_access (RegWrite reg v) w)
      else
        (let w = spi_begin_run E d w;
             w = exec E (digitalWrite (l_cs d) LOW) w;
             (_, w) = spixfer_run E d 0x7D w;
             (_, w) = spixfer_run E d reg w;
             w = exec E (digitalWrite (l_cs d) HIGH) w;
             w = exec E (digitalWrite (l_cs d) LOW) w;
             (_, w) = spixfer_run E d 0x7E w;
             (_, w) = spixfer_run E d v w;
             w = exec E (digitalWrite (l_cs d) HIGH) w;
             w = spi_end_run E d w
         in log_access (RegWrite reg v) w))"

definition touched_run ::
  "'c environment \<Rightarrow> driver_legacy \<Rightarrow> 'c world \<Rightarrow> u8 \<times> 'c world" where
  "touched_run E d w =
     (let (t, w) = readRegister_run E d CAP1188_SENINPUTSTATUS w in
      if t \<noteq> 0 then
        (let (m, w) = readRegister_run E d CAP1188_MAIN w;
             w = writeRegister_run E d CAP1188_MAIN (m AND NOT CAP1188_MAIN_INT) w
         in (t, w))
      else (t, w))"

definition LEDpolarity_run ::
  "'c environment \<Rightarrow> driver_legacy \<Rightarrow> u8 \<Rightarrow> 'c world \<Rightarrow> 'c world" where
  "LEDpolarity_run E d inverted w = writeRegister_run E d CAP1188_LEDPOL inverted w"

definition open_bus_run ::
  "'c environment \<Rightarrow> driver_legacy \<Rightarrow> u8 \<Rightarrow> handle \<Rightarrow> 'c world \<Rightarrow> driver_legacy \<times> 'c world" where
  "open_bus_run E d i2caddr theWire w =
     (if l_i2c d then
        (let d = d\<lparr>l_wire := Some theWire\<rparr>;
             d = d\<lparr>l_i2caddr := i2caddr\<rparr>
         in (d, exec E (Wire_begin (the (l_wire d))) w))
      else if l_clk d = - 1 then
        (d, execs E [pinMode (l_cs d) OUTPUT, digitalWrite (l_cs d) HIGH, SPI_begin (the (l_spi d))] w)
      else
        (d, execs E [pinMode (l_clk d) OUTPUT, pinMode (l_mosi d) OUTPUT, pinMode (l_cs d) OUTPUT,
                     digitalWrite (l_cs d) HIGH, digitalWrite (l_clk d) HIGH] w))"

definition identify_run ::
  "'c environment \<Rightarrow> driver_legacy \<Rightarrow> 'c world \<Rightarrow> bool \<times> 'c world" where
  "identify_run E d w =
     (let (_, w) = readRegister_run E d CAP1188_PRODID w;
          w = exec E (Serial_print ''Product ID: 0x'') w;
          (p, w) = readRegister_run E d CAP1188_PRODID w;
          w = exec E (Serial_println_HEX p) w;
          w = exec E (Serial_print ''Manuf. ID: 0x'') w;
          (m, w) = readRegister_run E d CAP1188_MANUID w;
          w = exec E (Serial_println_HEX m) w;
          w = exec E (Serial_print ''Revision: 0x'') w;
          (r, w) = readRegister_run E d CAP1188_REV w;
          w = exec E (Serial_println_HEX r) w;
          (p, w) = readRegister_run E d CAP1188_PRODID w
      in if p \<noteq> 0x50 then (False, w) else
         (let (m, w) = readRegister_run E d CAP1188_MANUID w
          in if m \<noteq> 0x5D then (False, w) else
             (let (r, w) = readRegister_run E d CAP1188_REV w
              in if r \<noteq> 0x83 then (False, w) else
                 (let w = writeRegister_run E d CAP1188_MTBLK 0 w;
                      w = writeRegister_run E d CAP1188_LEDLINK 0xFF w;
                      w = writeRegister_run E d CAP1188_STANDBYCFG 0x30 w
                  in (True, w)))))"

definition begin_run ::
  "'c environment \<Rightarrow> driver_legacy \<Rightarrow> u8 \<Rightarrow> handle \<Rightarrow> 'c world
     \<Rightarrow> (bool \<times> driver_legacy) \<times> 'c world" where
  "begin_run E d i2caddr theWire w =
     (let (d, w) = open_bus_run E d i2caddr theWire w;
          w = reset_pulse E (l_resetpin d) w;
          (ok, w) = identify_run E d w
      in ((ok, d), w))"

section \<open>Observing an execution\<close>

text \<open>The register accesses made, and the values printed in hexadecimal, between a
  world \<open>w\<close> and a later world \<open>w'\<close> of the same execution.\<close>

definition made :: "'c world \<Rightarrow> 'c world \<Rightarrow> access list" where
  "made w w' = drop (length (accesses w)) (accesses w')"

definition emitted :: "'c world \<Rightarrow> 'c world \<Rightarrow> event list" where
  "emitted w w' = drop (length (trace w)) (trace w')"

fun printed :: "event list \<Rightarrow> u8 list" where
  "printed [] = []"
| "printed (Cmd (Serial_println_HEX v) # es) = v # printed es"
| "printed (_ # es) = printed es"

fun is_read :: "access \<Rightarrow> bool" where
  "is_read (RegRead _ _) = True"
| "is_read (RegWrite _ _) = False"

fun reg_of :: "access \<Rightarrow> u8" where
  "reg_of (RegRead r _) = r"
| "reg_of (RegWrite r _) = r"

fun val_of :: "access \<Rightarrow> u8" where
  "val_of (RegRead _ v) = v"
| "val_of (RegWrite _ v) = v"

text \<open>A read of an identity register that returned the value \<^verbatim>\<open>begin\<close> compares it with.\<close>

fun identity_ok :: "access \<Rightarrow> bool" where
  "identity_ok (RegRead r v) =
     (r = CAP1188_PRODID \<and> v = 0x50 \<or> r = CAP1188_MANUID \<and> v = 0x5D \<or>
      r = CAP1188_REV \<and> v = 0x83)"
| "identity_ok (RegWrite _ _) = False"

text \<open>
  Of the accesses \<^verbatim>\<open>begin\<close> makes, the first four are the discarded read and the three
  printed ones; the reads that follow them are the ones the identity check compares.
\<close>

definition check_reads :: "access list \<Rightarrow> access list" where
  "check_reads as = takeWhile is_read (drop 4 as)"

text \<open>
  The shapes the accesses of an identification can take: the four preliminary reads,
  then the compared reads up to the first that differs, and the three configuration
  writes after three that agree; \<open>ps\<close> are the values printed.
\<close>

definition comparison :: "bool \<Rightarrow> access list \<Rightarrow> bool" where
  "comparison ok cs \<longleftrightarrow>
     (\<exists>v. cs = [RegRead CAP1188_PRODID v] \<and> v \<noteq> 0x50 \<and> \<not> ok) \<or>
     (\<exists>v. cs = [RegRead CAP1188_PRODID 0x50, RegRead CAP1188_MANUID v] \<and> v \<noteq> 0x5D \<and> \<not> ok) \<or>
     (\<exists>v. cs = [RegRead CAP1188_PRODID 0x50, RegRead CAP1188_MANUID 0x5D, RegRead CAP1188_REV v]
          \<and> v \<noteq> 0x83 \<and> \<not> ok) \<or>
     (cs = [RegRead CAP1188_PRODID 0x50, RegRead CAP1188_MANUID 0x5D, RegRead CAP1188_REV 0x83,
            RegWrite CAP1188_MTBLK 0, RegWrite CAP1188_LEDLINK 0xFF,
            RegWrite CAP1188_STANDBYCFG 0x30] \<and> ok)"

definition identification :: "bool \<Rightarrow> access list \<Rightarrow> u8 list \<Rightarrow> bool" where
  "identification ok as ps \<longleftrightarrow>
     (\<exists>v1 v2 v3 v4 cs.
        as = [RegRead CAP1188_PRODID v1, RegRead CAP1188_PRODID v2,
              RegRead CAP1188_MANUID v3, RegRead CAP1188_REV v4] @ cs \<and>
        ps = [v2, v3, v4] \<and> comparison ok cs)"

text \<open>The one call a register read or write of the BusIO variant makes on its device.\<close>

definition read_op_busio :: "driver_busio \<Rightarrow> u8 \<Rightarrow> op" where
  "read_op_busio d reg =
     (case i2c_dev d of
        Some dev \<Rightarrow> I2CDevice_write_then_read dev [reg] 1
      | None \<Rightarrow> SPIDevice_write_then_read (the (spi_dev d)) [0x7D, reg, 0x7F] 1)"

definition write_op_busio :: "driver_busio \<Rightarrow> u8 \<Rightarrow> u8 \<Rightarrow> op" where
  "write_op_busio d reg v =
     (case i2c_dev d of
        Some dev \<Rightarrow> I2CDevice_write dev [reg, v]
      | None \<Rightarrow> SPIDevice_write (the (spi_dev d)) [0x7D, reg, 0x7E, v])"

text \<open>The byte whose bits, most significant first, are \<open>bs\<close>.\<close>

definition msb_first :: "bool list \<Rightarrow> u8" where
  "msb_first bs = horner_sum of_bool 2 (rev bs)"

text \<open>The calls of one pass of the loop of \<^verbatim>\<open>spixfer\<close>, for bit \<open>i\<close> of \<open>data\<close>, when
  the read of MISO returns \<open>r\<close>.\<close>

definition bit_cycle :: "driver_legacy \<Rightarrow> u8 \<Rightarrow> nat \<Rightarrow> u8 \<Rightarrow> event list" where
  "bit_cycle d data i r =
     [Cmd (digitalWrite (l_clk d) LOW),
      Cmd (digitalWrite (l_mosi d) (data AND push_bit i 1)),
      Cmd (digitalWrite (l_clk d) HIGH),
      Ask (digitalRead (l_miso d)) r]"

text \<open>The levels written to pin \<open>p\<close>, in order (high is \<open>True\<close>), and the number of
  changes from low to high in a sequence of levels.\<close>

fun levels :: "u8 \<Rightarrow> event list \<Rightarrow> bool list" where
  "levels p [] = []"
| "levels p (Cmd (digitalWrite q v) # es) = (if q = p then (v \<noteq> 0) # levels p es else levels p es)"
| "levels p (_ # es) = levels p es"

fun rising_edges :: "bool list \<Rightarrow> nat" where
  "rising_edges (a # b # ls) = (if \<not> a \<and> b then 1 else 0) + rising_edges (b # ls)"
| "rising_edges _ = 0"

text \<open>
  The calls of one \<^verbatim>\<open>spixfer\<close> of byte \<open>b\<close> in the original variant: one
  \<^verbatim>\<open>SPIClass::transfer\<close> on hardware SPI, eight passes of the loop for bits 7 down to 0 on
  bit-banged SPI; \<open>rs\<close> are the values the environment returned (the byte received, or
  the eight reads of MISO), and \<open>xfer_reply\<close> is the byte \<^verbatim>\<open>spixfer\<close> returns for them.
\<close>

definition xfer_events :: "driver_legacy \<Rightarrow> u8 \<Rightarrow> u8 list \<Rightarrow> event list" where
  "xfer_events d b rs =
     (if l_clk d = - 1 then [Ask (SPI_transfer (the (l_spi d)) b) (hd rs)]
      else concat (map (\<lambda>(i, r). bit_cycle d b i r) (zip [7, 6, 5, 4, 3, 2, 1, 0] rs)))"

definition xfer_reply :: "driver_legacy \<Rightarrow> u8 list \<Rightarrow> u8" where
  "xfer_reply d rs = (if l_clk d = - 1 then hd rs else msb_first (map (\<lambda>r. r \<noteq> 0) rs))"

definition xfer_length :: "driver_legacy \<Rightarrow> nat" where
  "xfer_length d = (if l_clk d = - 1 then 1 else 8)"

text \<open>
  The calls of one \<^verbatim>\<open>readRegister\<close> and of one \<^verbatim>\<open>writeRegister\<close> in the original
  variant, on I2C and on SPI. \<open>rss\<close> holds what the environment returned: on I2C
  the byte read, for a read; on SPI the replies of the four transfers. The value a read
  returns is the byte read on I2C and the reply of the fourth transfer on SPI.
\<close>

definition read_events_legacy :: "driver_legacy \<Rightarrow> u8 \<Rightarrow> u8 list list \<Rightarrow> event list" where
  "read_events_legacy d reg rss =
     (if l_i2c d then
        [Cmd (Wire_beginTransmission (the (l_wire d)) (l_i2caddr d)),
         Cmd (Wire_write (the (l_wire d)) reg),
         Cmd (Wire_endTransmission (the (l_wire d))),
         Cmd (Wire_requestFrom (the (l_wire d)) (l_i2caddr d) 1),
         Ask (Wire_read (the (l_wire d))) (hd (hd rss))]
      else
        [Cmd (SPI_beginTransaction (the (l_spi d)) 2000000 SPI_BITORDER_MSBFIRST SPI_MODE0),
         Cmd (digitalWrite (l_cs d) LOW)] @
        xfer_events d 0x7D (rss ! 0) @ xfer_events d reg (rss ! 1) @
        [Cmd (digitalWrite (l_cs d) HIGH), Cmd (digitalWrite (l_cs d) LOW)] @
        xfer_events d 0x7F (rss ! 2) @ xfer_events d 0 (rss ! 3) @
        [Cmd (digitalWrite (l_cs d) HIGH), Cmd (SPI_endTransaction (the (l_spi d)))])"

definition read_value_legacy :: "driver_legacy \<Rightarrow> u8 list list \<Rightarrow> u8" where
  "read_value_legacy d rss = (if l_i2c d then hd (hd rss) else xfer_reply d (rss ! 3))"

definition write_events_legacy :: "driver_legacy \<Rightarrow> u8 \<Rightarrow> u8 \<Rightarrow> u8 list list \<Rightarrow> event list" where
  "write_events_legacy d reg v rss =
     (if l_i2c d then
        [Cmd (Wire_beginTransmission (the (l_wire d)) (l_i2caddr d)),
         Cmd (Wire_write (the (l_wire d)) reg),
         Cmd (Wire_write (the (l_wire d)) v),
         Cmd (Wire_endTransmission (the (l_wire d)))]
      else
        [Cmd (SPI_beginTransaction (the (l_spi d)) 2000000 SPI_BITORDER_MSBFIRST SPI_MODE0),
         Cmd (digitalWrite (l_cs d) LOW)] @
        xfer_events d 0x7D (rss ! 0) @ xfer_events d reg (rss ! 1) @
        [Cmd (digitalWrite (l_cs d) HIGH), Cmd (digitalWrite (l_cs d) LOW)] @
        xfer_events d 0x7E (rss ! 2) @ xfer_events d v (rss ! 3) @
        [Cmd (digitalWrite (l_cs d) HIGH), Cmd (SPI_endTransaction (the (l_spi d)))])"

definition read_replies :: "driver_legacy \<Rightarrow> u8 list list \<Rightarrow> bool" where
  "read_replies d rss \<longleftrightarrow>
     (if l_i2c d then length rss = 1 \<and> length (hd rss) = 1
      else length rss = 4 \<and> list_all (\<lambda>rs. length rs = xfer_length d) rss)"

definition write_replies :: "driver_legacy \<Rightarrow> u8 list list \<Rightarrow> bool" where
  "write_replies d rss \<longleftrightarrow>
     (if l_i2c d then rss = []
      else length rss = 4 \<and> list_all (\<lambda>rs. length rs = xfer_length d) rss)"

text \<open>The number of transactions requested from an \<^verbatim>\<open>Adafruit_SPIDevice\<close> (each is
  bracketed by chip-select inside that class), and whether a sequence of calls is one
  combined write-then-read on an \<^verbatim>\<open>Adafruit_I2CDevice\<close>.\<close>

fun device_transactions :: "event list \<Rightarrow> nat" where
  "device_transactions [] = 0"
| "device_transactions (Cmd (SPIDevice_write dev bs) # es) = Suc (device_transactions es)"
| "device_transactions (Ask (SPIDevice_write_then_read dev bs n) v # es) =
     Suc (device_transactions es)"
| "device_transactions (_ # es) = device_transactions es"

fun combined :: "event list \<Rightarrow> bool" where
  "combined [Ask (I2CDevice_write_then_read dev bs n) v] = True"
| "combined _ = False"

section \<open>A simulated chip\<close>

text \<open>
  A test bench for the driver: a CAP1188 reduced to its register file, the address
  pointer and the SPI command bytes \<open>0x7D\<close> (set address), \<open>0x7E\<close> (write) and
  \<open>0x7F\<close> (read), wired to given pins and a given I2C address, together with the
  buffers of the \<^verbatim>\<open>Wire\<close> library. On I2C the first byte of a write sets the address
  pointer and the bytes after it are stored from there on; a read returns the registers
  from the pointer on. On SPI the chip takes a byte and gives one for every eight clocks
  while it is selected, sampling MOSI on the rising edge and changing MISO on the
  falling edge; a falling chip-select starts a new command. A chip that is \<open>framed\<close>
  takes one command per chip-select frame, the two-phase protocol with a chip-select
  toggle between the phases, and ignores what follows a completed command until
  chip-select has been released and asserted again; a chip that is not takes the next
  command byte in the same frame as well.
\<close>

record wiring =
  w_addr :: u8
  w_cs :: u8
  w_clk :: u8
  w_mosi :: u8
  w_miso :: u8

datatype spi_phase = Command | Address | Data | Reading | Completed

record bench =
  framed :: bool
  regs :: "u8 \<Rightarrow> u8"
  pointer :: u8
  selected :: bool
  phase :: spi_phase
  out_byte :: u8
  clk_high :: bool
  mosi_high :: bool
  miso_high :: bool
  shift_in :: "bool list"
  tx_addr :: u8
  tx :: "u8 list"
  rx :: "u8 list"

definition next_phase :: "bench \<Rightarrow> spi_phase" where
  "next_phase c = (if framed c then Completed else Command)"

definition spi_byte :: "u8 \<Rightarrow> bench \<Rightarrow> bench" where
  "spi_byte b c =
     (case phase c of
        Command \<Rightarrow>
          (if b = 0x7D then c\<lparr>phase := Address, out_byte := 0\<rparr>
           else if b = 0x7E then c\<lparr>phase := Data, out_byte := 0\<rparr>
           else if b = 0x7F then c\<lparr>phase := Reading, out_byte := regs c (pointer c)\<rparr>
           else c\<lparr>out_byte := 0\<rparr>)
      | Address \<Rightarrow> c\<lparr>pointer := b, phase := next_phase c, out_byte := 0\<rparr>
      | Data \<Rightarrow> c\<lparr>regs := (regs c)(pointer c := b), phase := next_phase c, out_byte := 0\<rparr>
      | Reading \<Rightarrow> c\<lparr>phase := next_phase c, out_byte := 0\<rparr>
      | Completed \<Rightarrow> c\<lparr>out_byte := 0\<rparr>)"

definition spi_exchange :: "u8 \<Rightarrow> bench \<Rightarrow> u8 \<times> bench" where
  "spi_exchange b c = (if selected c then (out_byte c, spi_byte b c) else (0, c))"

definition spi_select :: "bench \<Rightarrow> bench" where
  "spi_select c =
     c\<lparr>selected := True, phase := Command, out_byte := 0, shift_in := [], miso_high := False\<rparr>"

definition spi_deselect :: "bench \<Rightarrow> bench" where
  "spi_deselect c = c\<lparr>selected := False\<rparr>"

definition spi_clock :: "bool \<Rightarrow> bench \<Rightarrow> bench" where
  "spi_clock hi c =
     (if selected c \<and> \<not> clk_high c \<and> hi then
        (let bits = shift_in c @ [mosi_high c] in
         if length bits = 8 then (spi_byte (msb_first bits) c)\<lparr>shift_in := [], clk_high := True\<rparr>
         else c\<lparr>shift_in := bits, clk_high := True\<rparr>)
      else if selected c \<and> clk_high c \<and> \<not> hi then
        c\<lparr>miso_high := bit (out_byte c) (7 - length (shift_in c)), clk_high := False\<rparr>
      else c\<lparr>clk_high := hi\<rparr>)"

definition i2c_write :: "u8 list \<Rightarrow> bench \<Rightarrow> bench" where
  "i2c_write bytes c =
     (case bytes of
        [] \<Rightarrow> c
      | r # vs \<Rightarrow>
          foldl (\<lambda>c v. c\<lparr>regs := (regs c)(pointer c := v), pointer := pointer c + 1\<rparr>)
            (c\<lparr>pointer := r\<rparr>) vs)"

definition i2c_read :: "nat \<Rightarrow> bench \<Rightarrow> u8 list" where
  "i2c_read n c = map (\<lambda>k. regs c (pointer c + of_nat k)) [0..<n]"

fun cs_of :: "spi_device \<Rightarrow> u8" where
  "cs_of (Adafruit_SPIDevice_hw cs _ _ _ _) = cs"
| "cs_of (Adafruit_SPIDevice_sw cs _ _ _ _) = cs"

text \<open>
  The bench as an environment. A BusIO device that is not the chip's (another address,
  another chip-select pin) leaves the caller's buffer as it was, so a
  \<open>write_then_read\<close> on it answers the first byte written.
\<close>

fun simulate :: "wiring \<Rightarrow> bench environment" where
  "simulate W (digitalWrite p v) c =
     (0, if p = w_cs W then (if v = 0 then spi_select c else spi_deselect c)
         else if p = w_clk W then spi_clock (v \<noteq> 0) c
         else if p = w_mosi W then c\<lparr>mosi_high := (v \<noteq> 0)\<rparr>
         else c)"
| "simulate W (digitalRead p) c = (if p = w_miso W \<and> miso_high c then 1 else 0, c)"
| "simulate W (SPI_transfer h b) c = spi_exchange b c"
| "simulate W (Wire_beginTransmission h a) c = (0, c\<lparr>tx_addr := a, tx := []\<rparr>)"
| "simulate W (Wire_write h b) c = (1, c\<lparr>tx := tx c @ [b]\<rparr>)"
| "simulate W (Wire_endTransmission h) c =
     (if tx_addr c = w_addr W then (0, i2c_write (tx c) c) else (2, c))"
| "simulate W (Wire_requestFrom h a n) c =
     (if a = w_addr W then (of_nat n, c\<lparr>rx := i2c_read n c\<rparr>) else (0, c\<lparr>rx := []\<rparr>))"
| "simulate W (Wire_read h) c =
     (case rx c of [] \<Rightarrow> (0xFF, c) | b # bs \<Rightarrow> (b, c\<lparr>rx := bs\<rparr>))"
| "simulate W (I2CDevice_begin (Adafruit_I2CDevice a h)) c = (if a = w_addr W then 1 else 0, c)"
| "simulate W (I2CDevice_write (Adafruit_I2CDevice a h) bytes) c =
     (if a = w_addr W then (1, i2c_write bytes c) else (0, c))"
| "simulate W (I2CDevice_write_then_read (Adafruit_I2CDevice a h) bytes n) c =
     (if a = w_addr W then
        (let c = i2c_write bytes c
         in (case i2c_read n c of [] \<Rightarrow> 0 | b # _ \<Rightarrow> b, c))
      else (case bytes of [] \<Rightarrow> 0 | b # _ \<Rightarrow> b, c))"
| "simulate W (SPIDevice_begin dev) c = (1, c)"
| "simulate W (SPIDevice_write dev bytes) c =
     (1, if cs_of dev = w_cs W
         then spi_deselect (foldl (\<lambda>c b. snd (spi_exchange b c)) (spi_select c) bytes)
         else c)"
| "simulate W (SPIDevice_write_then_read dev bytes n) c =
     (if cs_of dev = w_cs W then
        (let c = foldl (\<lambda>c b. snd (spi_exchange b c)) (spi_select c) bytes;
             (r, c) = spi_exchange 0xFF c
         in (r, spi_deselect c))
      else (case bytes of [] \<Rightarrow> 0 | b # _ \<Rightarrow> b, c))"
| "simulate W _ c = (0, c)"

text \<open>
  The driver is attached to the bench: it talks to the chip's I2C address, or to the
  chip-select pin of the chip and, for bit-banged SPI, to its clock and data pins, which
  are three different pins.
\<close>

definition attached_busio :: "wiring \<Rightarrow> driver_busio \<Rightarrow> bool" where
  "attached_busio W d \<longleftrightarrow>
     (case i2c_dev d of
        Some (Adafruit_I2CDevice a h) \<Rightarrow> a = w_addr W
      | None \<Rightarrow> (case spi_dev d of Some dev \<Rightarrow> cs_of dev = w_cs W | None \<Rightarrow> False))"

definition attached_legacy :: "wiring \<Rightarrow> driver_legacy \<Rightarrow> bool" where
  "attached_legacy W d \<longleftrightarrow>
     (if l_i2c d then l_i2caddr d = w_addr W
      else if l_clk d = - 1 then l_cs d = w_cs W
      else l_cs d = w_cs W \<and> l_clk d = w_clk W \<and> l_mosi d = w_mosi W \<and> l_miso d = w_miso W \<and>
           distinct [w_cs W, w_clk W, w_mosi W])"

subsection \<open>A concrete bench\<close>

text \<open>The wiring of the example sketch (chip-select 10, MOSI 11, MISO 12, clock 13, the
  default address), a chip that holds its identity values, and an instance's memory
  before any constructor has run.\<close>

definition sketch_wiring :: wiring where
  "sketch_wiring = \<lparr>w_addr = CAP1188_I2CADDR, w_cs = 10, w_clk = 13, w_mosi = 11, w_miso = 12\<rparr>"

definition power_on :: bench where
  "power_on =
     \<lparr>framed = False,
      regs = (\<lambda>r. if r = CAP1188_PRODID then 0x50 else if r = CAP1188_MANUID then 0x5D
                  else if r = CAP1188_REV then 0x83 else 0),
      pointer = 0, selected = False, phase = Command, out_byte = 0, clk_high = False,
      mosi_high = False, miso_high = False, shift_in = [], tx_addr = 0, tx = [], rx = []\<rparr>"

definition start :: "bench world" where
  "start = \<lparr>outside = power_on, trace = [], accesses = []\<rparr>"

definition blank :: driver_legacy where
  "blank = \<lparr>l_i2c = False, l_resetpin = 0, l_cs = 0, l_clk = 0, l_miso = 0, l_mosi = 0,
            l_i2caddr = 0, l_wire = None, l_spi = None\<rparr>"

definition sketch :: "bench environment" where
  "sketch = simulate sketch_wiring"

text \<open>The same bench with a framed chip.\<close>

definition framed_start :: "bench world" where
  "framed_start = start\<lparr>outside := power_on\<lparr>framed := True\<rparr>\<rparr>"

text \<open>A bench on which channels 1 and 3 are touched and the interrupt flag is set.\<close>

definition touching :: "bench world" where
  "touching = start\<lparr>outside :=
     power_on\<lparr>regs := (regs power_on)(CAP1188_SENINPUTSTATUS := 0x05, CAP1188_MAIN := 0x01)\<rparr>\<rparr>"

text \<open>Driver instances on that bench: hardware SPI with the chip-select pin of the wiring
  and with another pin, and I2C.\<close>

definition bus_spi_10 :: driver_busio where
  "bus_spi_10 = Adafruit_CAP1188_hwspi_busio 10 (- 1) 0"

definition bus_spi_9 :: driver_busio where
  "bus_spi_9 = Adafruit_CAP1188_hwspi_busio 9 (- 1) 0"

definition leg_spi_10 :: driver_legacy where
  "leg_spi_10 = Adafruit_CAP1188_hwspi_legacy blank 10 (- 1) 0"

definition leg_i2c :: driver_legacy where
  "leg_i2c = Adafruit_CAP1188_i2c_legacy blank (- 1)"

text \<open>Bit-banged SPI on the pins of the sketch.\<close>

definition soft_spi :: driver_legacy where
  "soft_spi = Adafruit_CAP1188_swspi_legacy blank 13 12 11 10 (- 1)"

text \<open>The I2C instances as a \<^verbatim>\<open>begin(0x29, &Wire)\<close> leaves them.\<close>

definition leg_i2c_begun :: driver_legacy where
  "leg_i2c_begun = leg_i2c\<lparr>l_wire := Some 0, l_i2caddr := CAP1188_I2CADDR\<rparr>"

definition bus_i2c :: driver_busio where
  "bus_i2c = (Adafruit_CAP1188_i2c_busio (- 1))\<lparr>i2c_dev := Some (Adafruit_I2CDevice CAP1188_I2CADDR 0)\<rparr>"

section \<open>Basic facts\<close>

lemmas model_defs = begin_busio_def identify_busio_def readRegister_busio_def writeRegister_busio_def
  touched_busio_def begin_run_def open_bus_run_def identify_run_def readRegister_run_def
  writeRegister_run_def touched_run_def spixfer_run_def spi_begin_run_def spi_end_run_def
  i2cwrite_run_def
  ask_def exec_def execs_def reset_pulse_def log_access_def after_def Let_def
  Adafruit_CAP1188_i2c_busio_def Adafruit_CAP1188_hwspi_busio_def Adafruit_CAP1188_swspi_busio_def
  Adafruit_CAP1188_i2c_legacy_def Adafruit_CAP1188_hwspi_legacy_def Adafruit_CAP1188_swspi_legacy_def

lemmas bench_defs = sketch_def sketch_wiring_def start_def power_on_def blank_def touching_def
  spi_exchange_def spi_byte_def next_phase_def
  spi_select_def spi_deselect_def i2c_write_def i2c_read_def
  bus_spi_10_def bus_spi_9_def leg_spi_10_def leg_i2c_def


lemma printed_append: "printed (xs @ ys) = printed xs @ printed ys"
  by (induction xs rule: printed.induct) auto

lemma accesses_exec [simp]: "accesses (exec E c w) = accesses w"
  by (simp add: exec_def)

lemma trace_exec [simp]: "trace (exec E c w) = trace w @ [Cmd c]"
  by (simp add: exec_def)

lemma accesses_ask [simp]: "accesses (snd (ask E c w)) = accesses w"
  by (simp add: ask_def split: prod.splits)

lemma trace_ask [simp]: "trace (snd (ask E c w)) = trace w @ [Ask c (fst (ask E c w))]"
  by (simp add: ask_def split: prod.splits)

lemma accesses_log_access [simp]: "accesses (log_access a w) = accesses w @ [a]"
  by (simp add: log_access_def)

lemma trace_log_access [simp]: "trace (log_access a w) = trace w"
  by (simp add: log_access_def)

lemma after_Inr [simp]: "after (Inr (a, s)) f = f a s"
  by (simp add: after_def)

lemma after_Inl [simp]: "after (Inl e) f = Inl e"
  by (simp add: after_def)

lemma accesses_execs [simp]: "accesses (execs E cs w) = accesses w"
  unfolding execs_def by (induction cs arbitrary: w) simp_all

lemma trace_execs [simp]: "trace (execs E cs w) = trace w @ map Cmd cs"
  unfolding execs_def by (induction cs arbitrary: w) simp_all

lemma accesses_reset_pulse [simp]: "accesses (reset_pulse E p w) = accesses w"
  by (simp add: reset_pulse_def)

lemma printed_reset_pulse [simp]: "printed (trace (reset_pulse E p w)) = printed (trace w)"
  by (simp add: reset_pulse_def printed_append)

lemma made_append [simp]: "accesses w' = accesses w @ as \<Longrightarrow> made w w' = as"
  by (simp add: made_def)

subsection \<open>Register calls of the BusIO variant\<close>

lemma readRegister_busio_eq:
  assumes "i2c_dev d \<noteq> None \<or> spi_dev d \<noteq> None"
  shows "readRegister_busio E d reg w =
           Inr (fst (ask E (read_op_busio d reg) w),
                log_access (RegRead reg (fst (ask E (read_op_busio d reg) w)))
                  (snd (ask E (read_op_busio d reg) w)))"
  using assms
  by (auto simp: readRegister_busio_def read_op_busio_def Let_def
           split: option.splits prod.splits)

lemma writeRegister_busio_eq:
  assumes "i2c_dev d \<noteq> None \<or> spi_dev d \<noteq> None"
  shows "writeRegister_busio E d reg v w =
           Inr ((), log_access (RegWrite reg v) (exec E (write_op_busio d reg v) w))"
  using assms
  by (auto simp: writeRegister_busio_def write_op_busio_def Let_def
           split: option.splits prod.splits)

lemma readRegister_busio_fault:
  "i2c_dev d = None \<Longrightarrow> spi_dev d = None \<Longrightarrow> readRegister_busio E d reg w = Inl NullPointer"
  by (simp add: readRegister_busio_def)

lemma readRegister_busio_attached:
  "readRegister_busio E d reg w = Inr x \<Longrightarrow> i2c_dev d \<noteq> None \<or> spi_dev d \<noteq> None"
  by (cases "i2c_dev d"; cases "spi_dev d") (simp_all add: readRegister_busio_fault)

lemma readRegister_busio_step:
  assumes "i2c_dev d \<noteq> None \<or> spi_dev d \<noteq> None"
  shows "\<exists>v w'. readRegister_busio E d reg w = Inr (v, w') \<and>
           accesses w' = accesses w @ [RegRead reg v] \<and>
           printed (trace w') = printed (trace w)"
  by (simp add: readRegister_busio_eq [OF assms] printed_append)

lemma writeRegister_busio_step:
  assumes "i2c_dev d \<noteq> None \<or> spi_dev d \<noteq> None"
  shows "\<exists>w'. writeRegister_busio E d reg v w = Inr ((), w') \<and>
           accesses w' = accesses w @ [RegWrite reg v] \<and>
           printed (trace w') = printed (trace w)"
  using assms
  by (cases "i2c_dev d")
     (auto simp: writeRegister_busio_eq [OF assms] write_op_busio_def printed_append)

lemma identify_busio_outcome:
  assumes T: "i2c_dev d \<noteq> None \<or> spi_dev d \<noteq> None"
  shows "\<exists>ok w' as ps. identify_busio E d w = Inr (ok, w') \<and>
           accesses w' = accesses w @ as \<and>
           printed (trace w') = printed (trace w) @ ps \<and> identification ok as ps"
proof -
  let ?rd = "readRegister_busio E d" and ?wr = "writeRegister_busio E d"
  obtain v1 w1 where r1: "?rd CAP1188_PRODID w = Inr (v1, w1)"
    and a1: "accesses w1 = accesses w @ [RegRead CAP1188_PRODID v1]"
    and p1: "printed (trace w1) = printed (trace w)"
    using readRegister_busio_step [OF T] by blast
  obtain v2 w2
    where r2: "?rd CAP1188_PRODID (exec E (Serial_print ''Product ID: 0x'') w1) = Inr (v2, w2)"
    and a2: "accesses w2 = accesses w1 @ [RegRead CAP1188_PRODID v2]"
    and p2: "printed (trace w2) = printed (trace w1)"
    using readRegister_busio_step
      [OF T, of E CAP1188_PRODID "exec E (Serial_print ''Product ID: 0x'') w1"]
    by (auto simp: printed_append)
  obtain v3 w3
    where r3: "?rd CAP1188_MANUID
        (exec E (Serial_print ''Manuf. ID: 0x'') (exec E (Serial_println_HEX v2) w2)) = Inr (v3, w3)"
    and a3: "accesses w3 = accesses w2 @ [RegRead CAP1188_MANUID v3]"
    and p3: "printed (trace w3) = printed (trace w2) @ [v2]"
    using readRegister_busio_step [OF T, of E CAP1188_MANUID
        "exec E (Serial_print ''Manuf. ID: 0x'') (exec E (Serial_println_HEX v2) w2)"]
    by (auto simp: printed_append)
  obtain v4 w4
    where r4: "?rd CAP1188_REV
        (exec E (Serial_print ''Revision: 0x'') (exec E (Serial_println_HEX v3) w3)) = Inr (v4, w4)"
    and a4: "accesses w4 = accesses w3 @ [RegRead CAP1188_REV v4]"
    and p4: "printed (trace w4) = printed (trace w3) @ [v3]"
    using readRegister_busio_step [OF T, of E CAP1188_REV
        "exec E (Serial_print ''Revision: 0x'') (exec E (Serial_println_HEX v3) w3)"]
    by (auto simp: printed_append)
  obtain v5 w5
    where r5: "?rd CAP1188_PRODID (exec E (Serial_println_HEX v4) w4) = Inr (v5, w5)"
    and a5: "accesses w5 = accesses w4 @ [RegRead CAP1188_PRODID v5]"
    and p5: "printed (trace w5) = printed (trace w4) @ [v4]"
    using readRegister_busio_step [OF T, of E CAP1188_PRODID "exec E (Serial_println_HEX v4) w4"]
    by (auto simp: printed_append)
  obtain v6 w6 where r6: "?rd CAP1188_MANUID w5 = Inr (v6, w6)"
    and a6: "accesses w6 = accesses w5 @ [RegRead CAP1188_MANUID v6]"
    and p6: "printed (trace w6) = printed (trace w5)"
    using readRegister_busio_step [OF T] by blast
  obtain v7 w7 where r7: "?rd CAP1188_REV w6 = Inr (v7, w7)"
    and a7: "accesses w7 = accesses w6 @ [RegRead CAP1188_REV v7]"
    and p7: "printed (trace w7) = printed (trace w6)"
    using readRegister_busio_step [OF T] by blast
  obtain w8 where r8: "?wr CAP1188_MTBLK 0 w7 = Inr ((), w8)"
    and a8: "accesses w8 = accesses w7 @ [RegWrite CAP1188_MTBLK 0]"
    and p8: "printed (trace w8) = printed (trace w7)"
    using writeRegister_busio_step [OF T] by blast
  obtain w9 where r9: "?wr CAP1188_LEDLINK 0xFF w8 = Inr ((), w9)"
    and a9: "accesses w9 = accesses w8 @ [RegWrite CAP1188_LEDLINK 0xFF]"
    and p9: "printed (trace w9) = printed (trace w8)"
    using writeRegister_busio_step [OF T] by blast
  obtain w10 where r10: "?wr CAP1188_STANDBYCFG 0x30 w9 = Inr ((), w10)"
    and a10: "accesses w10 = accesses w9 @ [RegWrite CAP1188_STANDBYCFG 0x30]"
    and p10: "printed (trace w10) = printed (trace w9)"
    using writeRegister_busio_step [OF T] by blast
  have run: "identify_busio E d w =
      (if v5 \<noteq> 0x50 then Inr (False, w5)
       else if v6 \<noteq> 0x5D then Inr (False, w6)
       else if v7 \<noteq> 0x83 then Inr (False, w7)
       else Inr (True, w10))"
    by (simp add: identify_busio_def Let_def r1 r2 r3 r4 r5 r6 r7 r8 r9 r10)
  have pre: "accesses w4 = accesses w @ [RegRead CAP1188_PRODID v1, RegRead CAP1188_PRODID v2,
      RegRead CAP1188_MANUID v3, RegRead CAP1188_REV v4]"
    and pr: "printed (trace w5) = printed (trace w) @ [v2, v3, v4]"
    by (simp_all add: a1 a2 a3 a4 p1 p2 p3 p4 p5)
  consider (c5) "v5 \<noteq> 0x50" | (c6) "v5 = 0x50" "v6 \<noteq> 0x5D"
    | (c7) "v5 = 0x50" "v6 = 0x5D" "v7 \<noteq> 0x83" | (c8) "v5 = 0x50" "v6 = 0x5D" "v7 = 0x83"
    by blast
  then show ?thesis
  proof cases
    case c5
    have "identification False ([RegRead CAP1188_PRODID v1, RegRead CAP1188_PRODID v2,
      RegRead CAP1188_MANUID v3, RegRead CAP1188_REV v4] @ [RegRead CAP1188_PRODID v5]) [v2, v3, v4]"
      using c5 by (auto simp: identification_def comparison_def)
    then show ?thesis
      using c5 run pre pr a5 by (intro exI [of _ False] exI [of _ w5] exI conjI) simp_all
  next
    case c6
    have "identification False ([RegRead CAP1188_PRODID v1, RegRead CAP1188_PRODID v2,
      RegRead CAP1188_MANUID v3, RegRead CAP1188_REV v4] @
      [RegRead CAP1188_PRODID 0x50, RegRead CAP1188_MANUID v6]) [v2, v3, v4]"
      using c6 by (auto simp: identification_def comparison_def)
    then show ?thesis
      using c6 run pre pr a5 a6 p6 by (intro exI [of _ False] exI [of _ w6] exI conjI) simp_all
  next
    case c7
    have "identification False ([RegRead CAP1188_PRODID v1, RegRead CAP1188_PRODID v2,
      RegRead CAP1188_MANUID v3, RegRead CAP1188_REV v4] @
      [RegRead CAP1188_PRODID 0x50, RegRead CAP1188_MANUID 0x5D, RegRead CAP1188_REV v7])
      [v2, v3, v4]"
      using c7 by (auto simp: identification_def comparison_def)
    then show ?thesis
      using c7 run pre pr a5 a6 a7 p6 p7
      by (intro exI [of _ False] exI [of _ w7] exI conjI) simp_all
  next
    case c8
    have "identification True ([RegRead CAP1188_PRODID v1, RegRead CAP1188_PRODID v2,
      RegRead CAP1188_MANUID v3, RegRead CAP1188_REV v4] @
      [RegRead CAP1188_PRODID 0x50, RegRead CAP1188_MANUID 0x5D, RegRead CAP1188_REV 0x83,
       RegWrite CAP1188_MTBLK 0, RegWrite CAP1188_LEDLINK 0xFF,
       RegWrite CAP1188_STANDBYCFG 0x30]) [v2, v3, v4]"
      by (auto simp: identification_def comparison_def)
    then show ?thesis
      using c8 run pre pr a5 a6 a7 a8 a9 a10 p6 p7 p8 p9 p10
      by (intro exI [of _ True] exI [of _ w10] exI conjI) simp_all
  qed
qed

subsection \<open>The original variant and its runs\<close>

lemma call_through_simps [simp]:
  "call_through E (Some h) c w = Inr ((), exec E (c h) w)"
  "call_through E None c w = Inl NullPointer"
  "ask_through E (Some h) c w = Inr (ask E (c h) w)"
  "ask_through E None c w = Inl NullPointer"
  by (simp_all add: call_through_def ask_through_def)

lemma after_Inr_pair: "after (Inr p) f = f (fst p) (snd p)"
  by (cases p) simp

lemma spixfer_legacy_eq:
  assumes "l_clk d \<noteq> - 1 \<or> l_spi d \<noteq> None"
  shows "spixfer_legacy E d b w = Inr (spixfer_run E d b w)"
  using assms by (auto simp: spixfer_legacy_def spixfer_run_def)

lemma spixfer_legacy_fault:
  "l_clk d = - 1 \<Longrightarrow> l_spi d = None \<Longrightarrow> spixfer_legacy E d b w = Inl NullPointer"
  by (simp add: spixfer_legacy_def)

lemma readRegister_legacy_eq:
  assumes "pointer_legacy d \<noteq> None"
  shows "readRegister_legacy E d reg w = Inr (readRegister_run E d reg w)"
proof (cases "l_i2c d")
  case True
  with assms obtain h where "l_wire d = Some h" by (auto simp: pointer_legacy_def)
  with True show ?thesis
    by (simp add: readRegister_legacy_def readRegister_run_def i2cwrite_legacy_def
          i2cwrite_run_def after_Inr_pair case_prod_beta Let_def)
next
  case False
  with assms obtain h where h: "l_spi d = Some h" by (auto simp: pointer_legacy_def)
  then have x: "\<And>b w. spixfer_legacy E d b w = Inr (spixfer_run E d b w)"
    by (simp add: spixfer_legacy_eq)
  from False h show ?thesis
    by (simp add: readRegister_legacy_def readRegister_run_def spi_begin_legacy_def
          spi_end_legacy_def spi_begin_run_def spi_end_run_def x after_Inr_pair
          case_prod_beta Let_def)
qed

lemma readRegister_legacy_fault:
  assumes "pointer_legacy d = None"
  shows "readRegister_legacy E d reg w = Inl NullPointer"
  using assms
  by (simp add: readRegister_legacy_def pointer_legacy_def spi_begin_legacy_def
        split: if_splits)

lemma writeRegister_legacy_eq:
  assumes "pointer_legacy d \<noteq> None"
  shows "writeRegister_legacy E d reg v w = Inr ((), writeRegister_run E d reg v w)"
proof (cases "l_i2c d")
  case True
  with assms obtain h where "l_wire d = Some h" by (auto simp: pointer_legacy_def)
  with True show ?thesis
    by (simp add: writeRegister_legacy_def writeRegister_run_def i2cwrite_legacy_def
          i2cwrite_run_def after_Inr_pair case_prod_beta Let_def)
next
  case False
  with assms obtain h where h: "l_spi d = Some h" by (auto simp: pointer_legacy_def)
  then have x: "\<And>b w. spixfer_legacy E d b w = Inr (spixfer_run E d b w)"
    by (simp add: spixfer_legacy_eq)
  from False h show ?thesis
    by (simp add: writeRegister_legacy_def writeRegister_run_def spi_begin_legacy_def
          spi_end_legacy_def spi_begin_run_def spi_end_run_def x after_Inr_pair
          case_prod_beta Let_def)
qed

lemma writeRegister_legacy_fault:
  assumes "pointer_legacy d = None"
  shows "writeRegister_legacy E d reg v w = Inl NullPointer"
  using assms
  by (simp add: writeRegister_legacy_def pointer_legacy_def spi_begin_legacy_def
        split: if_splits)

lemma touched_legacy_eq:
  assumes "pointer_legacy d \<noteq> None"
  shows "touched_legacy E d w = Inr (touched_run E d w)"
  by (simp add: touched_legacy_def touched_run_def readRegister_legacy_eq [OF assms]
        writeRegister_legacy_eq [OF assms] after_Inr_pair case_prod_beta Let_def)

lemma touched_legacy_fault:
  assumes "pointer_legacy d = None"
  shows "touched_legacy E d w = Inl NullPointer"
  by (simp add: touched_legacy_def readRegister_legacy_fault [OF assms])

lemma LEDpolarity_legacy_eq:
  assumes "pointer_legacy d \<noteq> None"
  shows "LEDpolarity_legacy E d x w = Inr ((), LEDpolarity_run E d x w)"
  by (simp add: LEDpolarity_legacy_def LEDpolarity_run_def writeRegister_legacy_eq [OF assms])

lemma LEDpolarity_legacy_fault:
  assumes "pointer_legacy d = None"
  shows "LEDpolarity_legacy E d x w = Inl NullPointer"
  by (simp add: LEDpolarity_legacy_def writeRegister_legacy_fault [OF assms])

lemma identify_legacy_eq:
  assumes "pointer_legacy d \<noteq> None"
  shows "identify_legacy E d w = Inr (identify_run E d w)"
  by (simp add: identify_legacy_def identify_run_def readRegister_legacy_eq [OF assms]
        writeRegister_legacy_eq [OF assms] after_Inr_pair case_prod_beta Let_def)

lemma identify_legacy_fault:
  assumes "pointer_legacy d = None"
  shows "identify_legacy E d w = Inl NullPointer"
  by (simp add: identify_legacy_def readRegister_legacy_fault [OF assms])

lemma open_bus_legacy_eq:
  assumes "l_i2c d \<or> l_clk d \<noteq> - 1 \<or> l_spi d \<noteq> None"
  shows "open_bus_legacy E d a h w = Inr (open_bus_run E d a h w)"
  using assms
  by (auto simp: open_bus_legacy_def open_bus_run_def Let_def execs_def)

lemma pointer_open_bus_run:
  "pointer_legacy (fst (open_bus_run E d a h w)) = (if l_i2c d then Some h else l_spi d)"
  by (simp add: open_bus_run_def pointer_legacy_def Let_def)

lemma begin_legacy_eq:
  assumes "l_i2c d \<or> l_spi d \<noteq> None"
  shows "begin_legacy E d a h w = Inr (begin_run E d a h w)"
proof -
  from assms have o: "open_bus_legacy E d a h w = Inr (open_bus_run E d a h w)"
    by (intro open_bus_legacy_eq) auto
  from assms have p: "pointer_legacy (fst (open_bus_run E d a h w)) \<noteq> None"
    by (auto simp: pointer_open_bus_run)
  show ?thesis
    by (simp add: begin_legacy_def begin_run_def o after_Inr_pair identify_legacy_eq [OF p]
          case_prod_beta Let_def)
qed

lemma begin_legacy_fault:
  assumes "\<not> l_i2c d" and "l_spi d = None"
  shows "begin_legacy E d a h w = Inl NullPointer"
proof (cases "l_clk d = - 1")
  case True
  with assms show ?thesis
    by (simp add: begin_legacy_def open_bus_legacy_def Let_def)
next
  case False
  with assms have o: "open_bus_legacy E d a h w = Inr (open_bus_run E d a h w)"
    by (intro open_bus_legacy_eq) auto
  from assms have p: "pointer_legacy (fst (open_bus_run E d a h w)) = None"
    by (simp add: pointer_open_bus_run)
  show ?thesis
    by (simp add: begin_legacy_def o after_Inr_pair identify_legacy_fault [OF p] Let_def)
qed

lemma readRegister_legacy_Inr:
  assumes "readRegister_legacy E d reg w = Inr x"
  shows "pointer_legacy d \<noteq> None" and "readRegister_run E d reg w = x"
  using assms readRegister_legacy_eq [of d E reg w] readRegister_legacy_fault [of d E reg w]
  by (cases "pointer_legacy d"; simp)+

lemma writeRegister_legacy_Inr:
  assumes "writeRegister_legacy E d reg v w = Inr x"
  shows "pointer_legacy d \<noteq> None" and "writeRegister_run E d reg v w = snd x"
  using assms writeRegister_legacy_eq [of d E reg v w]
    writeRegister_legacy_fault [of d E reg v w]
  by (cases "pointer_legacy d"; auto)+

lemma touched_legacy_Inr:
  assumes "touched_legacy E d w = Inr x"
  shows "pointer_legacy d \<noteq> None" and "touched_run E d w = x"
  using assms touched_legacy_eq [of d E w] touched_legacy_fault [of d E w]
  by (cases "pointer_legacy d"; simp)+

lemma begin_legacy_Inr:
  assumes "begin_legacy E d a h w = Inr x"
  shows "l_i2c d \<or> l_spi d \<noteq> None" and "begin_run E d a h w = x"
  using assms begin_legacy_eq [of d E a h w] begin_legacy_fault [of d E a h w]
  by (cases "l_i2c d"; cases "l_spi d"; simp)+

lemma spixfer_legacy_Inr:
  assumes "spixfer_legacy E d b w = Inr x"
  shows "l_clk d \<noteq> - 1 \<or> l_spi d \<noteq> None" and "spixfer_run E d b w = x"
  using assms spixfer_legacy_eq [of d E b w] spixfer_legacy_fault [of d E b w]
  by (cases "l_clk d = - 1"; cases "l_spi d"; simp)+

subsection \<open>Register calls of the original variant\<close>

lemma spixfer_bit_frame [simp]:
  "accesses (snd (spixfer_bit E d data i reply w)) = accesses w"
  "printed (trace (snd (spixfer_bit E d data i reply w))) = printed (trace w)"
  by (simp_all add: spixfer_bit_def Let_def case_prod_beta printed_append)

lemma spixfer_loop_frame:
  "accesses (snd (spixfer_loop E d data i reply w)) = accesses w \<and>
   printed (trace (snd (spixfer_loop E d data i reply w))) = printed (trace w)"
proof (induction E d data i reply w rule: spixfer_loop.induct)
  case (1 E d data i reply w)
  show ?case
  proof (cases "i \<ge> 0")
    case True
    then show ?thesis
      using 1 [OF True refl]
      by (subst (1 2) spixfer_loop.simps) (simp add: Let_def)
  next
    case False
    then show ?thesis by (simp add: spixfer_loop.simps)
  qed
qed

lemma spixfer_run_frame [simp]:
  "accesses (snd (spixfer_run E d data w)) = accesses w"
  "printed (trace (snd (spixfer_run E d data w))) = printed (trace w)"
  by (simp_all add: spixfer_run_def spixfer_loop_frame printed_append)

lemma readRegister_run_step:
  "\<exists>v w'. readRegister_run E d reg w = (v, w') \<and>
           accesses w' = accesses w @ [RegRead reg v] \<and>
           printed (trace w') = printed (trace w)"
  by (simp add: readRegister_run_def Let_def case_prod_beta printed_append
        spi_begin_run_def spi_end_run_def i2cwrite_run_def)

lemma writeRegister_run_step:
  "\<exists>w'. writeRegister_run E d reg v w = w' \<and>
           accesses w' = accesses w @ [RegWrite reg v] \<and>
           printed (trace w') = printed (trace w)"
  by (simp add: writeRegister_run_def Let_def case_prod_beta printed_append
        spi_begin_run_def spi_end_run_def i2cwrite_run_def)

lemma identify_run_outcome:
  shows "\<exists>ok w' as ps. identify_run E d w = (ok, w') \<and>
           accesses w' = accesses w @ as \<and>
           printed (trace w') = printed (trace w) @ ps \<and> identification ok as ps"
proof -
  let ?rd = "readRegister_run E d" and ?wr = "writeRegister_run E d"
  obtain v1 w1 where r1: "?rd CAP1188_PRODID w = (v1, w1)"
    and a1: "accesses w1 = accesses w @ [RegRead CAP1188_PRODID v1]"
    and p1: "printed (trace w1) = printed (trace w)"
    using readRegister_run_step by blast
  obtain v2 w2
    where r2: "?rd CAP1188_PRODID (exec E (Serial_print ''Product ID: 0x'') w1) = (v2, w2)"
    and a2: "accesses w2 = accesses w1 @ [RegRead CAP1188_PRODID v2]"
    and p2: "printed (trace w2) = printed (trace w1)"
    using readRegister_run_step
      [of E d CAP1188_PRODID "exec E (Serial_print ''Product ID: 0x'') w1"]
    by (auto simp: printed_append)
  obtain v3 w3
    where r3: "?rd CAP1188_MANUID
        (exec E (Serial_print ''Manuf. ID: 0x'') (exec E (Serial_println_HEX v2) w2)) = (v3, w3)"
    and a3: "accesses w3 = accesses w2 @ [RegRead CAP1188_MANUID v3]"
    and p3: "printed (trace w3) = printed (trace w2) @ [v2]"
    using readRegister_run_step [of E d CAP1188_MANUID
        "exec E (Serial_print ''Manuf. ID: 0x'') (exec E (Serial_println_HEX v2) w2)"]
    by (auto simp: printed_append)
  obtain v4 w4
    where r4: "?rd CAP1188_REV
        (exec E (Serial_print ''Revision: 0x'') (exec E (Serial_println_HEX v3) w3)) = (v4, w4)"
    and a4: "accesses w4 = accesses w3 @ [RegRead CAP1188_REV v4]"
    and p4: "printed (trace w4) = printed (trace w3) @ [v3]"
    using readRegister_run_step [of E d CAP1188_REV
        "exec E (Serial_print ''Revision: 0x'') (exec E (Serial_println_HEX v3) w3)"]
    by (auto simp: printed_append)
  obtain v5 w5
    where r5: "?rd CAP1188_PRODID (exec E (Serial_println_HEX v4) w4) = (v5, w5)"
    and a5: "accesses w5 = accesses w4 @ [RegRead CAP1188_PRODID v5]"
    and p5: "printed (trace w5) = printed (trace w4) @ [v4]"
    using readRegister_run_step [of E d CAP1188_PRODID "exec E (Serial_println_HEX v4) w4"]
    by (auto simp: printed_append)
  obtain v6 w6 where r6: "?rd CAP1188_MANUID w5 = (v6, w6)"
    and a6: "accesses w6 = accesses w5 @ [RegRead CAP1188_MANUID v6]"
    and p6: "printed (trace w6) = printed (trace w5)"
    using readRegister_run_step by blast
  obtain v7 w7 where r7: "?rd CAP1188_REV w6 = (v7, w7)"
    and a7: "accesses w7 = accesses w6 @ [RegRead CAP1188_REV v7]"
    and p7: "printed (trace w7) = printed (trace w6)"
    using readRegister_run_step by blast
  obtain w8 where r8: "?wr CAP1188_MTBLK 0 w7 = w8"
    and a8: "accesses w8 = accesses w7 @ [RegWrite CAP1188_MTBLK 0]"
    and p8: "printed (trace w8) = printed (trace w7)"
    using writeRegister_run_step by blast
  obtain w9 where r9: "?wr CAP1188_LEDLINK 0xFF w8 = w9"
    and a9: "accesses w9 = accesses w8 @ [RegWrite CAP1188_LEDLINK 0xFF]"
    and p9: "printed (trace w9) = printed (trace w8)"
    using writeRegister_run_step by blast
  obtain w10 where r10: "?wr CAP1188_STANDBYCFG 0x30 w9 = w10"
    and a10: "accesses w10 = accesses w9 @ [RegWrite CAP1188_STANDBYCFG 0x30]"
    and p10: "printed (trace w10) = printed (trace w9)"
    using writeRegister_run_step by blast
  have run: "identify_run E d w =
      (if v5 \<noteq> 0x50 then (False, w5)
       else if v6 \<noteq> 0x5D then (False, w6)
       else if v7 \<noteq> 0x83 then (False, w7)
       else (True, w10))"
    by (simp add: identify_run_def Let_def r1 r2 r3 r4 r5 r6 r7 r8 r9 r10)
  have pre: "accesses w4 = accesses w @ [RegRead CAP1188_PRODID v1, RegRead CAP1188_PRODID v2,
      RegRead CAP1188_MANUID v3, RegRead CAP1188_REV v4]"
    and pr: "printed (trace w5) = printed (trace w) @ [v2, v3, v4]"
    by (simp_all add: a1 a2 a3 a4 p1 p2 p3 p4 p5)
  consider (c5) "v5 \<noteq> 0x50" | (c6) "v5 = 0x50" "v6 \<noteq> 0x5D"
    | (c7) "v5 = 0x50" "v6 = 0x5D" "v7 \<noteq> 0x83" | (c8) "v5 = 0x50" "v6 = 0x5D" "v7 = 0x83"
    by blast
  then show ?thesis
  proof cases
    case c5
    have "identification False ([RegRead CAP1188_PRODID v1, RegRead CAP1188_PRODID v2,
      RegRead CAP1188_MANUID v3, RegRead CAP1188_REV v4] @ [RegRead CAP1188_PRODID v5]) [v2, v3, v4]"
      using c5 by (auto simp: identification_def comparison_def)
    then show ?thesis
      using c5 run pre pr a5 by (intro exI [of _ False] exI [of _ w5] exI conjI) simp_all
  next
    case c6
    have "identification False ([RegRead CAP1188_PRODID v1, RegRead CAP1188_PRODID v2,
      RegRead CAP1188_MANUID v3, RegRead CAP1188_REV v4] @
      [RegRead CAP1188_PRODID 0x50, RegRead CAP1188_MANUID v6]) [v2, v3, v4]"
      using c6 by (auto simp: identification_def comparison_def)
    then show ?thesis
      using c6 run pre pr a5 a6 p6 by (intro exI [of _ False] exI [of _ w6] exI conjI) simp_all
  next
    case c7
    have "identification False ([RegRead CAP1188_PRODID v1, RegRead CAP1188_PRODID v2,
      RegRead CAP1188_MANUID v3, RegRead CAP1188_REV v4] @
      [RegRead CAP1188_PRODID 0x50, RegRead CAP1188_MANUID 0x5D, RegRead CAP1188_REV v7])
      [v2, v3, v4]"
      using c7 by (auto simp: identification_def comparison_def)
    then show ?thesis
      using c7 run pre pr a5 a6 a7 p6 p7
      by (intro exI [of _ False] exI [of _ w7] exI conjI) simp_all
  next
    case c8
    have "identification True ([RegRead CAP1188_PRODID v1, RegRead CAP1188_PRODID v2,
      RegRead CAP1188_MANUID v3, RegRead CAP1188_REV v4] @
      [RegRead CAP1188_PRODID 0x50, RegRead CAP1188_MANUID 0x5D, RegRead CAP1188_REV 0x83,
       RegWrite CAP1188_MTBLK 0, RegWrite CAP1188_LEDLINK 0xFF,
       RegWrite CAP1188_STANDBYCFG 0x30]) [v2, v3, v4]"
      by (auto simp: identification_def comparison_def)
    then show ?thesis
      using c8 run pre pr a5 a6 a7 a8 a9 a10 p6 p7 p8 p9 p10
      by (intro exI [of _ True] exI [of _ w10] exI conjI) simp_all
  qed
qed

subsection \<open>The outcomes of \<^verbatim>\<open>begin\<close>\<close>

lemma begin_busio_outcome:
  "\<exists>ok d' w' as ps. begin_busio E d i2caddr theWire w = Inr ((ok, d'), w') \<and>
      accesses w' = accesses w @ as \<and> printed (trace w') = printed (trace w) @ ps \<and>
      (as = [] \<and> ps = [] \<and> \<not> ok \<or> identification ok as ps)"
proof (cases "spi_dev d")
  case (Some dev)
  obtain r w1 where a: "ask E (SPIDevice_begin dev) w = (r, w1)"
    by (cases "ask E (SPIDevice_begin dev) w")
  have w1: "accesses w1 = accesses w" "printed (trace w1) = printed (trace w)"
    using accesses_ask [of E "SPIDevice_begin dev" w] trace_ask [of E "SPIDevice_begin dev" w]
    by (simp_all add: a printed_append)
  show ?thesis
  proof (cases "r = 0")
    case True
    then show ?thesis using Some a w1 by (auto simp: begin_busio_def)
  next
    case False
    obtain ok w' as ps
      where "identify_busio E d (reset_pulse E (resetpin d) w1) = Inr (ok, w')"
        and "accesses w' = accesses (reset_pulse E (resetpin d) w1) @ as"
        and "printed (trace w') = printed (trace (reset_pulse E (resetpin d) w1)) @ ps"
        and "identification ok as ps"
      using identify_busio_outcome [of d E "reset_pulse E (resetpin d) w1"] Some by auto
    then show ?thesis using Some a w1 False by (simp add: begin_busio_def)
  qed
next
  case None
  let ?dev = "Adafruit_I2CDevice i2caddr theWire"
  let ?d = "d\<lparr>i2c_dev := Some ?dev\<rparr>"
  obtain r w1 where a: "ask E (I2CDevice_begin ?dev) w = (r, w1)"
    by (cases "ask E (I2CDevice_begin ?dev) w")
  have w1: "accesses w1 = accesses w" "printed (trace w1) = printed (trace w)"
    using accesses_ask [of E "I2CDevice_begin ?dev" w] trace_ask [of E "I2CDevice_begin ?dev" w]
    by (simp_all add: a printed_append)
  show ?thesis
  proof (cases "r = 0")
    case True
    then show ?thesis using None a w1 by (auto simp: begin_busio_def)
  next
    case False
    obtain ok w' as ps
      where "identify_busio E ?d (reset_pulse E (resetpin ?d) w1) = Inr (ok, w')"
        and "accesses w' = accesses (reset_pulse E (resetpin ?d) w1) @ as"
        and "printed (trace w') = printed (trace (reset_pulse E (resetpin ?d) w1)) @ ps"
        and "identification ok as ps"
      using identify_busio_outcome [of ?d E "reset_pulse E (resetpin ?d) w1"] by auto
    then show ?thesis using None a w1 False by (simp add: begin_busio_def)
  qed
qed

lemma open_bus_run_frame:
  "accesses (snd (open_bus_run E d i2caddr theWire w)) = accesses w \<and>
   printed (trace (snd (open_bus_run E d i2caddr theWire w))) = printed (trace w)"
  by (simp add: open_bus_run_def Let_def printed_append)

lemma begin_run_outcome:
  "\<exists>ok d' w' as ps. begin_run E d i2caddr theWire w = ((ok, d'), w') \<and>
      accesses w' = accesses w @ as \<and> printed (trace w') = printed (trace w) @ ps \<and>
      identification ok as ps"
proof -
  obtain d1 w1 where o: "open_bus_run E d i2caddr theWire w = (d1, w1)"
    by (cases "open_bus_run E d i2caddr theWire w")
  have w1: "accesses w1 = accesses w" "printed (trace w1) = printed (trace w)"
    using open_bus_run_frame [of E d i2caddr theWire w] by (simp_all add: o)
  obtain ok w' as ps
    where "identify_run E d1 (reset_pulse E (l_resetpin d1) w1) = (ok, w')"
      and "accesses w' = accesses (reset_pulse E (l_resetpin d1) w1) @ as"
      and "printed (trace w') = printed (trace (reset_pulse E (l_resetpin d1) w1)) @ ps"
      and "identification ok as ps"
    using identify_run_outcome [of E d1 "reset_pulse E (l_resetpin d1) w1"] by auto
  then show ?thesis using o w1 by (simp add: begin_run_def)
qed

subsection \<open>What an identification's accesses say\<close>

lemma identification_mismatch:
  assumes "identification ok as ps" and "\<exists>a \<in> set (check_reads as). \<not> identity_ok a"
  shows "\<not> ok \<and> list_all is_read as"
  using assms by (auto simp: identification_def comparison_def check_reads_def)

lemma identification_match:
  assumes "identification ok as ps"
    and "check_reads as = [RegRead CAP1188_PRODID 0x50, RegRead CAP1188_MANUID 0x5D,
                           RegRead CAP1188_REV 0x83]"
  shows "ok \<and> filter (\<lambda>a. \<not> is_read a) as =
            [RegWrite CAP1188_MTBLK 0, RegWrite CAP1188_LEDLINK 0xFF,
             RegWrite CAP1188_STANDBYCFG 0x30] \<and>
         drop 7 as = [RegWrite CAP1188_MTBLK 0, RegWrite CAP1188_LEDLINK 0xFF,
             RegWrite CAP1188_STANDBYCFG 0x30] \<and>
         list_all is_read (take 7 as)"
  using assms by (auto simp: identification_def comparison_def check_reads_def)

lemma identification_reads:
  assumes "identification ok as ps"
  shows "list_all is_read (take 4 as) \<and>
         map reg_of (take 4 as) = [CAP1188_PRODID, CAP1188_PRODID, CAP1188_MANUID, CAP1188_REV] \<and>
         ps = map val_of (take 3 (drop 1 as)) \<and>
         check_reads as \<noteq> [] \<and>
         map reg_of (check_reads as) =
           take (length (check_reads as)) [CAP1188_PRODID, CAP1188_MANUID, CAP1188_REV] \<and>
         list_all identity_ok (butlast (check_reads as)) \<and>
         length (filter is_read as) = 4 + length (check_reads as) \<and>
         (length (filter is_read as) = 7 \<longleftrightarrow>
            take 2 (check_reads as) = [RegRead CAP1188_PRODID 0x50, RegRead CAP1188_MANUID 0x5D]) \<and>
         (ok \<longleftrightarrow> list_all identity_ok (check_reads as) \<and> length (check_reads as) = 3)"
  using assms by (auto simp: identification_def comparison_def check_reads_def)

subsection \<open>Bits and the bit-banged transfer\<close>

lemma msb_first_snoc:
  "msb_first (bs @ [b]) = (if b then push_bit 1 (msb_first bs) OR 1 else push_bit 1 (msb_first bs))"
  by (simp add: msb_first_def push_bit_eq_mult or_one_eq mult.commute)

lemma msb_first_Nil [simp]: "msb_first [] = 0"
  by (simp add: msb_first_def)

lemma msb_first_bits: "msb_first (map (bit x) (rev [0..<8])) = x"
proof -
  have "msb_first (map (bit x) (rev [0..<8])) = horner_sum of_bool 2 (map (bit x) [0..<8])"
    by (simp only: msb_first_def rev_map rev_rev_ident)
  also have "\<dots> = take_bit 8 x" by (rule horner_sum_bit_eq_take_bit)
  also have "\<dots> = x" by (simp add: take_bit_word_eq_self)
  finally show ?thesis .
qed

lemma bit_msb_first:
  "length bs = 8 \<Longrightarrow> n < 8 \<Longrightarrow> bit (msb_first bs) n = bs ! (7 - n)"
  by (simp add: msb_first_def bit_horner_sum_bit_word_iff rev_nth)

lemma and_push_bit_1: "((x :: u8) AND push_bit i 1 \<noteq> 0) = bit x i"
  by (simp add: bit_iff_and_push_bit_not_eq_0)

lemma rev_upt_8: "rev [0..<8] = [7, 6, 5, 4, 3, 2, 1, 0::nat]"
  by (simp add: upt_rec)

lemma ask_result:
  "ask E c w = (r, w') \<Longrightarrow> trace w' = trace w @ [Ask c r] \<and> accesses w' = accesses w"
  by (auto simp: ask_def split: prod.splits)

lemma spixfer_bit_trace:
  assumes "spixfer_bit E d data (int i) (msb_first acc) w = (reply, w')"
  shows "\<exists>r. trace w' = trace w @ bit_cycle d data i r \<and> reply = msb_first (acc @ [r \<noteq> 0])"
proof -
  let ?w3 = "exec E (digitalWrite (l_clk d) HIGH)
               (exec E (digitalWrite (l_mosi d) (data AND push_bit i 1))
                 (exec E (digitalWrite (l_clk d) LOW) w))"
  obtain r w4 where a: "ask E (digitalRead (l_miso d)) ?w3 = (r, w4)"
    by (cases "ask E (digitalRead (l_miso d)) ?w3")
  from assms a have "w' = w4"
    and "reply = (if r \<noteq> 0 then push_bit 1 (msb_first acc) OR 1 else push_bit 1 (msb_first acc))"
    by (auto simp: spixfer_bit_def Let_def)
  moreover from ask_result [OF a] have "trace w4 = trace w @ bit_cycle d data i r"
    by (simp add: bit_cycle_def)
  ultimately show ?thesis
    by (intro exI [of _ r]) (simp add: msb_first_snoc)
qed

lemma spixfer_loop_0:
  "spixfer_loop E d data 0 reply w = spixfer_bit E d data 0 reply w"
  by (subst spixfer_loop.simps, subst spixfer_loop.simps) (simp add: Let_def)

lemma spixfer_loop_Suc:
  "spixfer_loop E d data (int (Suc n)) reply w =
     spixfer_loop E d data (int n) (fst (spixfer_bit E d data (int (Suc n)) reply w))
       (snd (spixfer_bit E d data (int (Suc n)) reply w))"
  by (subst spixfer_loop.simps) (simp add: Let_def)

lemma spixfer_loop_trace:
  assumes "spixfer_loop E d data (int n) (msb_first acc) w = (reply, w')"
  shows "\<exists>rs. length rs = Suc n \<and>
           trace w' = trace w @
             concat (map (\<lambda>(i, r). bit_cycle d data i r) (zip (rev [0..<Suc n]) rs)) \<and>
           reply = msb_first (acc @ map (\<lambda>r. r \<noteq> 0) rs)"
  using assms
proof (induction n arbitrary: acc w)
  case 0
  obtain r1 w1 where b: "spixfer_bit E d data (int 0) (msb_first acc) w = (r1, w1)"
    by (cases "spixfer_bit E d data (int 0) (msb_first acc) w")
  from 0 b have "reply = r1" "w' = w1"
    by (simp_all add: spixfer_loop_0)
  with spixfer_bit_trace [OF b] obtain r
    where "trace w' = trace w @ bit_cycle d data 0 r" "reply = msb_first (acc @ [r \<noteq> 0])"
    by auto
  then show ?case by (intro exI [of _ "[r]"]) simp
next
  case (Suc n)
  obtain r1 w1 where b: "spixfer_bit E d data (int (Suc n)) (msb_first acc) w = (r1, w1)"
    by (cases "spixfer_bit E d data (int (Suc n)) (msb_first acc) w")
  from spixfer_bit_trace [OF b] obtain r
    where t1: "trace w1 = trace w @ bit_cycle d data (Suc n) r"
      and r1: "r1 = msb_first ((acc @ [r \<noteq> 0]))"
    by auto
  from Suc.prems b r1 have "spixfer_loop E d data (int n) (msb_first (acc @ [r \<noteq> 0])) w1 = (reply, w')"
    by (simp only: spixfer_loop_Suc fst_conv snd_conv)
  from Suc.IH [OF this] obtain rs where rs: "length rs = Suc n"
    "trace w' = trace w1 @ concat (map (\<lambda>(i, r). bit_cycle d data i r) (zip (rev [0..<Suc n]) rs))"
    "reply = msb_first ((acc @ [r \<noteq> 0]) @ map (\<lambda>r. r \<noteq> 0) rs)"
    by auto
  with t1 show ?case by (intro exI [of _ "r # rs"]) simp
qed

subsection \<open>The bench under the driver's register calls\<close>

lemma outside_exec: "outside (exec E c w) = snd (E c (outside w))"
  by (simp add: exec_def)

lemma outside_ask: "outside (snd (ask E c w)) = snd (E c (outside w))"
  by (simp add: ask_def case_prod_beta)

lemma fst_ask: "fst (ask E c w) = fst (E c (outside w))"
  by (simp add: ask_def case_prod_beta)

lemma outside_log_access [simp]: "outside (log_access a w) = outside w"
  by (simp add: log_access_def)

lemma attached_busio_transport:
  "attached_busio W d \<Longrightarrow> i2c_dev d \<noteq> None \<or> spi_dev d \<noteq> None"
  by (auto simp: attached_busio_def split: option.splits)

lemma framed_spi_byte [simp]: "framed (spi_byte b c) = framed c"
  by (simp add: spi_byte_def next_phase_def split: spi_phase.splits)

lemma framed_spi_exchange [simp]: "framed (snd (spi_exchange b c)) = framed c"
  by (simp add: spi_exchange_def)

lemma framed_spi_bytes [simp]:
  "framed (foldl (\<lambda>c b. snd (spi_exchange b c)) c bytes) = framed c"
  by (induction bytes arbitrary: c) simp_all

lemma framed_i2c_bytes [simp]:
  "framed (foldl (\<lambda>c v. c\<lparr>regs := (regs c)(pointer c := v), pointer := pointer c + 1\<rparr>) c vs) =
     framed c"
  by (induction vs arbitrary: c) simp_all

lemma framed_i2c_write [simp]: "framed (i2c_write bytes c) = framed c"
  by (simp add: i2c_write_def split: list.splits)

lemma framed_spi_clock [simp]: "framed (spi_clock hi c) = framed c"
  by (simp add: spi_clock_def Let_def)

lemma framed_simulate [simp]: "framed (snd (simulate W c s)) = framed s"
proof (cases c)
  case (I2CDevice_begin dev)
  then show ?thesis by (cases dev) simp
next
  case (I2CDevice_write dev bytes)
  then show ?thesis by (cases dev) simp
next
  case (I2CDevice_write_then_read dev bytes n)
  then show ?thesis by (cases dev) (simp add: Let_def)
next
  case (Wire_read h)
  then show ?thesis by (simp split: list.splits)
qed (simp_all add: spi_select_def spi_deselect_def Let_def case_prod_beta)

lemma framed_exec [simp]: "framed (outside (exec (simulate W) c w)) = framed (outside w)"
  by (simp add: outside_exec)

lemma framed_ask [simp]: "framed (outside (snd (ask (simulate W) c w))) = framed (outside w)"
  by (simp add: outside_ask)

text \<open>A BusIO device on SPI sends its bytes in one chip-select frame, which serves a
  register access only on a chip that is not framed.\<close>

lemma simulate_read_busio:
  assumes "attached_busio W d" and "i2c_dev d \<noteq> None \<or> \<not> framed c"
  shows "fst (simulate W (read_op_busio d reg) c) = regs c reg"
    and "regs (snd (simulate W (read_op_busio d reg) c)) = regs c"
  using assms
  by (auto simp: attached_busio_def read_op_busio_def i2c_write_def i2c_read_def
        spi_select_def spi_deselect_def spi_exchange_def spi_byte_def next_phase_def Let_def
      split: option.splits i2c_device.splits)

lemma simulate_write_busio:
  assumes "attached_busio W d" and "i2c_dev d \<noteq> None \<or> \<not> framed c"
  shows "regs (snd (simulate W (write_op_busio d reg v) c)) = (regs c)(reg := v)"
  using assms
  by (auto simp: attached_busio_def write_op_busio_def i2c_write_def
        spi_select_def spi_deselect_def spi_exchange_def spi_byte_def next_phase_def Let_def
      split: option.splits i2c_device.splits)

lemma simulate_read_busio_framed:
  assumes "attached_busio W d" and "i2c_dev d = None" and "framed c"
  shows "fst (simulate W (read_op_busio d reg) c) = 0"
  using assms
  by (auto simp: attached_busio_def read_op_busio_def
        spi_select_def spi_deselect_def spi_exchange_def spi_byte_def next_phase_def Let_def
      split: option.splits)

lemma simulate_write_busio_framed:
  assumes "attached_busio W d" and "i2c_dev d = None" and "framed c"
  shows "regs (snd (simulate W (write_op_busio d reg v) c)) = regs c"
  using assms
  by (auto simp: attached_busio_def write_op_busio_def
        spi_select_def spi_deselect_def spi_exchange_def spi_byte_def next_phase_def Let_def
      split: option.splits)

lemma readRegister_busio_bench:
  assumes "attached_busio W d" and "i2c_dev d \<noteq> None \<or> \<not> framed (outside w)"
  shows "\<exists>w'. readRegister_busio (simulate W) d reg w = Inr (regs (outside w) reg, w') \<and>
           regs (outside w') = regs (outside w) \<and> framed (outside w') = framed (outside w)"
  using simulate_read_busio [OF assms]
  by (simp add: readRegister_busio_eq [OF attached_busio_transport [OF assms(1)]]
        fst_ask outside_ask)

lemma writeRegister_busio_bench:
  assumes "attached_busio W d" and "i2c_dev d \<noteq> None \<or> \<not> framed (outside w)"
  shows "\<exists>w'. writeRegister_busio (simulate W) d reg v w = Inr ((), w') \<and>
           regs (outside w') = (regs (outside w))(reg := v) \<and>
           framed (outside w') = framed (outside w)"
  using simulate_write_busio [OF assms]
  by (simp add: writeRegister_busio_eq [OF attached_busio_transport [OF assms(1)]] outside_exec)

lemma readRegister_run_i2c_bench:
  assumes "l_i2c d" and "l_i2caddr d = w_addr W"
  shows "fst (readRegister_run (simulate W) d reg w) = regs (outside w) reg"
    and "regs (outside (snd (readRegister_run (simulate W) d reg w))) = regs (outside w)"
  using assms
  by (simp_all add: readRegister_run_def i2cwrite_run_def Let_def case_prod_beta
        outside_exec outside_ask fst_ask i2c_write_def i2c_read_def)

lemma writeRegister_run_i2c_bench:
  assumes "l_i2c d" and "l_i2caddr d = w_addr W"
  shows "regs (outside (writeRegister_run (simulate W) d reg v w)) = (regs (outside w))(reg := v)"
  using assms
  by (simp_all add: writeRegister_run_def i2cwrite_run_def Let_def case_prod_beta
        outside_exec outside_ask fst_ask i2c_write_def i2c_read_def)

lemma readRegister_run_hwspi_bench:
  assumes "\<not> l_i2c d" and "l_clk d = - 1" and "l_cs d = w_cs W"
  shows "fst (readRegister_run (simulate W) d reg w) = regs (outside w) reg"
    and "regs (outside (snd (readRegister_run (simulate W) d reg w))) = regs (outside w)"
  using assms
  by (simp_all add: readRegister_run_def spixfer_run_def spi_begin_run_def
        spi_end_run_def Let_def case_prod_beta
        outside_exec outside_ask fst_ask spi_select_def spi_deselect_def spi_exchange_def spi_byte_def)

lemma writeRegister_run_hwspi_bench:
  assumes "\<not> l_i2c d" and "l_clk d = - 1" and "l_cs d = w_cs W"
  shows "regs (outside (writeRegister_run (simulate W) d reg v w)) = (regs (outside w))(reg := v)"
  using assms
  by (simp_all add: writeRegister_run_def spixfer_run_def spi_begin_run_def
        spi_end_run_def Let_def case_prod_beta
        outside_exec outside_ask fst_ask spi_select_def spi_deselect_def spi_exchange_def spi_byte_def)

lemma bus_spi_10_fields:
  "i2c_dev bus_spi_10 = None"
  "spi_dev bus_spi_10 = Some (Adafruit_SPIDevice_hw 10 2000000 SPI_BITORDER_MSBFIRST SPI_MODE0 0)"
  "resetpin bus_spi_10 = - 1"
  "attached_busio sketch_wiring bus_spi_10"
  by (simp_all add: bus_spi_10_def Adafruit_CAP1188_hwspi_busio_def attached_busio_def
        sketch_wiring_def)

lemma leg_i2c_fields:
  "l_i2c leg_i2c" "l_resetpin leg_i2c = - 1"
  by (simp_all add: leg_i2c_def Adafruit_CAP1188_i2c_legacy_def)

lemma accesses_readRegister_run:
  "accesses (snd (readRegister_run E d reg w)) =
     accesses w @ [RegRead reg (fst (readRegister_run E d reg w))]"
  using readRegister_run_step [of E d reg w] by auto

lemma accesses_writeRegister_run:
  "accesses (writeRegister_run E d reg v w) = accesses w @ [RegWrite reg v]"
  using writeRegister_run_step [of E d reg v w] by auto

lemmas run_busio = begin_busio_def identify_busio_def touched_busio_def
  readRegister_busio_eq writeRegister_busio_eq case_prod_beta Let_def
  simulate_read_busio simulate_write_busio reset_pulse_def outside_exec outside_ask fst_ask
  made_def check_reads_def

lemmas run_legacy = begin_run_def open_bus_run_def identify_run_def touched_run_def
  case_prod_beta Let_def accesses_readRegister_run accesses_writeRegister_run
  reset_pulse_def outside_exec outside_ask fst_ask made_def check_reads_def

lemma and_not_1_bits:
  "\<not> bit ((m :: u8) AND NOT 1) 0" "n \<noteq> 0 \<Longrightarrow> bit (m AND NOT 1) n = bit m n"
  by (auto simp: bit_simps dest: bit_imp_le_length)

lemma trace_readRegister_busio:
  "readRegister_busio E d reg w = Inr (v, w') \<Longrightarrow>
     trace w' = trace w @ [Ask (read_op_busio d reg) v] \<and> accesses w' = accesses w @ [RegRead reg v]"
  using readRegister_busio_attached [of E d reg w "(v, w')"]
  by (auto simp: readRegister_busio_eq)

lemma leg_spi_10_fields:
  "\<not> l_i2c leg_spi_10" "l_clk leg_spi_10 = - 1" "l_cs leg_spi_10 = w_cs sketch_wiring"
  by (simp_all add: leg_spi_10_def Adafruit_CAP1188_hwspi_legacy_def sketch_wiring_def)

lemma framed_start [simp]: "\<not> framed (outside start)" "\<not> framed (outside touching)"
  by (simp_all add: start_def touching_def power_on_def)

lemma regs_start:
  "regs (outside start) = (\<lambda>r. if r = CAP1188_PRODID then 0x50 else if r = CAP1188_MANUID then 0x5D
                  else if r = CAP1188_REV then 0x83 else 0)"
  by (simp add: start_def power_on_def)

lemma regs_touching:
  "regs (outside touching) CAP1188_SENINPUTSTATUS = 0x05"
  "regs (outside touching) CAP1188_MAIN = 0x01"
  by (simp_all add: touching_def)

lemmas read_legacy_spi_10 =
  readRegister_run_hwspi_bench [OF leg_spi_10_fields, folded sketch_def]

lemma length_8_list:
  assumes "length rs = 8"
  obtains r7 r6 r5 r4 r3 r2 r1 r0 where "rs = [r7, r6, r5, r4, r3, r2, r1, r0]"
  using assms by (auto simp: numeral_eq_Suc length_Suc_conv)

lemma mask_bits:
  "((x :: u8) AND 128 \<noteq> 0) = bit x 7" "(x AND 64 \<noteq> 0) = bit x 6"
  "(x AND 32 \<noteq> 0) = bit x 5" "(x AND 16 \<noteq> 0) = bit x 4"
  "(x AND 8 \<noteq> 0) = bit x 3" "(x AND 4 \<noteq> 0) = bit x 2"
  "(x AND 2 \<noteq> 0) = bit x 1" "(x AND 1 \<noteq> 0) = bit x 0"
  using and_push_bit_1 [of x 7] and_push_bit_1 [of x 6] and_push_bit_1 [of x 5]
    and_push_bit_1 [of x 4] and_push_bit_1 [of x 3] and_push_bit_1 [of x 2]
    and_push_bit_1 [of x 1] and_push_bit_1 [of x 0]
  by simp_all

lemma spixfer_soft_trace:
  assumes "l_clk d \<noteq> - 1" and "spixfer_run E d data w = (reply, w')"
  shows "\<exists>rs. length rs = 8 \<and>
           trace w' = trace w @
             concat (map (\<lambda>(i, r). bit_cycle d data i r) (zip [7, 6, 5, 4, 3, 2, 1, 0] rs)) \<and>
           reply = msb_first (map (\<lambda>r. r \<noteq> 0) rs)"
proof -
  from assms have "spixfer_loop E d data (int 7) (msb_first []) w = (reply, w')"
    by (simp add: spixfer_run_def)
  from spixfer_loop_trace [OF this] show ?thesis
    by (simp add: rev_upt_8 [simplified] del: upt_Suc)
qed

lemma soft_spi_fields:
  "\<not> l_i2c soft_spi" "l_clk soft_spi = 13" "l_mosi soft_spi = 11" "l_miso soft_spi = 12"
  "l_cs soft_spi = 10"
  by (simp_all add: soft_spi_def Adafruit_CAP1188_swspi_legacy_def)

subsection \<open>Bit-banged SPI on the bench\<close>

lemma spi_byte_pins:
  "(spi_byte b (c\<lparr>miso_high := a1, clk_high := a2, mosi_high := a3, shift_in := a4\<rparr>))
      \<lparr>shift_in := s, clk_high := k, mosi_high := x, miso_high := y\<rparr> =
   (spi_byte b c)\<lparr>shift_in := s, clk_high := k, mosi_high := x, miso_high := y\<rparr>"
  by (simp add: spi_byte_def next_phase_def split: spi_phase.splits)

lemma spi_clock_low:
  assumes "selected c" and "clk_high c \<or> miso_high c = bit (out_byte c) n"
    and "7 - length (shift_in c) = n"
  shows "spi_clock False c = c\<lparr>miso_high := bit (out_byte c) n, clk_high := False\<rparr>"
proof (cases "clk_high c")
  case True
  with assms show ?thesis by (simp add: spi_clock_def)
next
  case False
  with assms have "miso_high c = bit (out_byte c) n" by simp
  then have "c\<lparr>miso_high := bit (out_byte c) n, clk_high := False\<rparr> = c\<lparr>clk_high := False\<rparr>"
    by simp
  with False show ?thesis by (simp add: spi_clock_def)
qed

lemma spi_clock_high:
  assumes "selected c" and "\<not> clk_high c"
  shows "spi_clock True c =
     (if length (shift_in c) = 7
      then (spi_byte (msb_first (shift_in c @ [mosi_high c])) c)\<lparr>shift_in := [], clk_high := True\<rparr>
      else c\<lparr>shift_in := shift_in c @ [mosi_high c], clk_high := True\<rparr>)"
  using assms by (simp add: spi_clock_def Let_def)

lemma simulate_pins:
  assumes "distinct [w_cs W, w_clk W, w_mosi W]"
  shows "snd (simulate W (digitalWrite (w_clk W) v) c) = spi_clock (v \<noteq> 0) c"
    and "snd (simulate W (digitalWrite (w_mosi W) v) c) = c\<lparr>mosi_high := (v \<noteq> 0)\<rparr>"
    and "simulate W (digitalRead (w_miso W)) c = (if miso_high c then 1 else 0, c)"
  using assms by auto

lemma spixfer_bit_outside:
  "outside (snd (spixfer_bit E d data i reply w)) =
     snd (E (digitalRead (l_miso d))
       (snd (E (digitalWrite (l_clk d) HIGH)
         (snd (E (digitalWrite (l_mosi d) (data AND push_bit (nat i) 1))
           (snd (E (digitalWrite (l_clk d) LOW) (outside w))))))))"
  by (simp add: spixfer_bit_def Let_def case_prod_beta outside_ask outside_exec)

lemma spixfer_bit_fst:
  "fst (spixfer_bit E d data i reply w) =
     (if fst (E (digitalRead (l_miso d))
       (snd (E (digitalWrite (l_clk d) HIGH)
         (snd (E (digitalWrite (l_mosi d) (data AND push_bit (nat i) 1))
           (snd (E (digitalWrite (l_clk d) LOW) (outside w)))))))) \<noteq> 0
      then push_bit 1 reply OR 1 else push_bit 1 reply)"
  by (simp add: spixfer_bit_def Let_def case_prod_beta fst_ask outside_exec)

lemma and_exp_1: "((x :: u8) AND 2 ^ n \<noteq> 0) = bit x n"
  using and_push_bit_1 [of x n] by simp

lemma spixfer_bit_bench:
  assumes pins: "l_clk d = w_clk W" "l_mosi d = w_mosi W" "l_miso d = w_miso W"
      "distinct [w_cs W, w_clk W, w_mosi W]"
    and c: "selected (outside w)" "length (shift_in (outside w)) + Suc n = 8"
      "clk_high (outside w) \<or> miso_high (outside w) = bit (out_byte (outside w)) n"
  shows "fst (spixfer_bit (simulate W) d data (int n) (msb_first acc) w) =
           msb_first (acc @ [bit (out_byte (outside w)) n])"
    and "outside (snd (spixfer_bit (simulate W) d data (int n) (msb_first acc) w)) =
           (if n = 0
            then (spi_byte (msb_first (shift_in (outside w) @ [bit data 0]))
                    ((outside w)\<lparr>miso_high := bit (out_byte (outside w)) 0, clk_high := False,
                       mosi_high := bit data 0\<rparr>))\<lparr>shift_in := [], clk_high := True\<rparr>
            else (outside w)\<lparr>miso_high := bit (out_byte (outside w)) n, clk_high := True,
                   mosi_high := bit data n, shift_in := shift_in (outside w) @ [bit data n]\<rparr>)"
proof -
  let ?c = "outside w"
  let ?c2 = "?c\<lparr>miso_high := bit (out_byte ?c) n, clk_high := False, mosi_high := bit data n\<rparr>"
  have n: "7 - length (shift_in ?c) = n" "(length (shift_in ?c) = 7) = (n = 0)"
    using c(2) by auto
  have low: "spi_clock False ?c = ?c\<lparr>miso_high := bit (out_byte ?c) n, clk_high := False\<rparr>"
    by (rule spi_clock_low [OF c(1) c(3) n(1)])
  have high: "spi_clock True ?c2 =
     (if n = 0
      then (spi_byte (msb_first (shift_in ?c @ [bit data n])) ?c2)\<lparr>shift_in := [], clk_high := True\<rparr>
      else ?c2\<lparr>shift_in := shift_in ?c @ [bit data n], clk_high := True\<rparr>)"
    using spi_clock_high [of ?c2] c(1) n(2) by simp
  have miso: "miso_high (spi_clock True ?c2) = bit (out_byte ?c) n"
    unfolding high by (simp add: spi_byte_def split: spi_phase.splits)
  have steps: "snd (simulate W (digitalWrite (l_clk d) HIGH)
         (snd (simulate W (digitalWrite (l_mosi d) (data AND push_bit (nat (int n)) 1))
           (snd (simulate W (digitalWrite (l_clk d) LOW) ?c))))) = spi_clock True ?c2"
    by (simp add: pins(1,2) simulate_pins [OF pins(4)] low and_exp_1 del: simulate.simps)
  show "fst (spixfer_bit (simulate W) d data (int n) (msb_first acc) w) =
           msb_first (acc @ [bit (out_byte (outside w)) n])"
    unfolding spixfer_bit_fst steps
    by (simp add: pins(3) simulate_pins [OF pins(4)] miso msb_first_snoc del: simulate.simps)
  show "outside (snd (spixfer_bit (simulate W) d data (int n) (msb_first acc) w)) =
           (if n = 0
            then (spi_byte (msb_first (shift_in (outside w) @ [bit data 0]))
                    ((outside w)\<lparr>miso_high := bit (out_byte (outside w)) 0, clk_high := False,
                       mosi_high := bit data 0\<rparr>))\<lparr>shift_in := [], clk_high := True\<rparr>
            else (outside w)\<lparr>miso_high := bit (out_byte (outside w)) n, clk_high := True,
                   mosi_high := bit data n, shift_in := shift_in (outside w) @ [bit data n]\<rparr>)"
    unfolding spixfer_bit_outside steps
    by (simp add: pins(3) simulate_pins [OF pins(4)] high del: simulate.simps)
qed

lemma spi_byte_pins_last:
  "(spi_byte b (c\<lparr>miso_high := a1, clk_high := a2, mosi_high := a3\<rparr>))
      \<lparr>shift_in := s, clk_high := k\<rparr> =
   (spi_byte b c)\<lparr>shift_in := s, clk_high := k, mosi_high := a3, miso_high := a1\<rparr>"
  by (simp add: spi_byte_def next_phase_def split: spi_phase.splits)

lemma spixfer_loop_bench:
  assumes pins: "l_clk d = w_clk W" "l_mosi d = w_mosi W" "l_miso d = w_miso W"
      "distinct [w_cs W, w_clk W, w_mosi W]"
    and c: "selected (outside w)" "length (shift_in (outside w)) + Suc n = 8"
      "clk_high (outside w) \<or> miso_high (outside w) = bit (out_byte (outside w)) n"
  shows "fst (spixfer_loop (simulate W) d data (int n) (msb_first acc) w) =
           msb_first (acc @ map (bit (out_byte (outside w))) (rev [0..<Suc n])) \<and>
         outside (snd (spixfer_loop (simulate W) d data (int n) (msb_first acc) w)) =
           (spi_byte (msb_first (shift_in (outside w) @ map (bit data) (rev [0..<Suc n])))
              (outside w))
           \<lparr>shift_in := [], clk_high := True, mosi_high := bit data 0,
             miso_high := bit (out_byte (outside w)) 0\<rparr>"
  using c
proof (induction n arbitrary: acc w)
  case 0
  show ?case
    using spixfer_bit_bench [OF pins "0.prems", of data acc]
    by (simp add: spixfer_loop_0 spi_byte_pins_last)
next
  case (Suc n)
  let ?s = "spixfer_bit (simulate W) d data (int (Suc n)) (msb_first acc) w"
  let ?c = "outside w"
  note b = spixfer_bit_bench [OF pins Suc.prems, of data acc]
  have o: "outside (snd ?s) = ?c\<lparr>miso_high := bit (out_byte ?c) (Suc n), clk_high := True,
                   mosi_high := bit data (Suc n),
                   shift_in := shift_in ?c @ [bit data (Suc n)]\<rparr>"
    using b(2) by simp
  have pre: "selected (outside (snd ?s))" "length (shift_in (outside (snd ?s))) + Suc n = 8"
    "clk_high (outside (snd ?s)) \<or>
       miso_high (outside (snd ?s)) = bit (out_byte (outside (snd ?s))) n"
    unfolding o using Suc.prems(1,2) by simp_all
  have "spixfer_loop (simulate W) d data (int (Suc n)) (msb_first acc) w =
      spixfer_loop (simulate W) d data (int n) (msb_first (acc @ [bit (out_byte ?c) (Suc n)]))
        (snd ?s)"
    by (simp only: spixfer_loop_Suc b(1))
  moreover note Suc.IH [OF pre, of "acc @ [bit (out_byte ?c) (Suc n)]", unfolded o]
  moreover have "rev [0..<Suc (Suc n)] = Suc n # rev [0..<Suc n]" by simp
  ultimately show ?case
    by (simp only: bench.simps list.map append.simps append_assoc spi_byte_pins)
       (simp del: upt_Suc)
qed

lemma spixfer_run_soft_bench:
  assumes pins: "l_clk d = w_clk W" "l_mosi d = w_mosi W" "l_miso d = w_miso W"
      "distinct [w_cs W, w_clk W, w_mosi W]"
    and soft: "l_clk d \<noteq> - 1"
    and c: "selected (outside w)" "shift_in (outside w) = []"
      "clk_high (outside w) \<or> miso_high (outside w) = bit (out_byte (outside w)) 7"
  shows "fst (spixfer_run (simulate W) d b w) = out_byte (outside w)"
    and "outside (snd (spixfer_run (simulate W) d b w)) =
           (spi_byte b (outside w))
           \<lparr>shift_in := [], clk_high := True, mosi_high := bit b 0,
             miso_high := bit (out_byte (outside w)) 0\<rparr>"
proof -
  have l: "length (shift_in (outside w)) + Suc 7 = 8" using c(2) by simp
  note r = spixfer_loop_bench [OF pins c(1) l c(3), of b "[]"]
  have x: "spixfer_run (simulate W) d b w = spixfer_loop (simulate W) d b (int 7) (msb_first []) w"
    using soft by (simp add: spixfer_run_def)
  from r show "fst (spixfer_run (simulate W) d b w) = out_byte (outside w)"
    unfolding x by (simp add: msb_first_bits)
  from r show "outside (snd (spixfer_run (simulate W) d b w)) =
           (spi_byte b (outside w))
           \<lparr>shift_in := [], clk_high := True, mosi_high := bit b 0,
             miso_high := bit (out_byte (outside w)) 0\<rparr>"
    unfolding x by (simp add: c(2) msb_first_bits)
qed

lemma bench_ignores:
  "simulate W (Serial_print s) c = (0, c)"
  "simulate W (Serial_println_HEX v) c = (0, c)"
  "simulate W (delay n) c = (0, c)"
  "simulate W (pinMode p m) c = (0, c)"
  "simulate W (Wire_begin h) c = (0, c)"
  "simulate W (SPI_begin h) c = (0, c)"
  "simulate W (SPI_beginTransaction h f b m') c = (0, c)"
  "simulate W (SPI_endTransaction h) c = (0, c)"
  by simp_all

lemma simulate_cs:
  "snd (simulate W (digitalWrite (w_cs W) v) c) = (if v = 0 then spi_select c else spi_deselect c)"
  by simp

lemma readRegister_run_soft_bench:
  assumes pins: "l_clk d = w_clk W" "l_mosi d = w_mosi W" "l_miso d = w_miso W"
      "distinct [w_cs W, w_clk W, w_mosi W]"
    and soft: "\<not> l_i2c d" "l_clk d \<noteq> - 1" "l_cs d = w_cs W"
  shows "fst (readRegister_run (simulate W) d reg w) = regs (outside w) reg"
    and "regs (outside (snd (readRegister_run (simulate W) d reg w))) = regs (outside w)"
  using soft(1,3)
  by (simp_all add: readRegister_run_def spi_begin_run_def spi_end_run_def Let_def
        case_prod_beta outside_exec simulate_cs bench_ignores
        spixfer_run_soft_bench [OF pins soft(2)]
        spi_select_def spi_deselect_def spi_byte_def
      del: simulate.simps)

lemma writeRegister_run_soft_bench:
  assumes pins: "l_clk d = w_clk W" "l_mosi d = w_mosi W" "l_miso d = w_miso W"
      "distinct [w_cs W, w_clk W, w_mosi W]"
    and soft: "\<not> l_i2c d" "l_clk d \<noteq> - 1" "l_cs d = w_cs W"
  shows "regs (outside (writeRegister_run (simulate W) d reg v w)) = (regs (outside w))(reg := v)"
  using soft(1,3)
  by (simp_all add: writeRegister_run_def spi_begin_run_def spi_end_run_def Let_def
        case_prod_beta outside_exec simulate_cs bench_ignores
        spixfer_run_soft_bench [OF pins soft(2)]
        spi_select_def spi_deselect_def spi_byte_def
      del: simulate.simps)

subsection \<open>The calls of a register read\<close>

lemma levels_append: "levels p (xs @ ys) = levels p xs @ levels p ys"
  by (induction p xs rule: levels.induct) auto

lemma levels_concat: "levels p (concat xss) = concat (map (levels p) xss)"
  by (induction xss) (simp_all add: levels_append)

lemma levels_xfer_events:
  assumes "l_clk d = - 1 \<or> p \<noteq> l_clk d \<and> p \<noteq> l_mosi d"
  shows "levels p (xfer_events d b rs) = []"
  using assms
  by (auto simp: xfer_events_def levels_concat bit_cycle_def)

lemma spixfer_run_events:
  assumes "spixfer_run E d b w = (r, w')"
  shows "\<exists>rs. length rs = xfer_length d \<and>
           trace w' = trace w @ xfer_events d b rs \<and> r = xfer_reply d rs"
proof (cases "l_clk d = - 1")
  case True
  with assms have "ask E (SPI_transfer (the (l_spi d)) b) w = (r, w')"
    by (simp add: spixfer_run_def)
  from ask_result [OF this] True show ?thesis
    by (intro exI [of _ "[r]"]) (simp add: xfer_events_def xfer_reply_def xfer_length_def)
next
  case False
  from spixfer_soft_trace [OF False assms] False show ?thesis
    by (auto simp: xfer_events_def xfer_reply_def xfer_length_def)
qed

lemma readRegister_run_spi_events:
  assumes spi: "\<not> l_i2c d" and run: "readRegister_run E d reg w = (v, w')"
  shows "\<exists>rs1 rs2 rs3 rs4.
           length rs1 = xfer_length d \<and> length rs2 = xfer_length d \<and>
           length rs3 = xfer_length d \<and> length rs4 = xfer_length d \<and>
           trace w' = trace w @
             [Cmd (SPI_beginTransaction (the (l_spi d)) 2000000 SPI_BITORDER_MSBFIRST SPI_MODE0),
              Cmd (digitalWrite (l_cs d) LOW)] @
             xfer_events d 0x7D rs1 @ xfer_events d reg rs2 @
             [Cmd (digitalWrite (l_cs d) HIGH), Cmd (digitalWrite (l_cs d) LOW)] @
             xfer_events d 0x7F rs3 @ xfer_events d 0 rs4 @
             [Cmd (digitalWrite (l_cs d) HIGH), Cmd (SPI_endTransaction (the (l_spi d)))] \<and>
           v = xfer_reply d rs4"
proof -
  let ?w2 = "exec E (digitalWrite (l_cs d) LOW) (spi_begin_run E d w)"
  obtain r1 w3 where x1: "spixfer_run E d 0x7D ?w2 = (r1, w3)"
    by (cases "spixfer_run E d 0x7D ?w2")
  obtain r2 w4 where x2: "spixfer_run E d reg w3 = (r2, w4)"
    by (cases "spixfer_run E d reg w3")
  let ?w6 = "exec E (digitalWrite (l_cs d) LOW) (exec E (digitalWrite (l_cs d) HIGH) w4)"
  obtain r3 w7 where x3: "spixfer_run E d 0x7F ?w6 = (r3, w7)"
    by (cases "spixfer_run E d 0x7F ?w6")
  obtain r4 w8 where x4: "spixfer_run E d 0 w7 = (r4, w8)"
    by (cases "spixfer_run E d 0 w7")
  from run spi x1 x2 x3 x4 have v: "v = r4"
    and w': "w' = log_access (RegRead reg r4)
                (spi_end_run E d (exec E (digitalWrite (l_cs d) HIGH) w8))"
    by (auto simp: readRegister_run_def Let_def)
  from spixfer_run_events [OF x1] obtain rs1
    where n1: "length rs1 = xfer_length d"
      and t1: "trace w3 = trace ?w2 @ xfer_events d 0x7D rs1" by blast
  from spixfer_run_events [OF x2] obtain rs2
    where n2: "length rs2 = xfer_length d"
      and t2: "trace w4 = trace w3 @ xfer_events d reg rs2" by blast
  from spixfer_run_events [OF x3] obtain rs3
    where n3: "length rs3 = xfer_length d"
      and t3: "trace w7 = trace ?w6 @ xfer_events d 0x7F rs3" by blast
  from spixfer_run_events [OF x4] obtain rs4
    where n4: "length rs4 = xfer_length d"
      and t4: "trace w8 = trace w7 @ xfer_events d 0 rs4" and r4: "r4 = xfer_reply d rs4" by blast
  show ?thesis
    by (intro exI [of _ rs1] exI [of _ rs2] exI [of _ rs3] exI [of _ rs4])
       (simp add: v w' r4 t1 t2 t3 t4 n1 n2 n3 n4 spi_begin_run_def spi_end_run_def)
qed

lemma emitted_append [simp]: "trace w' = trace w @ es \<Longrightarrow> emitted w w' = es"
  by (simp add: emitted_def)

lemma bus_i2c_fields:
  "i2c_dev bus_i2c = Some (Adafruit_I2CDevice CAP1188_I2CADDR 0)"
  "spi_dev bus_i2c = None"
  "attached_busio sketch_wiring bus_i2c"
  by (simp_all add: bus_i2c_def Adafruit_CAP1188_i2c_busio_def attached_busio_def
        sketch_wiring_def)

lemma leg_i2c_begun_fields:
  "l_i2c leg_i2c_begun" "l_wire leg_i2c_begun = Some 0" "l_i2caddr leg_i2c_begun = CAP1188_I2CADDR"
  "l_i2caddr leg_i2c_begun = w_addr sketch_wiring"
  by (simp_all add: leg_i2c_begun_def leg_i2c_def Adafruit_CAP1188_i2c_legacy_def sketch_wiring_def)

subsection \<open>The calls of a register write and of the configuration\<close>

lemma trace_writeRegister_busio:
  "writeRegister_busio E d reg v w = Inr (u, w') \<Longrightarrow>
     trace w' = trace w @ [Cmd (write_op_busio d reg v)] \<and>
     accesses w' = accesses w @ [RegWrite reg v]"
  by (cases "i2c_dev d"; cases "spi_dev d")
     (auto simp: writeRegister_busio_def write_op_busio_def)

lemma readRegister_run_events:
  assumes run: "readRegister_run E d reg w = (v, w')"
  shows "\<exists>rss. read_replies d rss \<and> trace w' = trace w @ read_events_legacy d reg rss \<and>
           v = read_value_legacy d rss"
proof (cases "l_i2c d")
  case True
  let ?u4 = "exec E (Wire_requestFrom (the (l_wire d)) (l_i2caddr d) 1)
               (exec E (Wire_endTransmission (the (l_wire d)))
                 (i2cwrite_run E d reg
                   (exec E (Wire_beginTransmission (the (l_wire d)) (l_i2caddr d)) w)))"
  obtain r u5 where a: "ask E (Wire_read (the (l_wire d))) ?u4 = (r, u5)"
    by (cases "ask E (Wire_read (the (l_wire d))) ?u4")
  from run True a have "v = r" and "w' = log_access (RegRead reg r) u5"
    by (auto simp: readRegister_run_def Let_def)
  with ask_result [OF a] True show ?thesis
    by (intro exI [of _ "[[r]]"])
       (simp add: i2cwrite_run_def read_replies_def read_events_legacy_def
          read_value_legacy_def)
next
  case False
  from readRegister_run_spi_events [OF False run] obtain rs1 rs2 rs3 rs4
    where "length rs1 = xfer_length d" "length rs2 = xfer_length d"
      "length rs3 = xfer_length d" "length rs4 = xfer_length d"
      "trace w' = trace w @
             [Cmd (SPI_beginTransaction (the (l_spi d)) 2000000 SPI_BITORDER_MSBFIRST SPI_MODE0),
              Cmd (digitalWrite (l_cs d) LOW)] @
             xfer_events d 0x7D rs1 @ xfer_events d reg rs2 @
             [Cmd (digitalWrite (l_cs d) HIGH), Cmd (digitalWrite (l_cs d) LOW)] @
             xfer_events d 0x7F rs3 @ xfer_events d 0 rs4 @
             [Cmd (digitalWrite (l_cs d) HIGH), Cmd (SPI_endTransaction (the (l_spi d)))]"
      "v = xfer_reply d rs4"
    by blast
  with False show ?thesis
    by (intro exI [of _ "[rs1, rs2, rs3, rs4]"])
       (simp add: read_replies_def read_events_legacy_def read_value_legacy_def)
qed

lemma writeRegister_run_events:
  "\<exists>rss. write_replies d rss \<and>
     trace (writeRegister_run E d reg v w) = trace w @ write_events_legacy d reg v rss"
proof (cases "l_i2c d")
  case True
  then show ?thesis
    by (intro exI [of _ "[]"])
       (simp add: writeRegister_run_def i2cwrite_run_def write_replies_def
          write_events_legacy_def)
next
  case False
  let ?w2 = "exec E (digitalWrite (l_cs d) LOW) (spi_begin_run E d w)"
  obtain r1 w3 where x1: "spixfer_run E d 0x7D ?w2 = (r1, w3)"
    by (cases "spixfer_run E d 0x7D ?w2")
  obtain r2 w4 where x2: "spixfer_run E d reg w3 = (r2, w4)"
    by (cases "spixfer_run E d reg w3")
  let ?w6 = "exec E (digitalWrite (l_cs d) LOW) (exec E (digitalWrite (l_cs d) HIGH) w4)"
  obtain r3 w7 where x3: "spixfer_run E d 0x7E ?w6 = (r3, w7)"
    by (cases "spixfer_run E d 0x7E ?w6")
  obtain r4 w8 where x4: "spixfer_run E d v w7 = (r4, w8)"
    by (cases "spixfer_run E d v w7")
  from False x1 x2 x3 x4
  have w': "writeRegister_run E d reg v w = log_access (RegWrite reg v)
                (spi_end_run E d (exec E (digitalWrite (l_cs d) HIGH) w8))"
    by (auto simp: writeRegister_run_def Let_def)
  from spixfer_run_events [OF x1] obtain rs1
    where n1: "length rs1 = xfer_length d"
      and t1: "trace w3 = trace ?w2 @ xfer_events d 0x7D rs1" by blast
  from spixfer_run_events [OF x2] obtain rs2
    where n2: "length rs2 = xfer_length d"
      and t2: "trace w4 = trace w3 @ xfer_events d reg rs2" by blast
  from spixfer_run_events [OF x3] obtain rs3
    where n3: "length rs3 = xfer_length d"
      and t3: "trace w7 = trace ?w6 @ xfer_events d 0x7E rs3" by blast
  from spixfer_run_events [OF x4] obtain rs4
    where n4: "length rs4 = xfer_length d"
      and t4: "trace w8 = trace w7 @ xfer_events d v rs4" by blast
  show ?thesis
    using False
    by (intro exI [of _ "[rs1, rs2, rs3, rs4]"])
       (simp add: w' t1 t2 t3 t4 n1 n2 n3 n4 spi_begin_run_def spi_end_run_def
          write_replies_def write_events_legacy_def)
qed

lemma identify_busio_configures:
  assumes T: "i2c_dev d \<noteq> None \<or> spi_dev d \<noteq> None"
    and ok: "identify_busio E d w = Inr (True, w' :: 'c world)"
  shows "\<exists>(u :: 'c world) rs. accesses u = accesses w @ rs \<and> length rs = 7 \<and>
           accesses w' = accesses u @
             [RegWrite CAP1188_MTBLK 0, RegWrite CAP1188_LEDLINK 0xFF,
              RegWrite CAP1188_STANDBYCFG 0x30] \<and>
           trace w' = trace u @
             [Cmd (write_op_busio d CAP1188_MTBLK 0), Cmd (write_op_busio d CAP1188_LEDLINK 0xFF),
              Cmd (write_op_busio d CAP1188_STANDBYCFG 0x30)]"
proof -
  let ?rd = "readRegister_busio E d" and ?wr = "writeRegister_busio E d"
  obtain v1 w1 where r1: "?rd CAP1188_PRODID w = Inr (v1, w1)"
    and a1: "accesses w1 = accesses w @ [RegRead CAP1188_PRODID v1]"
    and p1: "printed (trace w1) = printed (trace w)"
    using readRegister_busio_step [OF T] by blast
  obtain v2 w2
    where r2: "?rd CAP1188_PRODID (exec E (Serial_print ''Product ID: 0x'') w1) = Inr (v2, w2)"
    and a2: "accesses w2 = accesses w1 @ [RegRead CAP1188_PRODID v2]"
    and p2: "printed (trace w2) = printed (trace w1)"
    using readRegister_busio_step
      [OF T, of E CAP1188_PRODID "exec E (Serial_print ''Product ID: 0x'') w1"]
    by (auto simp: printed_append)
  obtain v3 w3
    where r3: "?rd CAP1188_MANUID
        (exec E (Serial_print ''Manuf. ID: 0x'') (exec E (Serial_println_HEX v2) w2)) = Inr (v3, w3)"
    and a3: "accesses w3 = accesses w2 @ [RegRead CAP1188_MANUID v3]"
    and p3: "printed (trace w3) = printed (trace w2) @ [v2]"
    using readRegister_busio_step [OF T, of E CAP1188_MANUID
        "exec E (Serial_print ''Manuf. ID: 0x'') (exec E (Serial_println_HEX v2) w2)"]
    by (auto simp: printed_append)
  obtain v4 w4
    where r4: "?rd CAP1188_REV
        (exec E (Serial_print ''Revision: 0x'') (exec E (Serial_println_HEX v3) w3)) = Inr (v4, w4)"
    and a4: "accesses w4 = accesses w3 @ [RegRead CAP1188_REV v4]"
    and p4: "printed (trace w4) = printed (trace w3) @ [v3]"
    using readRegister_busio_step [OF T, of E CAP1188_REV
        "exec E (Serial_print ''Revision: 0x'') (exec E (Serial_println_HEX v3) w3)"]
    by (auto simp: printed_append)
  obtain v5 w5
    where r5: "?rd CAP1188_PRODID (exec E (Serial_println_HEX v4) w4) = Inr (v5, w5)"
    and a5: "accesses w5 = accesses w4 @ [RegRead CAP1188_PRODID v5]"
    and p5: "printed (trace w5) = printed (trace w4) @ [v4]"
    using readRegister_busio_step [OF T, of E CAP1188_PRODID "exec E (Serial_println_HEX v4) w4"]
    by (auto simp: printed_append)
  obtain v6 w6 where r6: "?rd CAP1188_MANUID w5 = Inr (v6, w6)"
    and a6: "accesses w6 = accesses w5 @ [RegRead CAP1188_MANUID v6]"
    and p6: "printed (trace w6) = printed (trace w5)"
    using readRegister_busio_step [OF T] by blast
  obtain v7 w7 where r7: "?rd CAP1188_REV w6 = Inr (v7, w7)"
    and a7: "accesses w7 = accesses w6 @ [RegRead CAP1188_REV v7]"
    and p7: "printed (trace w7) = printed (trace w6)"
    using readRegister_busio_step [OF T] by blast
  obtain w8 where r8: "?wr CAP1188_MTBLK 0 w7 = Inr ((), w8)"
    and a8: "accesses w8 = accesses w7 @ [RegWrite CAP1188_MTBLK 0]"
    and p8: "printed (trace w8) = printed (trace w7)"
    using writeRegister_busio_step [OF T] by blast
  obtain w9 where r9: "?wr CAP1188_LEDLINK 0xFF w8 = Inr ((), w9)"
    and a9: "accesses w9 = accesses w8 @ [RegWrite CAP1188_LEDLINK 0xFF]"
    and p9: "printed (trace w9) = printed (trace w8)"
    using writeRegister_busio_step [OF T] by blast
  obtain w10 where r10: "?wr CAP1188_STANDBYCFG 0x30 w9 = Inr ((), w10)"
    and a10: "accesses w10 = accesses w9 @ [RegWrite CAP1188_STANDBYCFG 0x30]"
    and p10: "printed (trace w10) = printed (trace w9)"
    using writeRegister_busio_step [OF T] by blast
  have run: "identify_busio E d w =
      (if v5 \<noteq> 0x50 then Inr (False, w5)
       else if v6 \<noteq> 0x5D then Inr (False, w6)
       else if v7 \<noteq> 0x83 then Inr (False, w7)
       else Inr (True, w10))"
    by (simp add: identify_busio_def Let_def r1 r2 r3 r4 r5 r6 r7 r8 r9 r10)
  from run ok have w': "w' = w10"
    by (simp split: if_splits)
  have f1: "accesses w7 = accesses w @ [RegRead CAP1188_PRODID v1, RegRead CAP1188_PRODID v2,
      RegRead CAP1188_MANUID v3, RegRead CAP1188_REV v4, RegRead CAP1188_PRODID v5,
      RegRead CAP1188_MANUID v6, RegRead CAP1188_REV v7]"
    by (simp add: a1 a2 a3 a4 a5 a6 a7)
  have f2: "accesses w10 = accesses w7 @
             [RegWrite CAP1188_MTBLK 0, RegWrite CAP1188_LEDLINK 0xFF,
              RegWrite CAP1188_STANDBYCFG 0x30]"
    by (simp add: a8 a9 a10)
  have f3: "trace w10 = trace w7 @
             [Cmd (write_op_busio d CAP1188_MTBLK 0), Cmd (write_op_busio d CAP1188_LEDLINK 0xFF),
              Cmd (write_op_busio d CAP1188_STANDBYCFG 0x30)]"
    using trace_writeRegister_busio [OF r8] trace_writeRegister_busio [OF r9]
      trace_writeRegister_busio [OF r10]
    by simp
  show ?thesis
    unfolding w'
    by (intro exI [of _ w7]
          exI [of _ "[RegRead CAP1188_PRODID v1, RegRead CAP1188_PRODID v2,
      RegRead CAP1188_MANUID v3, RegRead CAP1188_REV v4, RegRead CAP1188_PRODID v5,
      RegRead CAP1188_MANUID v6, RegRead CAP1188_REV v7]"]) (simp add: f1 f2 f3)
qed

lemma begin_busio_configures:
  assumes ok: "begin_busio E d i2caddr theWire w = Inr ((True, d'), w' :: 'c world)"
  shows "\<exists>(u :: 'c world) rs. accesses u = accesses w @ rs \<and> length rs = 7 \<and>
           accesses w' = accesses u @
             [RegWrite CAP1188_MTBLK 0, RegWrite CAP1188_LEDLINK 0xFF,
              RegWrite CAP1188_STANDBYCFG 0x30] \<and>
           trace w' = trace u @
             [Cmd (write_op_busio d' CAP1188_MTBLK 0), Cmd (write_op_busio d' CAP1188_LEDLINK 0xFF),
              Cmd (write_op_busio d' CAP1188_STANDBYCFG 0x30)]"
proof (cases "spi_dev d")
  case (Some dev)
  obtain r w1 where a: "ask E (SPIDevice_begin dev) w = (r, w1)"
    by (cases "ask E (SPIDevice_begin dev) w")
  have w1: "accesses w1 = accesses w"
    using accesses_ask [of E "SPIDevice_begin dev" w] by (simp add: a)
  from ok Some a have r: "r \<noteq> 0"
    by (auto simp: begin_busio_def split: if_splits)
  have T: "i2c_dev d \<noteq> None \<or> spi_dev d \<noteq> None" using Some by simp
  from identify_busio_outcome [OF T, of E "reset_pulse E (resetpin d) w1"]
  obtain ok1 w2 where i: "identify_busio E d (reset_pulse E (resetpin d) w1) = Inr (ok1, w2)"
    by blast
  from ok Some a r i have "ok1" "d' = d" "w2 = w'"
    by (simp_all add: begin_busio_def)
  with i have "identify_busio E d (reset_pulse E (resetpin d) w1) = Inr (True, w')" by simp
  from identify_busio_configures [OF T this] w1 \<open>d' = d\<close> show ?thesis by simp
next
  case None
  let ?dev = "Adafruit_I2CDevice i2caddr theWire"
  let ?d = "d\<lparr>i2c_dev := Some ?dev\<rparr>"
  obtain r w1 where a: "ask E (I2CDevice_begin ?dev) w = (r, w1)"
    by (cases "ask E (I2CDevice_begin ?dev) w")
  have w1: "accesses w1 = accesses w"
    using accesses_ask [of E "I2CDevice_begin ?dev" w] by (simp add: a)
  from ok None a have r: "r \<noteq> 0"
    by (auto simp: begin_busio_def Let_def split: if_splits)
  have T: "i2c_dev ?d \<noteq> None \<or> spi_dev ?d \<noteq> None" by simp
  from identify_busio_outcome [OF T, of E "reset_pulse E (resetpin ?d) w1"]
  obtain ok1 w2 where i: "identify_busio E ?d (reset_pulse E (resetpin ?d) w1) = Inr (ok1, w2)"
    by blast
  from ok None a r i have "ok1" "d' = ?d" "w2 = w'"
    by (simp_all add: begin_busio_def Let_def)
  with i have "identify_busio E ?d (reset_pulse E (resetpin ?d) w1) = Inr (True, w')" by simp
  from identify_busio_configures [OF T this] w1 \<open>d' = ?d\<close> show ?thesis by simp
qed

lemma identify_run_configures:
  assumes ok: "identify_run E d w = (True, w' :: 'c world)"
  shows "\<exists>(u :: 'c world) rs rs1 rs2 rs3. accesses u = accesses w @ rs \<and> length rs = 7 \<and>
           accesses w' = accesses u @
             [RegWrite CAP1188_MTBLK 0, RegWrite CAP1188_LEDLINK 0xFF,
              RegWrite CAP1188_STANDBYCFG 0x30] \<and>
           write_replies d rs1 \<and> write_replies d rs2 \<and> write_replies d rs3 \<and>
           trace w' = trace u @
             write_events_legacy d CAP1188_MTBLK 0 rs1 @
             write_events_legacy d CAP1188_LEDLINK 0xFF rs2 @
             write_events_legacy d CAP1188_STANDBYCFG 0x30 rs3"
proof -
  let ?rd = "readRegister_run E d" and ?wr = "writeRegister_run E d"
  obtain v1 w1 where r1: "?rd CAP1188_PRODID w = (v1, w1)"
    and a1: "accesses w1 = accesses w @ [RegRead CAP1188_PRODID v1]"
    and p1: "printed (trace w1) = printed (trace w)"
    using readRegister_run_step by blast
  obtain v2 w2
    where r2: "?rd CAP1188_PRODID (exec E (Serial_print ''Product ID: 0x'') w1) = (v2, w2)"
    and a2: "accesses w2 = accesses w1 @ [RegRead CAP1188_PRODID v2]"
    and p2: "printed (trace w2) = printed (trace w1)"
    using readRegister_run_step
      [of E d CAP1188_PRODID "exec E (Serial_print ''Product ID: 0x'') w1"]
    by (auto simp: printed_append)
  obtain v3 w3
    where r3: "?rd CAP1188_MANUID
        (exec E (Serial_print ''Manuf. ID: 0x'') (exec E (Serial_println_HEX v2) w2)) = (v3, w3)"
    and a3: "accesses w3 = accesses w2 @ [RegRead CAP1188_MANUID v3]"
    and p3: "printed (trace w3) = printed (trace w2) @ [v2]"
    using readRegister_run_step [of E d CAP1188_MANUID
        "exec E (Serial_print ''Manuf. ID: 0x'') (exec E (Serial_println_HEX v2) w2)"]
    by (auto simp: printed_append)
  obtain v4 w4
    where r4: "?rd CAP1188_REV
        (exec E (Serial_print ''Revision: 0x'') (exec E (Serial_println_HEX v3) w3)) = (v4, w4)"
    and a4: "accesses w4 = accesses w3 @ [RegRead CAP1188_REV v4]"
    and p4: "printed (trace w4) = printed (trace w3) @ [v3]"
    using readRegister_run_step [of E d CAP1188_REV
        "exec E (Serial_print ''Revision: 0x'') (exec E (Serial_println_HEX v3) w3)"]
    by (auto simp: printed_append)
  obtain v5 w5
    where r5: "?rd CAP1188_PRODID (exec E (Serial_println_HEX v4) w4) = (v5, w5)"
    and a5: "accesses w5 = accesses w4 @ [RegRead CAP1188_PRODID v5]"
    and p5: "printed (trace w5) = printed (trace w4) @ [v4]"
    using readRegister_run_step [of E d CAP1188_PRODID "exec E (Serial_println_HEX v4) w4"]
    by (auto simp: printed_append)
  obtain v6 w6 where r6: "?rd CAP1188_MANUID w5 = (v6, w6)"
    and a6: "accesses w6 = accesses w5 @ [RegRead CAP1188_MANUID v6]"
    and p6: "printed (trace w6) = printed (trace w5)"
    using readRegister_run_step by blast
  obtain v7 w7 where r7: "?rd CAP1188_REV w6 = (v7, w7)"
    and a7: "accesses w7 = accesses w6 @ [RegRead CAP1188_REV v7]"
    and p7: "printed (trace w7) = printed (trace w6)"
    using readRegister_run_step by blast
  obtain w8 where r8: "?wr CAP1188_MTBLK 0 w7 = w8"
    and a8: "accesses w8 = accesses w7 @ [RegWrite CAP1188_MTBLK 0]"
    and p8: "printed (trace w8) = printed (trace w7)"
    using writeRegister_run_step by blast
  obtain w9 where r9: "?wr CAP1188_LEDLINK 0xFF w8 = w9"
    and a9: "accesses w9 = accesses w8 @ [RegWrite CAP1188_LEDLINK 0xFF]"
    and p9: "printed (trace w9) = printed (trace w8)"
    using writeRegister_run_step by blast
  obtain w10 where r10: "?wr CAP1188_STANDBYCFG 0x30 w9 = w10"
    and a10: "accesses w10 = accesses w9 @ [RegWrite CAP1188_STANDBYCFG 0x30]"
    and p10: "printed (trace w10) = printed (trace w9)"
    using writeRegister_run_step by blast
  have run: "identify_run E d w =
      (if v5 \<noteq> 0x50 then (False, w5)
       else if v6 \<noteq> 0x5D then (False, w6)
       else if v7 \<noteq> 0x83 then (False, w7)
       else (True, w10))"
    by (simp add: identify_run_def Let_def r1 r2 r3 r4 r5 r6 r7 r8 r9 r10)
  from run ok have w': "w' = w10"
    by (simp split: if_splits)
  have f1: "accesses w7 = accesses w @ [RegRead CAP1188_PRODID v1, RegRead CAP1188_PRODID v2,
      RegRead CAP1188_MANUID v3, RegRead CAP1188_REV v4, RegRead CAP1188_PRODID v5,
      RegRead CAP1188_MANUID v6, RegRead CAP1188_REV v7]"
    by (simp add: a1 a2 a3 a4 a5 a6 a7)
  have f2: "accesses w10 = accesses w7 @
             [RegWrite CAP1188_MTBLK 0, RegWrite CAP1188_LEDLINK 0xFF,
              RegWrite CAP1188_STANDBYCFG 0x30]"
    by (simp add: a8 a9 a10)
  from writeRegister_run_events [of d E CAP1188_MTBLK 0 w7] r8
  obtain rs1 where g1: "write_replies d rs1"
    "trace w8 = trace w7 @ write_events_legacy d CAP1188_MTBLK 0 rs1" by auto
  from writeRegister_run_events [of d E CAP1188_LEDLINK "0xFF" w8] r9
  obtain rs2 where g2: "write_replies d rs2"
    "trace w9 = trace w8 @ write_events_legacy d CAP1188_LEDLINK 0xFF rs2" by auto
  from writeRegister_run_events [of d E CAP1188_STANDBYCFG "0x30" w9] r10
  obtain rs3 where g3: "write_replies d rs3"
    "trace w10 = trace w9 @ write_events_legacy d CAP1188_STANDBYCFG 0x30 rs3" by auto
  show ?thesis
    unfolding w'
    by (intro exI [of _ w7]
          exI [of _ "[RegRead CAP1188_PRODID v1, RegRead CAP1188_PRODID v2,
      RegRead CAP1188_MANUID v3, RegRead CAP1188_REV v4, RegRead CAP1188_PRODID v5,
      RegRead CAP1188_MANUID v6, RegRead CAP1188_REV v7]"]
          exI [of _ rs1] exI [of _ rs2] exI [of _ rs3]) (simp add: f1 f2 g1 g2 g3)
qed

lemma begin_run_configures:
  assumes ok: "begin_run E d i2caddr theWire w = ((True, d'), w' :: 'c world)"
  shows "\<exists>(u :: 'c world) rs rs1 rs2 rs3. accesses u = accesses w @ rs \<and> length rs = 7 \<and>
           accesses w' = accesses u @
             [RegWrite CAP1188_MTBLK 0, RegWrite CAP1188_LEDLINK 0xFF,
              RegWrite CAP1188_STANDBYCFG 0x30] \<and>
           write_replies d' rs1 \<and> write_replies d' rs2 \<and> write_replies d' rs3 \<and>
           trace w' = trace u @
             write_events_legacy d' CAP1188_MTBLK 0 rs1 @
             write_events_legacy d' CAP1188_LEDLINK 0xFF rs2 @
             write_events_legacy d' CAP1188_STANDBYCFG 0x30 rs3"
proof -
  obtain d1 w1 where o: "open_bus_run E d i2caddr theWire w = (d1, w1)"
    by (cases "open_bus_run E d i2caddr theWire w")
  have w1: "accesses w1 = accesses w"
    using open_bus_run_frame [of E d i2caddr theWire w] by (simp add: o)
  obtain ok1 w2 where i: "identify_run E d1 (reset_pulse E (l_resetpin d1) w1) = (ok1, w2)"
    by (cases "identify_run E d1 (reset_pulse E (l_resetpin d1) w1)")
  from ok o i have "ok1" "d' = d1" "w2 = w'"
    by (simp_all add: begin_run_def)
  with i have "identify_run E d' (reset_pulse E (l_resetpin d') w1) = (True, w')" by simp
  from identify_run_configures [OF this] w1 show ?thesis by simp
qed

lemma trace_readRegister_run_i2c:
  assumes "l_i2c d"
  shows "trace (snd (readRegister_run E d reg w)) = trace w @
           [Cmd (Wire_beginTransmission (the (l_wire d)) (l_i2caddr d)),
            Cmd (Wire_write (the (l_wire d)) reg),
            Cmd (Wire_endTransmission (the (l_wire d))),
            Cmd (Wire_requestFrom (the (l_wire d)) (l_i2caddr d) 1),
            Ask (Wire_read (the (l_wire d))) (fst (readRegister_run E d reg w))]"
  using assms
  by (simp add: readRegister_run_def i2cwrite_run_def Let_def case_prod_beta)

lemma trace_writeRegister_run_i2c:
  assumes "l_i2c d"
  shows "trace (writeRegister_run E d reg v w) = trace w @
           [Cmd (Wire_beginTransmission (the (l_wire d)) (l_i2caddr d)),
            Cmd (Wire_write (the (l_wire d)) reg),
            Cmd (Wire_write (the (l_wire d)) v),
            Cmd (Wire_endTransmission (the (l_wire d)))]"
  using assms
  by (simp add: writeRegister_run_def i2cwrite_run_def Let_def)

lemma fresh_i2c_busio:
  "spi_dev (Adafruit_CAP1188_i2c_busio r) = None"
  "i2c_dev (Adafruit_CAP1188_i2c_busio r) = None"
  "resetpin (Adafruit_CAP1188_i2c_busio r) = r"
  "resetpin bus_i2c = - 1"
  by (simp_all add: Adafruit_CAP1188_i2c_busio_def bus_i2c_def)

lemma sketch_wiring_fields:
  "w_addr sketch_wiring = CAP1188_I2CADDR" "w_cs sketch_wiring = 10"
  by (simp_all add: sketch_wiring_def)

lemma legacy_bench:
  assumes "attached_legacy W l"
  shows "fst (readRegister_run (simulate W) l reg u) = regs (outside u) reg"
    and "regs (outside (snd (readRegister_run (simulate W) l reg u))) = regs (outside u)"
    and "regs (outside (writeRegister_run (simulate W) l reg v u)) = (regs (outside u))(reg := v)"
proof -
  consider (i2c) "l_i2c l" "l_i2caddr l = w_addr W"
    | (hw) "\<not> l_i2c l" "l_clk l = - 1" "l_cs l = w_cs W"
    | (sw) "\<not> l_i2c l" "l_clk l \<noteq> - 1" "l_cs l = w_cs W" "l_clk l = w_clk W"
        "l_mosi l = w_mosi W" "l_miso l = w_miso W" "distinct [w_cs W, w_clk W, w_mosi W]"
    using assms by (cases "l_i2c l"; cases "l_clk l = - 1") (simp_all add: attached_legacy_def)
  then have "fst (readRegister_run (simulate W) l reg u) = regs (outside u) reg \<and>
    regs (outside (snd (readRegister_run (simulate W) l reg u))) = regs (outside u) \<and>
    regs (outside (writeRegister_run (simulate W) l reg v u)) = (regs (outside u))(reg := v)"
  proof cases
    case i2c
    show ?thesis
      using readRegister_run_i2c_bench [OF i2c, of reg u]
        writeRegister_run_i2c_bench [OF i2c, of reg v u]
      by simp
  next
    case hw
    show ?thesis
      using readRegister_run_hwspi_bench [OF hw, of reg u]
        writeRegister_run_hwspi_bench [OF hw, of reg v u]
      by simp
  next
    case sw
    show ?thesis
      using readRegister_run_soft_bench [OF sw(4,5,6,7) sw(1,2,3), of reg u]
        writeRegister_run_soft_bench [OF sw(4,5,6,7) sw(1,2,3), of reg v u]
      by simp
  qed
  then show "fst (readRegister_run (simulate W) l reg u) = regs (outside u) reg"
    and "regs (outside (snd (readRegister_run (simulate W) l reg u))) = regs (outside u)"
    and "regs (outside (writeRegister_run (simulate W) l reg v u)) = (regs (outside u))(reg := v)"
    by simp_all
qed

lemma touching_fields:
  "regs (outside touching) CAP1188_SENINPUTSTATUS \<noteq> 0"
  by (simp add: regs_touching)

subsection \<open>The instances of the bench and their runs\<close>

lemma pointer_bench:
  "pointer_legacy leg_i2c_begun \<noteq> None" "pointer_legacy leg_spi_10 \<noteq> None"
  "l_clk soft_spi \<noteq> - 1 \<or> l_spi soft_spi \<noteq> None" "l_i2c leg_i2c \<or> l_spi leg_i2c \<noteq> None"
  by (simp_all add: pointer_legacy_def leg_i2c_begun_def leg_i2c_def leg_spi_10_def soft_spi_def
        Adafruit_CAP1188_i2c_legacy_def Adafruit_CAP1188_hwspi_legacy_def
        Adafruit_CAP1188_swspi_legacy_def)

lemmas legacy_on_bench =
  begin_legacy_eq [OF pointer_bench(4)]
  readRegister_legacy_eq [OF pointer_bench(1)] writeRegister_legacy_eq [OF pointer_bench(1)]
  touched_legacy_eq [OF pointer_bench(1)]
  readRegister_legacy_eq [OF pointer_bench(2)] writeRegister_legacy_eq [OF pointer_bench(2)]
  touched_legacy_eq [OF pointer_bench(2)]
  spixfer_legacy_eq [OF pointer_bench(3)]

section \<open>Initialisation\<close>

text \<open>
  C1. When \<^verbatim>\<open>begin\<close> has opened the bus and one of the identity reads it compares
  (product ID, manufacturer ID, revision) returns a value other than \<open>0x50\<close>,
  \<open>0x5D\<close>, \<open>0x83\<close> respectively, \<^verbatim>\<open>begin\<close> returns false and has written no register:
  every access it made is a read. This holds for both variants; compared reads exist only
  in an execution whose bus has opened.
\<close>

theorem begin_identity_mismatch:
  "(begin_busio E d i2caddr theWire w = Inr ((ok, d'), w') \<longrightarrow>
      (\<exists>a \<in> set (check_reads (made w w')). \<not> identity_ok a) \<longrightarrow>
      \<not> ok \<and> list_all is_read (made w w')) \<and>
   (begin_legacy F l addr wire v = Inr ((ok', l'), v') \<longrightarrow>
      (\<exists>a \<in> set (check_reads (made v v')). \<not> identity_ok a) \<longrightarrow>
      \<not> ok' \<and> list_all is_read (made v v'))"
proof (intro conjI impI)
  assume run: "begin_busio E d i2caddr theWire w = Inr ((ok, d'), w')"
    and bad: "\<exists>a \<in> set (check_reads (made w w')). \<not> identity_ok a"
  from begin_busio_outcome [of E d i2caddr theWire w] run
  obtain as ps where as: "accesses w' = accesses w @ as"
    and shape: "as = [] \<and> ps = [] \<and> \<not> ok \<or> identification ok as ps"
    by auto
  from as have m: "made w w' = as" by simp
  from bad m shape have "identification ok as ps" by (auto simp: check_reads_def)
  with bad m show "\<not> ok" and "list_all is_read (made w w')"
    using identification_mismatch [of ok as ps] by auto
next
  assume run': "begin_legacy F l addr wire v = Inr ((ok', l'), v')"
    and bad: "\<exists>a \<in> set (check_reads (made v v')). \<not> identity_ok a"
  from begin_legacy_Inr(2) [OF run'] have run: "begin_run F l addr wire v = ((ok', l'), v')" .
  from begin_run_outcome [of F l addr wire v] run
  obtain as ps where as: "accesses v' = accesses v @ as" and shape: "identification ok' as ps"
    by auto
  from as have m: "made v v' = as" by simp
  with bad shape show "\<not> ok'" and "list_all is_read (made v v')"
    using identification_mismatch [of ok' as ps] by auto
qed

theorem begin_identity_mismatch_witness:
  "begin_busio sketch bus_spi_9 CAP1188_I2CADDR 0 start =
      Inr ((False, bus_spi_9), snd (projr (begin_busio sketch bus_spi_9 CAP1188_I2CADDR 0 start))) \<and>
   check_reads (made start (snd (projr (begin_busio sketch bus_spi_9 CAP1188_I2CADDR 0 start)))) =
      [RegRead CAP1188_PRODID 0x7D] \<and>
   \<not> identity_ok (RegRead CAP1188_PRODID 0x7D) \<and>
   list_all is_read (made start (snd (projr (begin_busio sketch bus_spi_9 CAP1188_I2CADDR 0 start)))) \<and>
   begin_legacy sketch leg_i2c 0x28 0 start =
      Inr ((False, leg_i2c\<lparr>l_wire := Some 0, l_i2caddr := 0x28\<rparr>),
       snd (projr (begin_legacy sketch leg_i2c 0x28 0 start))) \<and>
   check_reads (made start (snd (projr (begin_legacy sketch leg_i2c 0x28 0 start)))) =
      [RegRead CAP1188_PRODID 0xFF] \<and>
   \<not> identity_ok (RegRead CAP1188_PRODID 0xFF) \<and>
   list_all is_read (made start (snd (projr (begin_legacy sketch leg_i2c 0x28 0 start))))"
  using begin_identity_mismatch
    [of sketch bus_spi_9 CAP1188_I2CADDR 0 start False bus_spi_9
        "snd (projr (begin_busio sketch bus_spi_9 CAP1188_I2CADDR 0 start))"
        sketch leg_i2c "0x28" 0 start False "leg_i2c\<lparr>l_wire := Some 0, l_i2caddr := 0x28\<rparr>"
        "snd (begin_run sketch leg_i2c 0x28 0 start)"]
  unfolding legacy_on_bench
  by (simp add: made_def check_reads_def model_defs bench_defs)

text \<open>
  C2. In the BusIO variant \<^verbatim>\<open>begin\<close> always returns (no call goes through a null
  pointer); in the original variant it returns on I2C, and on SPI where the
  \<^verbatim>\<open>SPIClass\<close> pointer refers to an object. When the three
  compared identity reads return \<open>0x50\<close>, \<open>0x5D\<close>, \<open>0x83\<close>, it returns true and the
  register writes it has made are exactly MTBLK = 0, LEDLINK = 0xFF, STANDBYCFG = 0x30,
  in this order, after its seven reads; and the calls it makes after the seventh read are
  exactly those of the three writes, in this order: in the BusIO variant one write call on
  the device for each, carrying the register and the value; in the original variant, for
  each, the transmission of the register and the value on I2C and the two chip-select
  phases with \<open>0x7D\<close>, the register, \<open>0x7E\<close> and the value on SPI. This holds for
  both variants. On the bench the three registers of the chip then hold 0, 0xFF and 0x30.
\<close>

theorem begin_identity_match:
  "(\<exists>r. begin_busio E d i2caddr theWire w = Inr r) \<and>
   (l_i2c l \<or> l_spi l \<noteq> None \<longrightarrow> (\<exists>r. begin_legacy F l addr wire v = Inr r)) \<and>
   (begin_busio E d i2caddr theWire w = Inr ((ok, d'), w' :: 'a world) \<longrightarrow>
      check_reads (made w w') =
        [RegRead CAP1188_PRODID 0x50, RegRead CAP1188_MANUID 0x5D, RegRead CAP1188_REV 0x83] \<longrightarrow>
      ok \<and>
      filter (\<lambda>a. \<not> is_read a) (made w w') =
        [RegWrite CAP1188_MTBLK 0, RegWrite CAP1188_LEDLINK 0xFF, RegWrite CAP1188_STANDBYCFG 0x30] \<and>
      drop 7 (made w w') =
        [RegWrite CAP1188_MTBLK 0, RegWrite CAP1188_LEDLINK 0xFF, RegWrite CAP1188_STANDBYCFG 0x30] \<and>
      list_all is_read (take 7 (made w w')) \<and>
      (\<exists>u :: 'a world.
         made w u = take 7 (made w w') \<and>
         made u w' =
           [RegWrite CAP1188_MTBLK 0, RegWrite CAP1188_LEDLINK 0xFF,
            RegWrite CAP1188_STANDBYCFG 0x30] \<and>
         emitted u w' =
           [Cmd (write_op_busio d' CAP1188_MTBLK 0), Cmd (write_op_busio d' CAP1188_LEDLINK 0xFF),
            Cmd (write_op_busio d' CAP1188_STANDBYCFG 0x30)])) \<and>
   (begin_legacy F l addr wire v = Inr ((ok', l'), v' :: 'b world) \<longrightarrow>
      check_reads (made v v') =
        [RegRead CAP1188_PRODID 0x50, RegRead CAP1188_MANUID 0x5D, RegRead CAP1188_REV 0x83] \<longrightarrow>
      ok' \<and>
      filter (\<lambda>a. \<not> is_read a) (made v v') =
        [RegWrite CAP1188_MTBLK 0, RegWrite CAP1188_LEDLINK 0xFF, RegWrite CAP1188_STANDBYCFG 0x30] \<and>
      drop 7 (made v v') =
        [RegWrite CAP1188_MTBLK 0, RegWrite CAP1188_LEDLINK 0xFF, RegWrite CAP1188_STANDBYCFG 0x30] \<and>
      list_all is_read (take 7 (made v v')) \<and>
      (\<exists>(u :: 'b world) rs1 rs2 rs3.
         made v u = take 7 (made v v') \<and>
         made u v' =
           [RegWrite CAP1188_MTBLK 0, RegWrite CAP1188_LEDLINK 0xFF,
            RegWrite CAP1188_STANDBYCFG 0x30] \<and>
         write_replies l' rs1 \<and> write_replies l' rs2 \<and> write_replies l' rs3 \<and>
         emitted u v' =
           write_events_legacy l' CAP1188_MTBLK 0 rs1 @
           write_events_legacy l' CAP1188_LEDLINK 0xFF rs2 @
           write_events_legacy l' CAP1188_STANDBYCFG 0x30 rs3))"
proof (intro conjI impI)
  show "\<exists>r. begin_busio E d i2caddr theWire w = Inr r"
    using begin_busio_outcome [of E d i2caddr theWire w] by auto
next
  assume "l_i2c l \<or> l_spi l \<noteq> None"
  then show "\<exists>r. begin_legacy F l addr wire v = Inr r"
    by (simp add: begin_legacy_eq)
next
  assume run: "begin_busio E d i2caddr theWire w = Inr ((ok, d'), w')"
    and good: "check_reads (made w w') =
        [RegRead CAP1188_PRODID 0x50, RegRead CAP1188_MANUID 0x5D, RegRead CAP1188_REV 0x83]"
  from begin_busio_outcome [of E d i2caddr theWire w] run
  obtain as ps where as: "accesses w' = accesses w @ as"
    and shape: "as = [] \<and> ps = [] \<and> \<not> ok \<or> identification ok as ps"
    by auto
  from as have m: "made w w' = as" by simp
  from good m shape have "identification ok as ps" by (auto simp: check_reads_def)
  with good m show ok: "ok"
    and "filter (\<lambda>a. \<not> is_read a) (made w w') =
        [RegWrite CAP1188_MTBLK 0, RegWrite CAP1188_LEDLINK 0xFF, RegWrite CAP1188_STANDBYCFG 0x30]"
    and "drop 7 (made w w') =
        [RegWrite CAP1188_MTBLK 0, RegWrite CAP1188_LEDLINK 0xFF, RegWrite CAP1188_STANDBYCFG 0x30]"
    and "list_all is_read (take 7 (made w w'))"
    using identification_match [of ok as ps] by auto
  from run ok have "begin_busio E d i2caddr theWire w = Inr ((True, d'), w')" by simp
  from begin_busio_configures [OF this] obtain u :: "'a world" and rs
    where u: "accesses u = accesses w @ rs" "length rs = 7"
      "accesses w' = accesses u @
             [RegWrite CAP1188_MTBLK 0, RegWrite CAP1188_LEDLINK 0xFF,
              RegWrite CAP1188_STANDBYCFG 0x30]"
      "trace w' = trace u @
             [Cmd (write_op_busio d' CAP1188_MTBLK 0), Cmd (write_op_busio d' CAP1188_LEDLINK 0xFF),
              Cmd (write_op_busio d' CAP1188_STANDBYCFG 0x30)]"
    by blast
  from u(1,2,3) have "made w u = take 7 (made w w')" by (simp add: made_def)
  with u(3,4) show "\<exists>u :: 'a world.
         made w u = take 7 (made w w') \<and>
         made u w' =
           [RegWrite CAP1188_MTBLK 0, RegWrite CAP1188_LEDLINK 0xFF,
            RegWrite CAP1188_STANDBYCFG 0x30] \<and>
         emitted u w' =
           [Cmd (write_op_busio d' CAP1188_MTBLK 0), Cmd (write_op_busio d' CAP1188_LEDLINK 0xFF),
            Cmd (write_op_busio d' CAP1188_STANDBYCFG 0x30)]"
    by (intro exI [of _ u]) simp
next
  assume run': "begin_legacy F l addr wire v = Inr ((ok', l'), v')"
    and good: "check_reads (made v v') =
        [RegRead CAP1188_PRODID 0x50, RegRead CAP1188_MANUID 0x5D, RegRead CAP1188_REV 0x83]"
  from begin_legacy_Inr(2) [OF run'] have run: "begin_run F l addr wire v = ((ok', l'), v')" .
  from begin_run_outcome [of F l addr wire v] run
  obtain as ps where as: "accesses v' = accesses v @ as" and shape: "identification ok' as ps"
    by auto
  from as have m: "made v v' = as" by simp
  with good shape show ok: "ok'"
    and "filter (\<lambda>a. \<not> is_read a) (made v v') =
        [RegWrite CAP1188_MTBLK 0, RegWrite CAP1188_LEDLINK 0xFF, RegWrite CAP1188_STANDBYCFG 0x30]"
    and "drop 7 (made v v') =
        [RegWrite CAP1188_MTBLK 0, RegWrite CAP1188_LEDLINK 0xFF, RegWrite CAP1188_STANDBYCFG 0x30]"
    and "list_all is_read (take 7 (made v v'))"
    using identification_match [of ok' as ps] by auto
  from run ok have "begin_run F l addr wire v = ((True, l'), v')" by simp
  from begin_run_configures [OF this] obtain u :: "'b world" and rs rs1 rs2 rs3
    where u: "accesses u = accesses v @ rs" "length rs = 7"
      "accesses v' = accesses u @
             [RegWrite CAP1188_MTBLK 0, RegWrite CAP1188_LEDLINK 0xFF,
              RegWrite CAP1188_STANDBYCFG 0x30]"
      "write_replies l' rs1" "write_replies l' rs2" "write_replies l' rs3"
      "trace v' = trace u @
             write_events_legacy l' CAP1188_MTBLK 0 rs1 @
             write_events_legacy l' CAP1188_LEDLINK 0xFF rs2 @
             write_events_legacy l' CAP1188_STANDBYCFG 0x30 rs3"
    by blast
  from u(1,2,3) have "made v u = take 7 (made v v')" by (simp add: made_def)
  with u(3-7) show "\<exists>(u :: 'b world) rs1 rs2 rs3.
         made v u = take 7 (made v v') \<and>
         made u v' =
           [RegWrite CAP1188_MTBLK 0, RegWrite CAP1188_LEDLINK 0xFF,
            RegWrite CAP1188_STANDBYCFG 0x30] \<and>
         write_replies l' rs1 \<and> write_replies l' rs2 \<and> write_replies l' rs3 \<and>
         emitted u v' =
           write_events_legacy l' CAP1188_MTBLK 0 rs1 @
           write_events_legacy l' CAP1188_LEDLINK 0xFF rs2 @
           write_events_legacy l' CAP1188_STANDBYCFG 0x30 rs3"
    by (intro exI [of _ u] exI [of _ rs1] exI [of _ rs2] exI [of _ rs3]) simp
qed

theorem begin_identity_match_witness:
  "begin_busio sketch (Adafruit_CAP1188_i2c_busio (- 1)) CAP1188_I2CADDR 0 start =
      Inr ((True, bus_i2c),
           snd (projr (begin_busio sketch (Adafruit_CAP1188_i2c_busio (- 1)) CAP1188_I2CADDR 0 start))) \<and>
   check_reads (made start
       (snd (projr (begin_busio sketch (Adafruit_CAP1188_i2c_busio (- 1)) CAP1188_I2CADDR 0 start)))) =
      [RegRead CAP1188_PRODID 0x50, RegRead CAP1188_MANUID 0x5D, RegRead CAP1188_REV 0x83] \<and>
   drop 7 (made start
       (snd (projr (begin_busio sketch (Adafruit_CAP1188_i2c_busio (- 1)) CAP1188_I2CADDR 0 start)))) =
      [RegWrite CAP1188_MTBLK 0, RegWrite CAP1188_LEDLINK 0xFF, RegWrite CAP1188_STANDBYCFG 0x30] \<and>
   drop 14 (emitted start
       (snd (projr (begin_busio sketch (Adafruit_CAP1188_i2c_busio (- 1)) CAP1188_I2CADDR 0 start)))) =
      [Cmd (I2CDevice_write (Adafruit_I2CDevice CAP1188_I2CADDR 0) [CAP1188_MTBLK, 0]),
       Cmd (I2CDevice_write (Adafruit_I2CDevice CAP1188_I2CADDR 0) [CAP1188_LEDLINK, 0xFF]),
       Cmd (I2CDevice_write (Adafruit_I2CDevice CAP1188_I2CADDR 0) [CAP1188_STANDBYCFG, 0x30])] \<and>
   map (regs (outside
       (snd (projr (begin_busio sketch (Adafruit_CAP1188_i2c_busio (- 1)) CAP1188_I2CADDR 0 start)))))
     [CAP1188_MTBLK, CAP1188_LEDLINK, CAP1188_STANDBYCFG] = [0, 0xFF, 0x30] \<and>
   l_i2c leg_i2c \<and>
   begin_legacy sketch leg_i2c CAP1188_I2CADDR 0 start =
      Inr ((True, leg_i2c_begun), snd (projr (begin_legacy sketch leg_i2c CAP1188_I2CADDR 0 start))) \<and>
   check_reads (made start (snd (projr (begin_legacy sketch leg_i2c CAP1188_I2CADDR 0 start)))) =
      [RegRead CAP1188_PRODID 0x50, RegRead CAP1188_MANUID 0x5D, RegRead CAP1188_REV 0x83] \<and>
   drop 7 (made start (snd (projr (begin_legacy sketch leg_i2c CAP1188_I2CADDR 0 start)))) =
      [RegWrite CAP1188_MTBLK 0, RegWrite CAP1188_LEDLINK 0xFF, RegWrite CAP1188_STANDBYCFG 0x30] \<and>
   drop 42 (emitted start (snd (projr (begin_legacy sketch leg_i2c CAP1188_I2CADDR 0 start)))) =
      [Cmd (Wire_beginTransmission 0 CAP1188_I2CADDR), Cmd (Wire_write 0 CAP1188_MTBLK),
       Cmd (Wire_write 0 0), Cmd (Wire_endTransmission 0),
       Cmd (Wire_beginTransmission 0 CAP1188_I2CADDR), Cmd (Wire_write 0 CAP1188_LEDLINK),
       Cmd (Wire_write 0 0xFF), Cmd (Wire_endTransmission 0),
       Cmd (Wire_beginTransmission 0 CAP1188_I2CADDR), Cmd (Wire_write 0 CAP1188_STANDBYCFG),
       Cmd (Wire_write 0 0x30), Cmd (Wire_endTransmission 0)] \<and>
   map (regs (outside (snd (projr (begin_legacy sketch leg_i2c CAP1188_I2CADDR 0 start)))))
     [CAP1188_MTBLK, CAP1188_LEDLINK, CAP1188_STANDBYCFG] = [0, 0xFF, 0x30]"
proof -
  let ?W = "snd (projr (begin_busio sketch (Adafruit_CAP1188_i2c_busio (- 1)) CAP1188_I2CADDR 0 start))"
  let ?V = "snd (begin_run sketch leg_i2c CAP1188_I2CADDR 0 start)"
  have b: "begin_busio sketch (Adafruit_CAP1188_i2c_busio (- 1)) CAP1188_I2CADDR 0 start =
      Inr ((True, bus_i2c), ?W)"
    and bm: "made start ?W =
      [RegRead CAP1188_PRODID 0x50, RegRead CAP1188_PRODID 0x50, RegRead CAP1188_MANUID 0x5D,
       RegRead CAP1188_REV 0x83, RegRead CAP1188_PRODID 0x50, RegRead CAP1188_MANUID 0x5D,
       RegRead CAP1188_REV 0x83, RegWrite CAP1188_MTBLK 0, RegWrite CAP1188_LEDLINK 0xFF,
       RegWrite CAP1188_STANDBYCFG 0x30]"
    and br: "map (regs (outside ?W)) [CAP1188_MTBLK, CAP1188_LEDLINK, CAP1188_STANDBYCFG] =
      [0, 0xFF, 0x30]"
    and be: "drop 14 (emitted start ?W) =
      [Cmd (write_op_busio bus_i2c CAP1188_MTBLK 0),
       Cmd (write_op_busio bus_i2c CAP1188_LEDLINK 0xFF),
       Cmd (write_op_busio bus_i2c CAP1188_STANDBYCFG 0x30)]"
    by (simp_all add: run_busio fresh_i2c_busio bus_i2c_def [symmetric] bus_i2c_fields sketch_def
          start_def power_on_def sketch_wiring_fields emitted_def)
  have l: "begin_run sketch leg_i2c CAP1188_I2CADDR 0 start = ((True, leg_i2c_begun), ?V)"
    and lm: "made start ?V =
      [RegRead CAP1188_PRODID 0x50, RegRead CAP1188_PRODID 0x50, RegRead CAP1188_MANUID 0x5D,
       RegRead CAP1188_REV 0x83, RegRead CAP1188_PRODID 0x50, RegRead CAP1188_MANUID 0x5D,
       RegRead CAP1188_REV 0x83, RegWrite CAP1188_MTBLK 0, RegWrite CAP1188_LEDLINK 0xFF,
       RegWrite CAP1188_STANDBYCFG 0x30]"
    and lr: "map (regs (outside ?V)) [CAP1188_MTBLK, CAP1188_LEDLINK, CAP1188_STANDBYCFG] =
      [0, 0xFF, 0x30]"
    and le: "drop 42 (emitted start ?V) =
      [Cmd (Wire_beginTransmission 0 CAP1188_I2CADDR), Cmd (Wire_write 0 CAP1188_MTBLK),
       Cmd (Wire_write 0 0), Cmd (Wire_endTransmission 0),
       Cmd (Wire_beginTransmission 0 CAP1188_I2CADDR), Cmd (Wire_write 0 CAP1188_LEDLINK),
       Cmd (Wire_write 0 0xFF), Cmd (Wire_endTransmission 0),
       Cmd (Wire_beginTransmission 0 CAP1188_I2CADDR), Cmd (Wire_write 0 CAP1188_STANDBYCFG),
       Cmd (Wire_write 0 0x30), Cmd (Wire_endTransmission 0)]"
    by (simp_all add: run_legacy leg_i2c_fields readRegister_run_i2c_bench
          writeRegister_run_i2c_bench sketch_def sketch_wiring_def start_def power_on_def
          leg_i2c_begun_def emitted_def trace_readRegister_run_i2c
          trace_writeRegister_run_i2c)
  from begin_identity_match
      [where E = sketch and d = "Adafruit_CAP1188_i2c_busio (- 1)" and i2caddr = CAP1188_I2CADDR
         and theWire = 0 and w = start and ok = True and d' = bus_i2c and w' = ?W
         and F = sketch and l = leg_i2c and addr = CAP1188_I2CADDR and wire = 0 and v = start
         and ok' = True and l' = leg_i2c_begun and v' = ?V]
    b bm l lm be le br lr leg_i2c_fields(1)
  show ?thesis
    unfolding legacy_on_bench
    by (simp add: check_reads_def write_op_busio_def bus_i2c_fields)
qed




section \<open>Touch sensing\<close>

text \<open>
  C3. When the read of the sensor input status register returns a non-zero byte \<open>t\<close>,
  \<^verbatim>\<open>touched\<close> goes on to read MAIN, writes back to MAIN the value read with bit 0
  cleared and every other bit as read, and returns \<open>t\<close>; these three are all the
  register accesses it makes, and the calls it makes are exactly those of the two reads
  and of the write, in this order, the values \<open>t\<close> and \<open>m\<close> being what the bus
  returned. This holds for both variants. On the simulated chip, with the driver
  attached and its bus pointer referring to an object, \<^verbatim>\<open>touched\<close> then returns the
  status register and leaves every register as it was but MAIN, whose bit 0 is cleared
  (in the BusIO variant on SPI, where the chip is not framed).
\<close>

theorem touched_acknowledge:
  "(readRegister_busio E d CAP1188_SENINPUTSTATUS w = Inr (t, w1) \<longrightarrow> t \<noteq> 0 \<longrightarrow>
      (\<exists>m w2 w3.
         readRegister_busio E d CAP1188_MAIN w1 = Inr (m, w2) \<and>
         writeRegister_busio E d CAP1188_MAIN (m AND NOT 1) w2 = Inr ((), w3) \<and>
         touched_busio E d w = Inr (t, w3) \<and>
         made w w3 = [RegRead CAP1188_SENINPUTSTATUS t, RegRead CAP1188_MAIN m,
                      RegWrite CAP1188_MAIN (m AND NOT 1)] \<and>
         emitted w w3 = [Ask (read_op_busio d CAP1188_SENINPUTSTATUS) t,
                         Ask (read_op_busio d CAP1188_MAIN) m,
                         Cmd (write_op_busio d CAP1188_MAIN (m AND NOT 1))] \<and>
         \<not> bit (m AND NOT 1) 0 \<and> (\<forall>n. n \<noteq> 0 \<longrightarrow> bit (m AND NOT 1) n = bit m n))) \<and>
   (readRegister_legacy F l CAP1188_SENINPUTSTATUS v = Inr (t', v1) \<longrightarrow> t' \<noteq> 0 \<longrightarrow>
      (\<exists>m v2 v3 rs1 rs2 rs3.
         readRegister_legacy F l CAP1188_MAIN v1 = Inr (m, v2) \<and>
         writeRegister_legacy F l CAP1188_MAIN (m AND NOT 1) v2 = Inr ((), v3) \<and>
         touched_legacy F l v = Inr (t', v3) \<and>
         made v v3 = [RegRead CAP1188_SENINPUTSTATUS t', RegRead CAP1188_MAIN m,
                      RegWrite CAP1188_MAIN (m AND NOT 1)] \<and>
         read_replies l rs1 \<and> read_replies l rs2 \<and> write_replies l rs3 \<and>
         t' = read_value_legacy l rs1 \<and> m = read_value_legacy l rs2 \<and>
         emitted v v3 =
           read_events_legacy l CAP1188_SENINPUTSTATUS rs1 @
           read_events_legacy l CAP1188_MAIN rs2 @
           write_events_legacy l CAP1188_MAIN (m AND NOT 1) rs3 \<and>
         \<not> bit (m AND NOT 1) 0 \<and> (\<forall>n. n \<noteq> 0 \<longrightarrow> bit (m AND NOT 1) n = bit m n))) \<and>
   (attached_busio W b \<longrightarrow> i2c_dev b \<noteq> None \<or> \<not> framed (outside x) \<longrightarrow>
      regs (outside x) CAP1188_SENINPUTSTATUS \<noteq> 0 \<longrightarrow>
      (\<exists>x3. touched_busio (simulate W) b x = Inr (regs (outside x) CAP1188_SENINPUTSTATUS, x3) \<and>
            regs (outside x3) =
              (regs (outside x))(CAP1188_MAIN := regs (outside x) CAP1188_MAIN AND NOT 1))) \<and>
   (attached_legacy W a \<longrightarrow> pointer_legacy a \<noteq> None \<longrightarrow>
      regs (outside y) CAP1188_SENINPUTSTATUS \<noteq> 0 \<longrightarrow>
      (\<exists>y3. touched_legacy (simulate W) a y = Inr (regs (outside y) CAP1188_SENINPUTSTATUS, y3) \<and>
            regs (outside y3) =
              (regs (outside y))(CAP1188_MAIN := regs (outside y) CAP1188_MAIN AND NOT 1)))"
proof (intro conjI impI)
  assume r: "readRegister_busio E d CAP1188_SENINPUTSTATUS w = Inr (t, w1)" and t: "t \<noteq> 0"
  from readRegister_busio_attached [OF r] have T: "i2c_dev d \<noteq> None \<or> spi_dev d \<noteq> None" .
  note e1 = trace_readRegister_busio [OF r]
  obtain m w2 where r2: "readRegister_busio E d CAP1188_MAIN w1 = Inr (m, w2)"
    using readRegister_busio_step [OF T] by blast
  note e2 = trace_readRegister_busio [OF r2]
  obtain w3 where r3: "writeRegister_busio E d CAP1188_MAIN (m AND NOT 1) w2 = Inr ((), w3)"
    using writeRegister_busio_step [OF T] by blast
  note e3 = trace_writeRegister_busio [OF r3]
  have "touched_busio E d w = Inr (t, w3)"
    using r t r2 r3 by (simp add: touched_busio_def)
  moreover have "made w w3 = [RegRead CAP1188_SENINPUTSTATUS t, RegRead CAP1188_MAIN m,
                      RegWrite CAP1188_MAIN (m AND NOT 1)]"
    using e1 e2 e3 by simp
  moreover have "emitted w w3 = [Ask (read_op_busio d CAP1188_SENINPUTSTATUS) t,
                         Ask (read_op_busio d CAP1188_MAIN) m,
                         Cmd (write_op_busio d CAP1188_MAIN (m AND NOT 1))]"
    using e1 e2 e3 by simp
  ultimately show "\<exists>m w2 w3.
         readRegister_busio E d CAP1188_MAIN w1 = Inr (m, w2) \<and>
         writeRegister_busio E d CAP1188_MAIN (m AND NOT 1) w2 = Inr ((), w3) \<and>
         touched_busio E d w = Inr (t, w3) \<and>
         made w w3 = [RegRead CAP1188_SENINPUTSTATUS t, RegRead CAP1188_MAIN m,
                      RegWrite CAP1188_MAIN (m AND NOT 1)] \<and>
         emitted w w3 = [Ask (read_op_busio d CAP1188_SENINPUTSTATUS) t,
                         Ask (read_op_busio d CAP1188_MAIN) m,
                         Cmd (write_op_busio d CAP1188_MAIN (m AND NOT 1))] \<and>
         \<not> bit (m AND NOT 1) 0 \<and> (\<forall>n. n \<noteq> 0 \<longrightarrow> bit (m AND NOT 1) n = bit m n)"
    using r2 r3 and_not_1_bits [where m = m] by blast
next
  assume r': "readRegister_legacy F l CAP1188_SENINPUTSTATUS v = Inr (t', v1)" and t: "t' \<noteq> 0"
  note p = readRegister_legacy_Inr(1) [OF r'] and r = readRegister_legacy_Inr(2) [OF r']
  note q = readRegister_legacy_eq [OF p] writeRegister_legacy_eq [OF p] touched_legacy_eq [OF p]
  from accesses_readRegister_run [of F l CAP1188_SENINPUTSTATUS v] r
  have a1: "accesses v1 = accesses v @ [RegRead CAP1188_SENINPUTSTATUS t']" by simp
  from readRegister_run_events [OF r] obtain rs1
    where e1: "read_replies l rs1" "t' = read_value_legacy l rs1"
      "trace v1 = trace v @ read_events_legacy l CAP1188_SENINPUTSTATUS rs1"
    by blast
  obtain m v2 where r2: "readRegister_run F l CAP1188_MAIN v1 = (m, v2)"
    by (cases "readRegister_run F l CAP1188_MAIN v1")
  from accesses_readRegister_run [of F l CAP1188_MAIN v1] r2
  have a2: "accesses v2 = accesses v1 @ [RegRead CAP1188_MAIN m]" by simp
  from readRegister_run_events [OF r2] obtain rs2
    where e2: "read_replies l rs2" "m = read_value_legacy l rs2"
      "trace v2 = trace v1 @ read_events_legacy l CAP1188_MAIN rs2"
    by blast
  let ?v3 = "writeRegister_run F l CAP1188_MAIN (m AND NOT 1) v2"
  have a3: "accesses ?v3 = accesses v2 @ [RegWrite CAP1188_MAIN (m AND NOT 1)]"
    by (rule accesses_writeRegister_run)
  from writeRegister_run_events [of l F CAP1188_MAIN "m AND NOT 1" v2] obtain rs3
    where e3: "write_replies l rs3"
      "trace ?v3 = trace v2 @ write_events_legacy l CAP1188_MAIN (m AND NOT 1) rs3"
    by blast
  have f1: "touched_run F l v = (t', ?v3)"
    using r t r2 by (simp add: touched_run_def)
  have f2: "made v ?v3 = [RegRead CAP1188_SENINPUTSTATUS t', RegRead CAP1188_MAIN m,
                      RegWrite CAP1188_MAIN (m AND NOT 1)]"
    using a1 a2 a3 by simp
  have f3: "emitted v ?v3 =
           read_events_legacy l CAP1188_SENINPUTSTATUS rs1 @
           read_events_legacy l CAP1188_MAIN rs2 @
           write_events_legacy l CAP1188_MAIN (m AND NOT 1) rs3"
    using e1(3) e2(3) e3(2) by simp
  show "\<exists>m v2 v3 rs1 rs2 rs3.
         readRegister_legacy F l CAP1188_MAIN v1 = Inr (m, v2) \<and>
         writeRegister_legacy F l CAP1188_MAIN (m AND NOT 1) v2 = Inr ((), v3) \<and>
         touched_legacy F l v = Inr (t', v3) \<and>
         made v v3 = [RegRead CAP1188_SENINPUTSTATUS t', RegRead CAP1188_MAIN m,
                      RegWrite CAP1188_MAIN (m AND NOT 1)] \<and>
         read_replies l rs1 \<and> read_replies l rs2 \<and> write_replies l rs3 \<and>
         t' = read_value_legacy l rs1 \<and> m = read_value_legacy l rs2 \<and>
         emitted v v3 =
           read_events_legacy l CAP1188_SENINPUTSTATUS rs1 @
           read_events_legacy l CAP1188_MAIN rs2 @
           write_events_legacy l CAP1188_MAIN (m AND NOT 1) rs3 \<and>
         \<not> bit (m AND NOT 1) 0 \<and> (\<forall>n. n \<noteq> 0 \<longrightarrow> bit (m AND NOT 1) n = bit m n)"
    using r2 f1 f2 f3 e1(1,2) e2(1,2) e3(1) and_not_1_bits [where m = m]
    by (intro exI [of _ m] exI [of _ v2] exI [of _ ?v3] exI [of _ rs1] exI [of _ rs2]
          exI [of _ rs3]) (simp add: q)
next
  assume a: "attached_busio W b" and f: "i2c_dev b \<noteq> None \<or> \<not> framed (outside x)"
    and s: "regs (outside x) CAP1188_SENINPUTSTATUS \<noteq> 0"
  from readRegister_busio_bench [OF a f, of CAP1188_SENINPUTSTATUS] obtain x1
    where r1: "readRegister_busio (simulate W) b CAP1188_SENINPUTSTATUS x =
                 Inr (regs (outside x) CAP1188_SENINPUTSTATUS, x1)"
      and g1: "regs (outside x1) = regs (outside x)" "framed (outside x1) = framed (outside x)"
    by blast
  from f g1 have f1: "i2c_dev b \<noteq> None \<or> \<not> framed (outside x1)" by simp
  from readRegister_busio_bench [OF a f1, of CAP1188_MAIN] g1 obtain x2
    where r2: "readRegister_busio (simulate W) b CAP1188_MAIN x1 =
                 Inr (regs (outside x) CAP1188_MAIN, x2)"
      and g2: "regs (outside x2) = regs (outside x)" "framed (outside x2) = framed (outside x)"
    by auto
  from f g2 have f2: "i2c_dev b \<noteq> None \<or> \<not> framed (outside x2)" by simp
  from writeRegister_busio_bench
    [OF a f2, of CAP1188_MAIN "regs (outside x) CAP1188_MAIN AND NOT 1"] g2
  obtain x3
    where r3: "writeRegister_busio (simulate W) b CAP1188_MAIN
                 (regs (outside x) CAP1188_MAIN AND NOT 1) x2 = Inr ((), x3)"
      and g3: "regs (outside x3) =
                 (regs (outside x))(CAP1188_MAIN := regs (outside x) CAP1188_MAIN AND NOT 1)"
    by auto
  from r1 r2 r3 s g3
  show "\<exists>x3. touched_busio (simulate W) b x = Inr (regs (outside x) CAP1188_SENINPUTSTATUS, x3) \<and>
            regs (outside x3) =
              (regs (outside x))(CAP1188_MAIN := regs (outside x) CAP1188_MAIN AND NOT 1)"
    by (simp add: touched_busio_def)
next
  assume a: "attached_legacy W a" and p: "pointer_legacy a \<noteq> None"
    and s: "regs (outside y) CAP1188_SENINPUTSTATUS \<noteq> 0"
  note b = legacy_bench [OF a]
  from s have "fst (touched_run (simulate W) a y) = regs (outside y) CAP1188_SENINPUTSTATUS"
    by (simp add: touched_run_def case_prod_beta Let_def b)
  moreover from s have "regs (outside (snd (touched_run (simulate W) a y))) =
        (regs (outside y))(CAP1188_MAIN := regs (outside y) CAP1188_MAIN AND NOT 1)"
    by (simp add: touched_run_def case_prod_beta Let_def b)
  ultimately
  show "\<exists>y3. touched_legacy (simulate W) a y = Inr (regs (outside y) CAP1188_SENINPUTSTATUS, y3) \<and>
            regs (outside y3) =
              (regs (outside y))(CAP1188_MAIN := regs (outside y) CAP1188_MAIN AND NOT 1)"
    by (intro exI [of _ "snd (touched_run (simulate W) a y)"])
       (simp add: touched_legacy_eq [OF p] prod_eq_iff)
qed

theorem touched_acknowledge_witness:
  "readRegister_busio sketch bus_i2c CAP1188_SENINPUTSTATUS touching =
     Inr (5, snd (projr (readRegister_busio sketch bus_i2c CAP1188_SENINPUTSTATUS touching))) \<and>
   (5 :: u8) \<noteq> 0 \<and>
   fst (projr (touched_busio sketch bus_i2c touching)) = 5 \<and>
   made touching (snd (projr (touched_busio sketch bus_i2c touching))) =
     [RegRead CAP1188_SENINPUTSTATUS 5, RegRead CAP1188_MAIN 1, RegWrite CAP1188_MAIN 0] \<and>
   emitted touching (snd (projr (touched_busio sketch bus_i2c touching))) =
     [Ask (I2CDevice_write_then_read (Adafruit_I2CDevice CAP1188_I2CADDR 0)
             [CAP1188_SENINPUTSTATUS] 1) 5,
      Ask (I2CDevice_write_then_read (Adafruit_I2CDevice CAP1188_I2CADDR 0) [CAP1188_MAIN] 1) 1,
      Cmd (I2CDevice_write (Adafruit_I2CDevice CAP1188_I2CADDR 0) [CAP1188_MAIN, 0])] \<and>
   attached_busio sketch_wiring bus_i2c \<and> i2c_dev bus_i2c \<noteq> None \<and>
   regs (outside touching) CAP1188_SENINPUTSTATUS \<noteq> 0 \<and>
   regs (outside touching) CAP1188_MAIN = 1 \<and>
   regs (outside (snd (projr (touched_busio sketch bus_i2c touching)))) CAP1188_MAIN = 0 \<and>
   readRegister_legacy sketch leg_i2c_begun CAP1188_SENINPUTSTATUS touching =
     Inr (5, snd (projr (readRegister_legacy sketch leg_i2c_begun CAP1188_SENINPUTSTATUS touching))) \<and>
   fst (projr (touched_legacy sketch leg_i2c_begun touching)) = 5 \<and>
   made touching (snd (projr (touched_legacy sketch leg_i2c_begun touching))) =
     [RegRead CAP1188_SENINPUTSTATUS 5, RegRead CAP1188_MAIN 1, RegWrite CAP1188_MAIN 0] \<and>
   emitted touching (snd (projr (touched_legacy sketch leg_i2c_begun touching))) =
     [Cmd (Wire_beginTransmission 0 CAP1188_I2CADDR), Cmd (Wire_write 0 CAP1188_SENINPUTSTATUS),
      Cmd (Wire_endTransmission 0), Cmd (Wire_requestFrom 0 CAP1188_I2CADDR 1),
      Ask (Wire_read 0) 5,
      Cmd (Wire_beginTransmission 0 CAP1188_I2CADDR), Cmd (Wire_write 0 CAP1188_MAIN),
      Cmd (Wire_endTransmission 0), Cmd (Wire_requestFrom 0 CAP1188_I2CADDR 1),
      Ask (Wire_read 0) 1,
      Cmd (Wire_beginTransmission 0 CAP1188_I2CADDR), Cmd (Wire_write 0 CAP1188_MAIN),
      Cmd (Wire_write 0 0), Cmd (Wire_endTransmission 0)] \<and>
   attached_legacy sketch_wiring leg_i2c_begun \<and>
   regs (outside (snd (projr (touched_legacy sketch leg_i2c_begun touching)))) CAP1188_MAIN = 0"
proof -
  let ?w1 = "snd (projr (readRegister_busio sketch bus_i2c CAP1188_SENINPUTSTATUS touching))"
  let ?v1 = "snd (readRegister_run sketch leg_i2c_begun CAP1188_SENINPUTSTATUS touching)"
  note li = readRegister_run_i2c_bench
    [OF leg_i2c_begun_fields(1) leg_i2c_begun_fields(4), folded sketch_def]
  have b: "readRegister_busio sketch bus_i2c CAP1188_SENINPUTSTATUS touching = Inr (5, ?w1)"
    and b1: "regs (outside ?w1) CAP1188_MAIN = 1"
    by (simp_all add: readRegister_busio_eq bus_i2c_fields simulate_read_busio fst_ask
          outside_ask sketch_def regs_touching)
  have l: "readRegister_run sketch leg_i2c_begun CAP1188_SENINPUTSTATUS touching = (5, ?v1)"
    and l1: "regs (outside ?v1) CAP1188_MAIN = 1"
    by (simp_all add: prod_eq_iff li regs_touching)
  have ab: "attached_busio sketch_wiring bus_i2c" "i2c_dev bus_i2c \<noteq> None"
    by (simp_all add: bus_i2c_fields)
  have al: "attached_legacy sketch_wiring leg_i2c_begun"
    by (simp add: attached_legacy_def leg_i2c_begun_fields sketch_wiring_fields)
  note s = touching_fields
  from touched_acknowledge
    [where E = sketch and d = bus_i2c and w = touching and t = 5 and ?w1.0 = ?w1
       and F = sketch and l = leg_i2c_begun and v = touching and t' = 5 and ?v1.0 = ?v1
       and W = sketch_wiring and b = bus_i2c and x = touching
       and a = leg_i2c_begun and y = touching, folded sketch_def]
    b l ab al s pointer_bench(1)
  obtain m w2 w3 m' v2 v3 rs1 rs2 rs3 x3
    where rb: "readRegister_busio sketch bus_i2c CAP1188_MAIN ?w1 = Inr (m, w2)"
      and tb: "touched_busio sketch bus_i2c touching = Inr (5, w3)"
      and mb: "made touching w3 = [RegRead CAP1188_SENINPUTSTATUS 5, RegRead CAP1188_MAIN m,
                      RegWrite CAP1188_MAIN (m AND NOT 1)]"
      and eb: "emitted touching w3 = [Ask (read_op_busio bus_i2c CAP1188_SENINPUTSTATUS) 5,
                         Ask (read_op_busio bus_i2c CAP1188_MAIN) m,
                         Cmd (write_op_busio bus_i2c CAP1188_MAIN (m AND NOT 1))]"
      and rl: "readRegister_run sketch leg_i2c_begun CAP1188_MAIN ?v1 = (m', v2)"
      and tl: "touched_run sketch leg_i2c_begun touching = (5, v3)"
      and ml: "made touching v3 = [RegRead CAP1188_SENINPUTSTATUS 5, RegRead CAP1188_MAIN m',
                      RegWrite CAP1188_MAIN (m' AND NOT 1)]"
      and el: "emitted touching v3 =
           read_events_legacy leg_i2c_begun CAP1188_SENINPUTSTATUS rs1 @
           read_events_legacy leg_i2c_begun CAP1188_MAIN rs2 @
           write_events_legacy leg_i2c_begun CAP1188_MAIN (m' AND NOT 1) rs3"
      and vl: "5 = read_value_legacy leg_i2c_begun rs1" "m' = read_value_legacy leg_i2c_begun rs2"
      and xb: "touched_busio sketch bus_i2c touching = Inr (5, x3)"
        "regs (outside x3) = (regs (outside touching))(CAP1188_MAIN := 1 AND NOT 1)"
      and xl: "regs (outside (snd (touched_run sketch leg_i2c_begun touching))) =
        (regs (outside touching))(CAP1188_MAIN := 1 AND NOT 1)"
    unfolding legacy_on_bench
    by (auto simp: regs_touching)
  from rb b1 have m: "m = 1"
    by (simp add: readRegister_busio_eq bus_i2c_fields simulate_read_busio fst_ask sketch_def)
  from rl l1 li(1) [of CAP1188_MAIN ?v1] have m': "m' = 1"
    by simp
  from vl m' have hd: "hd (hd rs1) = 5" "hd (hd rs2) = 1"
    by (simp_all add: read_value_legacy_def leg_i2c_begun_fields)
  from tb xb have x3: "x3 = w3" by simp
  show ?thesis
    using b l tb mb eb tl ml el m m' hd ab al s xb(2) xl x3
    unfolding legacy_on_bench
    by (simp add: read_op_busio_def write_op_busio_def bus_i2c_fields read_events_legacy_def
          write_events_legacy_def leg_i2c_begun_fields regs_touching)
qed

text \<open>
  C4. When the read of the sensor input status register returns 0, \<^verbatim>\<open>touched\<close> returns 0
  and the world it leaves is the world right after that read: one register access, and
  in the BusIO variant one call on the device. This holds for both variants.
\<close>

theorem touched_idle:
  "(readRegister_busio E d CAP1188_SENINPUTSTATUS w = Inr (0, w1) \<longrightarrow>
      touched_busio E d w = Inr (0, w1) \<and>
      made w w1 = [RegRead CAP1188_SENINPUTSTATUS 0] \<and>
      emitted w w1 = [Ask (read_op_busio d CAP1188_SENINPUTSTATUS) 0]) \<and>
   (readRegister_legacy F l CAP1188_SENINPUTSTATUS v = Inr (0, v1) \<longrightarrow>
      touched_legacy F l v = Inr (0, v1) \<and>
      made v v1 = [RegRead CAP1188_SENINPUTSTATUS 0])"
proof (intro conjI impI)
  assume r: "readRegister_busio E d CAP1188_SENINPUTSTATUS w = Inr (0, w1)"
  then show "touched_busio E d w = Inr (0, w1)"
    by (simp add: touched_busio_def)
  from trace_readRegister_busio [OF r]
  show "made w w1 = [RegRead CAP1188_SENINPUTSTATUS 0]"
    and "emitted w w1 = [Ask (read_op_busio d CAP1188_SENINPUTSTATUS) 0]"
    by (simp_all add: emitted_def)
next
  assume r': "readRegister_legacy F l CAP1188_SENINPUTSTATUS v = Inr (0, v1)"
  note p = readRegister_legacy_Inr(1) [OF r'] and r = readRegister_legacy_Inr(2) [OF r']
  from r show "touched_legacy F l v = Inr (0, v1)"
    by (simp add: touched_legacy_eq [OF p] touched_run_def)
  from accesses_readRegister_run [of F l CAP1188_SENINPUTSTATUS v] r
  show "made v v1 = [RegRead CAP1188_SENINPUTSTATUS 0]"
    by simp
qed

theorem touched_idle_witness:
  "readRegister_busio sketch bus_spi_10 CAP1188_SENINPUTSTATUS start =
     Inr (0, snd (projr (readRegister_busio sketch bus_spi_10 CAP1188_SENINPUTSTATUS start))) \<and>
   touched_busio sketch bus_spi_10 start =
     Inr (0, snd (projr (readRegister_busio sketch bus_spi_10 CAP1188_SENINPUTSTATUS start))) \<and>
   made start (snd (projr (readRegister_busio sketch bus_spi_10 CAP1188_SENINPUTSTATUS start))) =
     [RegRead CAP1188_SENINPUTSTATUS 0] \<and>
   readRegister_legacy sketch leg_spi_10 CAP1188_SENINPUTSTATUS start =
     Inr (0, snd (projr (readRegister_legacy sketch leg_spi_10 CAP1188_SENINPUTSTATUS start))) \<and>
   touched_legacy sketch leg_spi_10 start =
     Inr (0, snd (projr (readRegister_legacy sketch leg_spi_10 CAP1188_SENINPUTSTATUS start))) \<and>
   made start (snd (projr (readRegister_legacy sketch leg_spi_10 CAP1188_SENINPUTSTATUS start))) =
     [RegRead CAP1188_SENINPUTSTATUS 0]"
proof -
  have b: "readRegister_busio sketch bus_spi_10 CAP1188_SENINPUTSTATUS start =
     Inr (0, snd (projr (readRegister_busio sketch bus_spi_10 CAP1188_SENINPUTSTATUS start)))"
    by (simp add: readRegister_busio_eq bus_spi_10_fields simulate_read_busio fst_ask sketch_def
          regs_start)
  have l: "readRegister_run sketch leg_spi_10 CAP1188_SENINPUTSTATUS start =
     (0, snd (readRegister_run sketch leg_spi_10 CAP1188_SENINPUTSTATUS start))"
    by (simp add: prod_eq_iff read_legacy_spi_10 regs_start)
  from b l show ?thesis
    using touched_idle
      [of sketch bus_spi_10 start
          "snd (projr (readRegister_busio sketch bus_spi_10 CAP1188_SENINPUTSTATUS start))"
          sketch leg_spi_10 start
          "snd (readRegister_run sketch leg_spi_10 CAP1188_SENINPUTSTATUS start)"]
    unfolding legacy_on_bench
    by (simp add: touched_run_def)
qed

section \<open>Bit-banged SPI\<close>

text \<open>
  C8. A transfer of one byte over software SPI (the original variant, clock pin other
  than \<open>-1\<close>) is eight passes, for bits 7 down to 0: clock low, MOSI set to the bit,
  clock high, MISO read. So MOSI carries the bits of the byte most significant first,
  the clock rises once per bit, eight times per byte, each read of MISO follows a rising
  edge at once, and bit \<open>n\<close> of the reply is the MISO value read in the pass for bit
  \<open>n\<close>. The levels on the pins are read off the trace where MOSI and clock are
  different pins. For \<open>0b10110010\<close> MOSI carries 1, 0, 1, 1, 0, 0, 1, 0.
\<close>

theorem spixfer_bit_banged:
  "l_clk d \<noteq> - 1 \<longrightarrow> spixfer_legacy E d data w = Inr (reply, w') \<longrightarrow>
     (\<exists>rs. length rs = 8 \<and>
        emitted w w' =
          concat (map (\<lambda>(i, r). bit_cycle d data i r) (zip [7, 6, 5, 4, 3, 2, 1, 0] rs)) \<and>
        (\<forall>n < 8. bit reply n = (rs ! (7 - n) \<noteq> 0)) \<and>
        (l_mosi d \<noteq> l_clk d \<longrightarrow>
           levels (l_mosi d) (emitted w w') = map (bit data) [7, 6, 5, 4, 3, 2, 1, 0] \<and>
           levels (l_clk d) (emitted w w') =
             [False, True, False, True, False, True, False, True,
              False, True, False, True, False, True, False, True] \<and>
           rising_edges (levels (l_clk d) (emitted w w')) = 8))"
proof (intro impI)
  assume c: "l_clk d \<noteq> - 1" and x': "spixfer_legacy E d data w = Inr (reply, w')"
  from spixfer_legacy_Inr(2) [OF x'] have x: "spixfer_run E d data w = (reply, w')" .
  from spixfer_soft_trace [OF c x] obtain rs where l: "length rs = 8"
    and t: "trace w' = trace w @
             concat (map (\<lambda>(i, r). bit_cycle d data i r) (zip [7, 6, 5, 4, 3, 2, 1, 0] rs))"
    and r: "reply = msb_first (map (\<lambda>r. r \<noteq> 0) rs)"
    by blast
  from t have e: "emitted w w' =
      concat (map (\<lambda>(i, r). bit_cycle d data i r) (zip [7, 6, 5, 4, 3, 2, 1, 0] rs))"
    by (simp add: emitted_def)
  from l r have b: "\<forall>n < 8. bit reply n = (rs ! (7 - n) \<noteq> 0)"
    by (simp add: bit_msb_first)
  from l obtain r7 r6 r5 r4 r3 r2 r1 r0 where rs: "rs = [r7, r6, r5, r4, r3, r2, r1, r0]"
    by (rule length_8_list)
  have o: "levels (l_mosi d) (emitted w w') = map (bit data) [7, 6, 5, 4, 3, 2, 1, 0] \<and>
           levels (l_clk d) (emitted w w') =
             [False, True, False, True, False, True, False, True,
              False, True, False, True, False, True, False, True] \<and>
           rising_edges (levels (l_clk d) (emitted w w')) = 8"
    if "l_mosi d \<noteq> l_clk d"
    using that by (simp add: e rs bit_cycle_def mask_bits)
  from l e b o show "\<exists>rs. length rs = 8 \<and>
        emitted w w' =
          concat (map (\<lambda>(i, r). bit_cycle d data i r) (zip [7, 6, 5, 4, 3, 2, 1, 0] rs)) \<and>
        (\<forall>n < 8. bit reply n = (rs ! (7 - n) \<noteq> 0)) \<and>
        (l_mosi d \<noteq> l_clk d \<longrightarrow>
           levels (l_mosi d) (emitted w w') = map (bit data) [7, 6, 5, 4, 3, 2, 1, 0] \<and>
           levels (l_clk d) (emitted w w') =
             [False, True, False, True, False, True, False, True,
              False, True, False, True, False, True, False, True] \<and>
           rising_edges (levels (l_clk d) (emitted w w')) = 8)"
    by blast
qed

theorem spixfer_bit_banged_witness:
  "l_clk soft_spi \<noteq> - 1 \<and> l_mosi soft_spi \<noteq> l_clk soft_spi \<and>
   levels (l_mosi soft_spi) (emitted start (snd (projr (spixfer_legacy sketch soft_spi 0xB2 start)))) =
     [True, False, True, True, False, False, True, False] \<and>
   rising_edges
     (levels (l_clk soft_spi) (emitted start (snd (projr (spixfer_legacy sketch soft_spi 0xB2 start))))) = 8"
  using spixfer_bit_banged
    [of soft_spi sketch "0xB2" start "fst (spixfer_run sketch soft_spi 0xB2 start)"
        "snd (spixfer_run sketch soft_spi 0xB2 start)"]
  unfolding legacy_on_bench
  by (auto simp: soft_spi_fields)

section \<open>Register access\<close>




section \<open>The calls of a register read\<close>

text \<open>
  C6 (amended). A \<^verbatim>\<open>readRegister(reg)\<close> on SPI depends on the variant. In the original
  variant (hardware or bit-banged SPI) the driver itself drives chip-select and a read
  that returns has made two bracketed phases inside one SPI transaction: chip-select low, transfer of \<open>0x7D\<close> and
  of \<open>reg\<close>, chip-select high; chip-select low, transfer of \<open>0x7F\<close> and of a zero byte
  whose reply is the value returned, chip-select high. Every transfer is one exchange on
  hardware SPI and eight clocked bits on bit-banged SPI, and where chip-select is a pin of
  its own the levels written to it are low, high, low, high. In the BusIO variant the
  driver makes a single call on its SPI device, a write of the three bytes \<open>0x7D\<close>,
  \<open>reg\<close>, \<open>0x7F\<close> followed by a read of one byte, and never drives chip-select itself:
  it requests one transaction, not two.
\<close>

theorem spi_read_phases:
  "(\<not> l_i2c l \<longrightarrow> readRegister_legacy F l reg u = Inr (v', u') \<longrightarrow>
      (\<exists>rs1 rs2 rs3 rs4.
         length rs1 = xfer_length l \<and> length rs2 = xfer_length l \<and>
         length rs3 = xfer_length l \<and> length rs4 = xfer_length l \<and>
         emitted u u' =
           [Cmd (SPI_beginTransaction (the (l_spi l)) 2000000 SPI_BITORDER_MSBFIRST SPI_MODE0),
            Cmd (digitalWrite (l_cs l) LOW)] @
           xfer_events l 0x7D rs1 @ xfer_events l reg rs2 @
           [Cmd (digitalWrite (l_cs l) HIGH), Cmd (digitalWrite (l_cs l) LOW)] @
           xfer_events l 0x7F rs3 @ xfer_events l 0 rs4 @
           [Cmd (digitalWrite (l_cs l) HIGH), Cmd (SPI_endTransaction (the (l_spi l)))] \<and>
         v' = xfer_reply l rs4) \<and>
      (l_clk l = - 1 \<or> l_cs l \<noteq> l_clk l \<and> l_cs l \<noteq> l_mosi l \<longrightarrow>
         levels (l_cs l) (emitted u u') = [False, True, False, True])) \<and>
   (i2c_dev d = None \<longrightarrow> spi_dev d = Some dev \<longrightarrow>
      readRegister_busio E d reg w = Inr (v, w') \<longrightarrow>
      emitted w w' = [Ask (SPIDevice_write_then_read dev [0x7D, reg, 0x7F] 1) v] \<and>
      device_transactions (emitted w w') = 1)"
proof (intro conjI impI)
  assume spi: "\<not> l_i2c l" and run': "readRegister_legacy F l reg u = Inr (v', u')"
  from readRegister_legacy_Inr(2) [OF run'] have run: "readRegister_run F l reg u = (v', u')" .
  from readRegister_run_spi_events [OF spi run] obtain rs1 rs2 rs3 rs4
    where n: "length rs1 = xfer_length l" "length rs2 = xfer_length l"
        "length rs3 = xfer_length l" "length rs4 = xfer_length l"
      and t: "trace u' = trace u @
             [Cmd (SPI_beginTransaction (the (l_spi l)) 2000000 SPI_BITORDER_MSBFIRST SPI_MODE0),
              Cmd (digitalWrite (l_cs l) LOW)] @
             xfer_events l 0x7D rs1 @ xfer_events l reg rs2 @
             [Cmd (digitalWrite (l_cs l) HIGH), Cmd (digitalWrite (l_cs l) LOW)] @
             xfer_events l 0x7F rs3 @ xfer_events l 0 rs4 @
             [Cmd (digitalWrite (l_cs l) HIGH), Cmd (SPI_endTransaction (the (l_spi l)))]"
      and v: "v' = xfer_reply l rs4"
    by blast
  note e = emitted_append [OF t]
  from e v n show "\<exists>rs1 rs2 rs3 rs4.
         length rs1 = xfer_length l \<and> length rs2 = xfer_length l \<and>
         length rs3 = xfer_length l \<and> length rs4 = xfer_length l \<and>
         emitted u u' =
           [Cmd (SPI_beginTransaction (the (l_spi l)) 2000000 SPI_BITORDER_MSBFIRST SPI_MODE0),
            Cmd (digitalWrite (l_cs l) LOW)] @
           xfer_events l 0x7D rs1 @ xfer_events l reg rs2 @
           [Cmd (digitalWrite (l_cs l) HIGH), Cmd (digitalWrite (l_cs l) LOW)] @
           xfer_events l 0x7F rs3 @ xfer_events l 0 rs4 @
           [Cmd (digitalWrite (l_cs l) HIGH), Cmd (SPI_endTransaction (the (l_spi l)))] \<and>
         v' = xfer_reply l rs4"
    by blast
  assume "l_clk l = - 1 \<or> l_cs l \<noteq> l_clk l \<and> l_cs l \<noteq> l_mosi l"
  from levels_xfer_events [OF this] show "levels (l_cs l) (emitted u u') = [False, True, False, True]"
    by (simp add: e levels_append)
next
  assume "i2c_dev d = None" and "spi_dev d = Some dev"
    and run: "readRegister_busio E d reg w = Inr (v, w')"
  with trace_readRegister_busio [OF run]
  show "emitted w w' = [Ask (SPIDevice_write_then_read dev [0x7D, reg, 0x7F] 1) v]"
    and "device_transactions (emitted w w') = 1"
    by (simp_all add: read_op_busio_def)
qed

theorem spi_read_phases_witness:
  "\<not> l_i2c leg_spi_10 \<and> l_clk leg_spi_10 = - 1 \<and>
   levels (l_cs leg_spi_10)
     (emitted start (snd (projr (readRegister_legacy sketch leg_spi_10 CAP1188_PRODID start)))) =
     [False, True, False, True] \<and>
   i2c_dev bus_spi_10 = None \<and>
   spi_dev bus_spi_10 =
     Some (Adafruit_SPIDevice_hw 10 2000000 SPI_BITORDER_MSBFIRST SPI_MODE0 0) \<and>
   readRegister_busio sketch bus_spi_10 CAP1188_PRODID start =
     Inr (0x50, snd (projr (readRegister_busio sketch bus_spi_10 CAP1188_PRODID start))) \<and>
   emitted start (snd (projr (readRegister_busio sketch bus_spi_10 CAP1188_PRODID start))) =
     [Ask (SPIDevice_write_then_read
             (Adafruit_SPIDevice_hw 10 2000000 SPI_BITORDER_MSBFIRST SPI_MODE0 0)
             [0x7D, CAP1188_PRODID, 0x7F] 1) 0x50]"
proof -
  have b: "readRegister_busio sketch bus_spi_10 CAP1188_PRODID start =
     Inr (0x50, snd (projr (readRegister_busio sketch bus_spi_10 CAP1188_PRODID start)))"
    by (simp add: readRegister_busio_eq bus_spi_10_fields simulate_read_busio fst_ask sketch_def
          regs_start)
  from b show ?thesis
    using spi_read_phases
      [where l = leg_spi_10 and F = sketch and reg = CAP1188_PRODID and u = start
         and v' = "fst (readRegister_run sketch leg_spi_10 CAP1188_PRODID start)"
         and u' = "snd (readRegister_run sketch leg_spi_10 CAP1188_PRODID start)"
         and d = bus_spi_10
         and dev = "Adafruit_SPIDevice_hw 10 2000000 SPI_BITORDER_MSBFIRST SPI_MODE0 0"
         and E = sketch and w = start and v = "0x50"
         and w' = "snd (projr (readRegister_busio sketch bus_spi_10 CAP1188_PRODID start))"]
    unfolding legacy_on_bench
    by (simp add: leg_spi_10_fields bus_spi_10_fields)
qed

text \<open>
  C6 as stated, two chip-select-bracketed phases for every SPI read, fails in the BusIO
  variant: the read of the product id on hardware SPI is one write-then-read call carrying
  \<open>0x7D\<close>, \<open>0xFD\<close>, \<open>0x7F\<close>, so the device is asked for one transaction.
\<close>

theorem spi_read_phases_counterexample:
  "emitted start (snd (projr (readRegister_busio sketch bus_spi_10 CAP1188_PRODID start))) =
     [Ask (SPIDevice_write_then_read
             (Adafruit_SPIDevice_hw 10 2000000 SPI_BITORDER_MSBFIRST SPI_MODE0 0)
             [0x7D, CAP1188_PRODID, 0x7F] 1) 0x50] \<and>
   device_transactions
     (emitted start (snd (projr (readRegister_busio sketch bus_spi_10 CAP1188_PRODID start)))) \<noteq> 2"
proof -
  have b: "readRegister_busio sketch bus_spi_10 CAP1188_PRODID start =
     Inr (0x50, snd (projr (readRegister_busio sketch bus_spi_10 CAP1188_PRODID start)))"
    by (simp add: readRegister_busio_eq bus_spi_10_fields simulate_read_busio fst_ask sketch_def
          regs_start)
  from trace_readRegister_busio [OF b] show ?thesis
    by (simp add: read_op_busio_def bus_spi_10_fields)
qed

text \<open>
  C7 (amended). A \<^verbatim>\<open>readRegister(reg)\<close> on I2C depends on the variant. In the BusIO
  variant it is a single combined write-then-read call on the I2C device: the register
  address is written and one byte read back, whose value is returned. In the original
  variant it is two transmissions on the Wire bus: \<^verbatim>\<open>beginTransmission\<close>, a write of the
  register address, \<^verbatim>\<open>endTransmission()\<close> (which with no argument ends the write with a
  stop condition), then \<^verbatim>\<open>requestFrom\<close> of one byte and a \<^verbatim>\<open>read\<close>, whose value is
  returned.
\<close>

theorem i2c_read_transaction:
  "(i2c_dev d = Some dev \<longrightarrow> readRegister_busio E d reg w = Inr (v, w') \<longrightarrow>
      emitted w w' = [Ask (I2CDevice_write_then_read dev [reg] 1) v] \<and> combined (emitted w w')) \<and>
   (l_i2c l \<longrightarrow> readRegister_legacy F l reg u = Inr (v', u') \<longrightarrow>
      emitted u u' =
        [Cmd (Wire_beginTransmission (the (l_wire l)) (l_i2caddr l)),
         Cmd (Wire_write (the (l_wire l)) reg),
         Cmd (Wire_endTransmission (the (l_wire l))),
         Cmd (Wire_requestFrom (the (l_wire l)) (l_i2caddr l) 1),
         Ask (Wire_read (the (l_wire l))) v'])"
proof (intro conjI impI)
  assume "i2c_dev d = Some dev" and run: "readRegister_busio E d reg w = Inr (v, w')"
  with trace_readRegister_busio [OF run]
  show "emitted w w' = [Ask (I2CDevice_write_then_read dev [reg] 1) v]"
    and "combined (emitted w w')"
    by (simp_all add: read_op_busio_def)
next
  assume i2c: "l_i2c l" and run': "readRegister_legacy F l reg u = Inr (v', u')"
  from readRegister_legacy_Inr(2) [OF run'] have run: "readRegister_run F l reg u = (v', u')" .
  let ?u4 = "exec F (Wire_requestFrom (the (l_wire l)) (l_i2caddr l) 1)
               (exec F (Wire_endTransmission (the (l_wire l)))
                 (i2cwrite_run F l reg
                   (exec F (Wire_beginTransmission (the (l_wire l)) (l_i2caddr l)) u)))"
  obtain r u5 where a: "ask F (Wire_read (the (l_wire l))) ?u4 = (r, u5)"
    by (cases "ask F (Wire_read (the (l_wire l))) ?u4")
  from run i2c a have "v' = r" and "u' = log_access (RegRead reg r) u5"
    by (auto simp: readRegister_run_def Let_def)
  with ask_result [OF a]
  show "emitted u u' =
        [Cmd (Wire_beginTransmission (the (l_wire l)) (l_i2caddr l)),
         Cmd (Wire_write (the (l_wire l)) reg),
         Cmd (Wire_endTransmission (the (l_wire l))),
         Cmd (Wire_requestFrom (the (l_wire l)) (l_i2caddr l) 1),
         Ask (Wire_read (the (l_wire l))) v']"
    by (simp add: i2cwrite_run_def emitted_def)
qed

theorem i2c_read_transaction_witness:
  "i2c_dev bus_i2c = Some (Adafruit_I2CDevice CAP1188_I2CADDR 0) \<and>
   readRegister_busio sketch bus_i2c CAP1188_PRODID start =
     Inr (0x50, snd (projr (readRegister_busio sketch bus_i2c CAP1188_PRODID start))) \<and>
   emitted start (snd (projr (readRegister_busio sketch bus_i2c CAP1188_PRODID start))) =
     [Ask (I2CDevice_write_then_read (Adafruit_I2CDevice CAP1188_I2CADDR 0) [CAP1188_PRODID] 1)
        0x50] \<and>
   l_i2c leg_i2c_begun \<and>
   emitted start (snd (projr (readRegister_legacy sketch leg_i2c_begun CAP1188_PRODID start))) =
     [Cmd (Wire_beginTransmission 0 CAP1188_I2CADDR),
      Cmd (Wire_write 0 CAP1188_PRODID),
      Cmd (Wire_endTransmission 0),
      Cmd (Wire_requestFrom 0 CAP1188_I2CADDR 1),
      Ask (Wire_read 0) 0x50]"
proof -
  have b: "readRegister_busio sketch bus_i2c CAP1188_PRODID start =
     Inr (0x50, snd (projr (readRegister_busio sketch bus_i2c CAP1188_PRODID start)))"
    by (simp add: readRegister_busio_eq bus_i2c_fields simulate_read_busio fst_ask sketch_def
          regs_start)
  have l: "fst (readRegister_run sketch leg_i2c_begun CAP1188_PRODID start) = 0x50"
    unfolding sketch_def
    by (simp add: readRegister_run_i2c_bench(1)
          [OF leg_i2c_begun_fields(1) leg_i2c_begun_fields(4)] regs_start)
  from l have l: "readRegister_run sketch leg_i2c_begun CAP1188_PRODID start =
      (0x50, snd (readRegister_run sketch leg_i2c_begun CAP1188_PRODID start))"
    by (simp add: prod_eq_iff)
  from b l show ?thesis
    using i2c_read_transaction
      [where d = bus_i2c and dev = "Adafruit_I2CDevice CAP1188_I2CADDR 0" and E = sketch
         and reg = CAP1188_PRODID and w = start and v = "0x50"
         and w' = "snd (projr (readRegister_busio sketch bus_i2c CAP1188_PRODID start))"
         and l = leg_i2c_begun and F = sketch and u = start
         and v' = "0x50"
         and u' = "snd (readRegister_run sketch leg_i2c_begun CAP1188_PRODID start)"]
    unfolding legacy_on_bench
    by (simp add: bus_i2c_fields leg_i2c_begun_fields)
qed

text \<open>
  C7 as stated, one combined transaction with no stop between the address write and the
  read, fails in the original variant: the read of the product id at address \<open>0x29\<close>
  calls \<^verbatim>\<open>endTransmission()\<close> between the write of the address byte and
  \<^verbatim>\<open>requestFrom\<close>.
\<close>

theorem i2c_read_transaction_counterexample:
  "emitted start (snd (projr (readRegister_legacy sketch leg_i2c_begun CAP1188_PRODID start))) =
     [Cmd (Wire_beginTransmission 0 CAP1188_I2CADDR),
      Cmd (Wire_write 0 CAP1188_PRODID),
      Cmd (Wire_endTransmission 0),
      Cmd (Wire_requestFrom 0 CAP1188_I2CADDR 1),
      Ask (Wire_read 0) 0x50] \<and>
   \<not> combined (emitted start (snd (projr (readRegister_legacy sketch leg_i2c_begun CAP1188_PRODID start))))"
proof -
  have l: "fst (readRegister_run sketch leg_i2c_begun CAP1188_PRODID start) = 0x50"
    unfolding sketch_def
    by (simp add: readRegister_run_i2c_bench(1)
          [OF leg_i2c_begun_fields(1) leg_i2c_begun_fields(4)] regs_start)
  have "trace (snd (readRegister_run sketch leg_i2c_begun CAP1188_PRODID start)) =
          trace start @
          [Cmd (Wire_beginTransmission 0 CAP1188_I2CADDR),
           Cmd (Wire_write 0 CAP1188_PRODID),
           Cmd (Wire_endTransmission 0),
           Cmd (Wire_requestFrom 0 CAP1188_I2CADDR 1),
           Ask (Wire_read 0) (fst (readRegister_run sketch leg_i2c_begun CAP1188_PRODID start))]"
    by (simp add: readRegister_run_def i2cwrite_run_def Let_def case_prod_beta
          leg_i2c_begun_fields trace_exec trace_ask trace_log_access)
  with l show ?thesis
    unfolding legacy_on_bench
    by simp
qed

end
